theory Spec2Isabelle
  imports Main "HOL-Library.Sublist"
begin

section \<open>JavaScript strings\<close>

text \<open>
  A JavaScript string is a sequence of UTF-16 code units. A code unit is modelled as a
  natural number and a string as the list of its code units, so that \<open>length\<close> is the
  \<^verbatim>\<open>.length\<close> of the source and \<open>take n\<close> is \<^verbatim>\<open>.substring(0, n)\<close>. The literals of
  the source are ASCII apart from the em dash and the middle dot; \<open>js\<close> turns an ASCII
  literal into its code units.
\<close>

type_synonym jschar = nat
type_synonym jsstring = "jschar list"

definition js :: "string \<Rightarrow> jsstring" where
  "js s = map of_char s"

text \<open>
  \<^verbatim>\<open>String.prototype.trim\<close> removes WhiteSpace and LineTerminator code units from both
  ends: TAB, LF, VT, FF, CR, SP, NBSP, U+1680, U+2000..U+200A, U+2028, U+2029, U+202F,
  U+205F, U+3000 and U+FEFF. The class \<^verbatim>\<open>\s\<close> of a regular expression is the same set.
\<close>

definition is_space :: "jschar \<Rightarrow> bool" where
  "is_space c =
     (c \<in> set [9, 10, 11, 12, 13, 32, 160, 5760, 8232, 8233, 8239, 8287, 12288, 65279]
      \<or> (8192 \<le> c \<and> c \<le> 8202))"

definition trim :: "jsstring \<Rightarrow> jsstring" where
  "trim s = rev (dropWhile is_space (rev (dropWhile is_space s)))"

text \<open>\<^verbatim>\<open>s.startsWith(p)\<close> is \<open>prefix p s\<close>. \<open>split_first p s\<close> cuts \<open>s\<close> around the
  first occurrence of \<open>p\<close>; \<^verbatim>\<open>s.includes(p)\<close> and \<^verbatim>\<open>s.replace(p, r)\<close> with a string
  pattern (only the first occurrence is replaced) are read off it.\<close>

fun split_first :: "jsstring \<Rightarrow> jsstring \<Rightarrow> (jsstring \<times> jsstring) option" where
  "split_first p [] = (if p = [] then Some ([], []) else None)"
| "split_first p (x # xs) =
     (if prefix p (x # xs) then Some ([], drop (length p) (x # xs))
      else map_option (\<lambda>(a, b). (x # a, b)) (split_first p xs))"

definition includes_str :: "jsstring \<Rightarrow> jsstring \<Rightarrow> bool" where
  "includes_str s p = (split_first p s \<noteq> None)"

definition replace_str :: "jsstring \<Rightarrow> jsstring \<Rightarrow> jsstring \<Rightarrow> jsstring" where
  "replace_str s p r = (case split_first p s of None \<Rightarrow> s | Some (a, b) \<Rightarrow> a @ r @ b)"

section \<open>Exceptions and effects\<close>

text \<open>
  A JavaScript exception is a value of type \<open>error\<close>; a computation that may throw
  returns \<open>error + 'a\<close>. The handlers talk to the network and to the language model;
  what they asked for, in order, is kept in a \<open>trace\<close>. An action takes the trace so far
  and returns its result with the extended trace.
\<close>

datatype error = TypeError | SyntaxError | URIError | FetchError | ApiError

datatype stage = Suggest | Messaging | Visuals | FirstImpressions | Comparator | Takeaways

record trace =
  requests :: "jsstring list"
  llm_calls :: "stage list"

type_synonym 'a act = "trace \<Rightarrow> (error + 'a) \<times> trace"

definition ret :: "'a \<Rightarrow> 'a act" where
  "ret x = (\<lambda>t. (Inr x, t))"

definition throw :: "error \<Rightarrow> 'a act" where
  "throw e = (\<lambda>t. (Inl e, t))"

definition bnd :: "'a act \<Rightarrow> ('a \<Rightarrow> 'b act) \<Rightarrow> 'b act" where
  "bnd m f = (\<lambda>t. case m t of (Inl e, t') \<Rightarrow> (Inl e, t') | (Inr x, t') \<Rightarrow> f x t')"

definition try_catch :: "'a act \<Rightarrow> (error \<Rightarrow> 'a act) \<Rightarrow> 'a act" where
  "try_catch m h = (\<lambda>t. case m t of (Inl e, t') \<Rightarrow> h e t' | (Inr x, t') \<Rightarrow> (Inr x, t'))"

section \<open>URL normalization and the content fetcher\<close>

text \<open>
  \<^verbatim>\<open>normalizeUrl\<close> is the same text in the three programs of the repository
  (suggest-competitors function, audit function, server):
  \<^verbatim>\<open>url = url.trim(); if (!url.startsWith('http://') && !url.startsWith('https://'))
    url = 'https://' + url; return url;\<close>
\<close>

definition normalizeUrl :: "jsstring \<Rightarrow> jsstring" where
  "normalizeUrl url =
     (let url = trim url in
      if \<not> prefix (js ''http://'') url \<and> \<not> prefix (js ''https://'') url
      then js ''https://'' @ url
      else url)"

text \<open>
  The network is a function \<open>net\<close> from the requested URL to the text of the response,
  \<open>None\<close> when \<^verbatim>\<open>fetch(url)\<close> or \<^verbatim>\<open>response.text()\<close> rejects. A response with a
  non-success status has a text like any other. \<open>http_get\<close> is the pair of awaits
  \<^verbatim>\<open>const response = await fetch(url); return await response.text()\<close>.
\<close>

definition http_get :: "(jsstring \<Rightarrow> jsstring option) \<Rightarrow> jsstring \<Rightarrow> jsstring act" where
  "http_get net url =
     (\<lambda>t. (case net url of None \<Rightarrow> Inl FetchError | Some body \<Rightarrow> Inr body,
           t\<lparr>requests := requests t @ [url]\<rparr>))"

definition www_url :: "jsstring \<Rightarrow> jsstring" where
  "www_url url = replace_str url (js ''://'') (js ''://www.'')"

text \<open>The fetcher of the two functions (result \<open>None\<close> is \<^verbatim>\<open>null\<close>).\<close>

definition fetchWebsite_fn :: "(jsstring \<Rightarrow> jsstring option) \<Rightarrow> jsstring \<Rightarrow> jsstring option act" where
  "fetchWebsite_fn net url0 =
     (let url = normalizeUrl url0 in
      try_catch (bnd (http_get net url) (\<lambda>html. ret (Some html)))
        (\<lambda>error.
           try_catch (bnd (http_get net (www_url url)) (\<lambda>html. ret (Some html)))
             (\<lambda>e. ret None)))"

text \<open>The fetcher of the server retries only when the URL has no \<^verbatim>\<open>://www.\<close> yet.\<close>

definition fetchWebsite_server :: "(jsstring \<Rightarrow> jsstring option) \<Rightarrow> jsstring \<Rightarrow> jsstring option act" where
  "fetchWebsite_server net url0 =
     (let url = normalizeUrl url0 in
      try_catch (bnd (http_get net url) (\<lambda>html. ret (Some html)))
        (\<lambda>error.
           if \<not> includes_str url (js ''://www.'')
           then try_catch (bnd (http_get net (www_url url)) (\<lambda>html. ret (Some html)))
                  (\<lambda>e. ret None)
           else ret None))"

section \<open>Regular expressions\<close>

text \<open>
  The extractor and the reply parsers are written with regular expressions. \<open>re\<close> is
  the syntax the program uses: literals, character classes (members listed, a range
  written out), \<^verbatim>\<open>[\s\S]\<close>, \<^verbatim>\<open>\s\<close>, sequence, alternation, the greedy and the lazy
  star, \<^verbatim>\<open>?\<close>, the capture group (no expression of the program has more than one),
  negative lookahead, \<^verbatim>\<open>\b\<close>, \<^verbatim>\<open>^\<close> and \<^verbatim>\<open>$\<close>.
\<close>

datatype re =
    Lit jsstring
  | Cls "jschar list"
  | NCls "jschar list"
  | AnyC
  | Space
  | Seq re re
  | Alt re re
  | Star bool re
  | Opt re
  | Grp re
  | NLook re
  | WordB
  | Bol
  | Eol

datatype frame = R re | Prog nat | CapEnd nat jsstring

type_synonym mstate = "nat \<times> jschar option \<times> jsstring \<times> jsstring option"

text \<open>
  With the \<^verbatim>\<open>i\<close> flag two code units match when their canonical forms are equal. The
  literals and classes of the program's expressions are ASCII, and the canonical form of a
  code unit from 128 on is never ASCII, so folding \<^verbatim>\<open>a\<close>..\<^verbatim>\<open>z\<close> to upper case decides
  every comparison the program makes. \<open>is_word\<close> is the class behind \<^verbatim>\<open>\b\<close>.
\<close>

definition canon :: "bool \<Rightarrow> jschar \<Rightarrow> jschar" where
  "canon ci c = (if ci \<and> 97 \<le> c \<and> c \<le> 122 then c - 32 else c)"

definition is_word :: "jschar \<Rightarrow> bool" where
  "is_word c = ((48 \<le> c \<and> c \<le> 57) \<or> (65 \<le> c \<and> c \<le> 90) \<or> c = 95 \<or> (97 \<le> c \<and> c \<le> 122))"

definition word_opt :: "jschar option \<Rightarrow> bool" where
  "word_opt x = (case x of None \<Rightarrow> False | Some c \<Rightarrow> is_word c)"

definition in_class :: "bool \<Rightarrow> jschar list \<Rightarrow> jschar \<Rightarrow> bool" where
  "in_class ci ms x = (canon ci x \<in> set (map (canon ci) ms))"

text \<open>
  The matcher is the backtracking matcher of ECMAScript with its continuation written as
  a stack of frames: \<open>run ci k st\<close> matches the frames of \<open>k\<close> in order from state
  \<open>st\<close> (index, previous code unit, rest of the input, capture) and returns the end state
  of the first successful path. A choice tries its first alternative with the whole
  continuation before its second. \<open>Prog i\<close> is the check of RepeatMatcher that an
  iteration of a repetition has consumed input; \<open>CapEnd i s\<close> closes the group opened
  at index \<open>i\<close>, where the input was \<open>s\<close>. A repetition clears the captures of its body
  when an iteration starts. \<open>wr\<close> and \<open>wt\<close> only measure termination.
\<close>

fun has_group :: "re \<Rightarrow> bool" where
  "has_group (Grp r) = True"
| "has_group (Seq a b) = (has_group a \<or> has_group b)"
| "has_group (Alt a b) = (has_group a \<or> has_group b)"
| "has_group (Star g r) = has_group r"
| "has_group (Opt r) = has_group r"
| "has_group (NLook r) = has_group r"
| "has_group r = False"

fun wr :: "re \<Rightarrow> nat" where
  "wr (Seq a b) = 1 + wr a + wr b"
| "wr (Alt a b) = 1 + wr a + wr b"
| "wr (Star g r) = 1 + wr r"
| "wr (Opt r) = 1 + wr r"
| "wr (Grp r) = 2 + wr r"
| "wr (NLook r) = 1 + wr r"
| "wr _ = 1"

fun wt :: "frame list \<Rightarrow> nat \<Rightarrow> nat" where
  "wt [] i = 0"
| "wt (R r # k) i = wr r + wt k i"
| "wt (Prog i0 # k) i = (if i0 < i then 1 + wt k i else 0)"
| "wt (CapEnd i0 s0 # k) i = 1 + wt k i"

function run :: "bool \<Rightarrow> frame list \<Rightarrow> mstate \<Rightarrow> mstate option" where
  "run ci [] st = Some st"
| "run ci (R (Lit []) # k) st = run ci k st"
| "run ci (R (Lit (p # ps)) # k) (i, pv, [], c) = None"
| "run ci (R (Lit (p # ps)) # k) (i, pv, x # xs, c) =
     (if canon ci p = canon ci x then run ci (R (Lit ps) # k) (Suc i, Some x, xs, c) else None)"
| "run ci (R (Cls ms) # k) (i, pv, [], c) = None"
| "run ci (R (Cls ms) # k) (i, pv, x # xs, c) =
     (if in_class ci ms x then run ci k (Suc i, Some x, xs, c) else None)"
| "run ci (R (NCls ms) # k) (i, pv, [], c) = None"
| "run ci (R (NCls ms) # k) (i, pv, x # xs, c) =
     (if in_class ci ms x then None else run ci k (Suc i, Some x, xs, c))"
| "run ci (R AnyC # k) (i, pv, [], c) = None"
| "run ci (R AnyC # k) (i, pv, x # xs, c) = run ci k (Suc i, Some x, xs, c)"
| "run ci (R Space # k) (i, pv, [], c) = None"
| "run ci (R Space # k) (i, pv, x # xs, c) =
     (if is_space x then run ci k (Suc i, Some x, xs, c) else None)"
| "run ci (R (Seq a b) # k) st = run ci (R a # R b # k) st"
| "run ci (R (Alt a b) # k) st =
     (case run ci (R a # k) st of Some e \<Rightarrow> Some e | None \<Rightarrow> run ci (R b # k) st)"
| "run ci (R (Star g r) # k) (i, pv, s, c) =
     (if g
      then (case run ci (R r # Prog i # R (Star g r) # k)
                  (i, pv, s, if has_group r then None else c) of
              Some e \<Rightarrow> Some e | None \<Rightarrow> run ci k (i, pv, s, c))
      else (case run ci k (i, pv, s, c) of
              Some e \<Rightarrow> Some e
            | None \<Rightarrow> run ci (R r # Prog i # R (Star g r) # k)
                        (i, pv, s, if has_group r then None else c)))"
| "run ci (R (Opt r) # k) (i, pv, s, c) =
     (case run ci (R r # Prog i # k) (i, pv, s, if has_group r then None else c) of
        Some e \<Rightarrow> Some e | None \<Rightarrow> run ci k (i, pv, s, c))"
| "run ci (Prog i0 # k) (i, pv, s, c) = (if i0 < i then run ci k (i, pv, s, c) else None)"
| "run ci (R (Grp r) # k) (i, pv, s, c) = run ci (R r # CapEnd i s # k) (i, pv, s, c)"
| "run ci (CapEnd i0 s0 # k) (i, pv, s, c) = run ci k (i, pv, s, Some (take (i - i0) s0))"
| "run ci (R (NLook r) # k) st =
     (case run ci [R r] st of Some e \<Rightarrow> None | None \<Rightarrow> run ci k st)"
| "run ci (R WordB # k) (i, pv, s, c) =
     (if word_opt pv \<noteq> word_opt (case s of [] \<Rightarrow> None | x # xs \<Rightarrow> Some x)
      then run ci k (i, pv, s, c) else None)"
| "run ci (R Bol # k) (i, pv, s, c) = (if i = 0 then run ci k (i, pv, s, c) else None)"
| "run ci (R Eol # k) (i, pv, s, c) = (if s = [] then run ci k (i, pv, s, c) else None)"
  by pat_completeness auto
termination
  by (relation "inv_image (less_than <*lex*> less_than)
        (\<lambda>(ci, k, (i, pv, s, c)). (length s, wt k i))") auto

definition Plus :: "re \<Rightarrow> re" where
  "Plus r = Seq r (Star True r)"

definition lit :: "string \<Rightarrow> re" where
  "lit s = Lit (js s)"

fun seq :: "re list \<Rightarrow> re" where
  "seq [] = Lit []"
| "seq [r] = r"
| "seq (r # rs) = Seq r (seq rs)"

fun rep_between :: "nat \<Rightarrow> nat \<Rightarrow> re \<Rightarrow> re" where
  "rep_between 0 0 r = Lit []"
| "rep_between 0 (Suc n) r = Opt (Seq r (rep_between 0 n r))"
| "rep_between (Suc m) (Suc n) r = Seq r (rep_between m n r)"
| "rep_between (Suc m) 0 r = Lit []"

text \<open>
  \<open>match_at\<close> is one attempt at one index: the matched text and the capture.
  \<open>exec\<close> is \<^verbatim>\<open>s.match(r)\<close> without the \<^verbatim>\<open>g\<close> flag (the leftmost match),
  \<open>match_all\<close> is \<^verbatim>\<open>s.match(r) || []\<close> with the \<^verbatim>\<open>g\<close> flag, and \<open>replace_all\<close> is
  \<^verbatim>\<open>s.replace(r, rep)\<close> with the \<^verbatim>\<open>g\<close> flag and a replacement without \<^verbatim>\<open>$\<close>. The
  scans walk the input once; \<open>skip\<close> counts the code units still covered by the last
  match, and after an empty match the scan moves on by one code unit.
\<close>

definition match_at :: "bool \<Rightarrow> re \<Rightarrow> nat \<Rightarrow> jschar option \<Rightarrow> jsstring \<Rightarrow> (jsstring \<times> jsstring option) option" where
  "match_at ci r i pv s =
     (case run ci [R r] (i, pv, s, None) of None \<Rightarrow> None
      | Some (i', pv', s', c) \<Rightarrow> Some (take (i' - i) s, c))"

fun exec_from :: "bool \<Rightarrow> re \<Rightarrow> nat \<Rightarrow> jschar option \<Rightarrow> jsstring \<Rightarrow> (jsstring \<times> jsstring option) option" where
  "exec_from ci r i pv [] = match_at ci r i pv []"
| "exec_from ci r i pv (x # xs) =
     (case match_at ci r i pv (x # xs) of None \<Rightarrow> exec_from ci r (Suc i) (Some x) xs
      | Some e \<Rightarrow> Some e)"

definition exec :: "bool \<Rightarrow> re \<Rightarrow> jsstring \<Rightarrow> (jsstring \<times> jsstring option) option" where
  "exec ci r s = exec_from ci r 0 None s"

fun replace_scan :: "bool \<Rightarrow> re \<Rightarrow> jsstring \<Rightarrow> nat \<Rightarrow> nat \<Rightarrow> jschar option \<Rightarrow> jsstring \<Rightarrow> jsstring" where
  "replace_scan ci r rep skip i pv [] =
     (if skip = 0 then (case match_at ci r i pv [] of None \<Rightarrow> [] | Some e \<Rightarrow> rep) else [])"
| "replace_scan ci r rep skip i pv (x # xs) =
     (if 0 < skip then replace_scan ci r rep (skip - 1) (Suc i) (Some x) xs
      else (case match_at ci r i pv (x # xs) of
              None \<Rightarrow> x # replace_scan ci r rep 0 (Suc i) (Some x) xs
            | Some (mt, c) \<Rightarrow>
                if mt = [] then rep @ x # replace_scan ci r rep 0 (Suc i) (Some x) xs
                else rep @ replace_scan ci r rep (length mt - 1) (Suc i) (Some x) xs))"

definition replace_all :: "bool \<Rightarrow> re \<Rightarrow> jsstring \<Rightarrow> jsstring \<Rightarrow> jsstring" where
  "replace_all ci r rep s = replace_scan ci r rep 0 0 None s"

fun match_scan :: "bool \<Rightarrow> re \<Rightarrow> nat \<Rightarrow> nat \<Rightarrow> jschar option \<Rightarrow> jsstring \<Rightarrow> jsstring list" where
  "match_scan ci r skip i pv [] =
     (if skip = 0 then (case match_at ci r i pv [] of None \<Rightarrow> [] | Some (mt, c) \<Rightarrow> [mt]) else [])"
| "match_scan ci r skip i pv (x # xs) =
     (if 0 < skip then match_scan ci r (skip - 1) (Suc i) (Some x) xs
      else (case match_at ci r i pv (x # xs) of
              None \<Rightarrow> match_scan ci r 0 (Suc i) (Some x) xs
            | Some (mt, c) \<Rightarrow> mt # match_scan ci r (length mt - 1) (Suc i) (Some x) xs))"

definition match_all :: "bool \<Rightarrow> re \<Rightarrow> jsstring \<Rightarrow> jsstring list" where
  "match_all ci r s = match_scan ci r 0 0 None s"

text \<open>\<^verbatim>\<open>s.split(d)\<close> for a separator of one code unit, \<^verbatim>\<open>xs.join(sep)\<close> for an array
  of strings, and \<^verbatim>\<open>[...new Set(xs)]\<close>, which keeps the first occurrence of each
  element (\<open>uniq []\<close>).\<close>

fun split_char :: "jschar \<Rightarrow> jsstring \<Rightarrow> jsstring list" where
  "split_char d [] = [[]]"
| "split_char d (x # xs) =
     (if x = d then [] # split_char d xs
      else (case split_char d xs of [] \<Rightarrow> [[x]] | h # t \<Rightarrow> (x # h) # t))"

fun join_str :: "jsstring \<Rightarrow> jsstring list \<Rightarrow> jsstring" where
  "join_str sep [] = []"
| "join_str sep [x] = x"
| "join_str sep (x # y # ys) = x @ sep @ join_str sep (y # ys)"

fun uniq :: "'a list \<Rightarrow> 'a list \<Rightarrow> 'a list" where
  "uniq seen [] = []"
| "uniq seen (x # xs) = (if x \<in> set seen then uniq seen xs else x # uniq (x # seen) xs)"

section \<open>The expressions of the program\<close>

text \<open>
  \<open>quotes\<close> is the class \<^verbatim>\<open>["']\<close>; code unit 34 is the double quote, 39 the single
  quote, 59 the semicolon, 44 the comma, 38 the ampersand.
  \<^item> \<open>re_title\<close>: \<^verbatim>\<open>/<title[^>]*>([\s\S]*?)<\/title>/i\<close>
  \<^item> \<open>re_meta_name_first\<close>:
    \<^verbatim>\<open>/<meta[^>]*name=["']description["'][^>]*content=["']([^"']+)["']/i\<close>
  \<^item> \<open>re_meta_content_first\<close>:
    \<^verbatim>\<open>/<meta[^>]*content=["']([^"']+)["'][^>]*name=["']description["']/i\<close>
  \<^item> \<open>re_h1\<close>, \<open>re_h2\<close>: \<^verbatim>\<open>/<h1[^>]*>([\s\S]*?)<\/h1>/i\<close> and the same for \<^verbatim>\<open>h2\<close>
  \<^item> \<open>re_p_hero\<close>:
    \<^verbatim>\<open>/<p[^>]*class="[^"]*(?:hero|subtitle|lead|intro)[^"]*"[^>]*>([\s\S]*?)<\/p>/i\<close>
  \<^item> \<open>re_tag\<close>: \<^verbatim>\<open>/<[^>]+>/g\<close>
  \<^item> \<open>re_color\<close>:
    \<^verbatim>\<open>/(?:color|background|background-color)\s*:\s*(#[0-9a-fA-F]{3,6}|rgb\([^)]+\)|[a-z]+)/gi\<close>
  \<^item> \<open>re_font_family\<close>: \<^verbatim>\<open>/font-family\s*:\s*['"]?([^'";,]+)/gi\<close>
  \<^item> \<open>re_quote\<close>: \<^verbatim>\<open>/['"]/g\<close>
  \<^item> \<open>re_google_fonts\<close>: \<^verbatim>\<open>/fonts\.googleapis\.com\/css[^"']+family=([^"'&]+)/i\<close>
  \<^item> \<open>re_script\<close>: \<^verbatim>\<open>/<script\b[^<]*(?:(?!<\/script>)<[^<]*)*<\/script>/gi\<close>, and
    \<open>re_style\<close> the same for \<^verbatim>\<open>style\<close>
  \<^item> \<open>re_spaces\<close>: \<^verbatim>\<open>/\s+/g\<close>; \<open>re_nbsp\<close> ... \<open>re_quot\<close>: the five entities
  \<^item> \<open>re_json\<close>: \<^verbatim>\<open>/\{[\s\S]*\}/\<close>, the span from the first \<^verbatim>\<open>{\<close> to the last
    \<^verbatim>\<open>}\<close> of a reply
\<close>

definition quotes :: "jschar list" where
  "quotes = [34, 39]"

definition re_title :: re where
  "re_title = seq [lit ''<title'', Star True (NCls (js ''>'')), lit ''>'',
     Grp (Star False AnyC), lit ''</title>'']"

definition re_meta_name_first :: re where
  "re_meta_name_first = seq [lit ''<meta'', Star True (NCls (js ''>'')), lit ''name='',
     Cls quotes, lit ''description'', Cls quotes, Star True (NCls (js ''>'')),
     lit ''content='', Cls quotes, Grp (Plus (NCls quotes)), Cls quotes]"

definition re_meta_content_first :: re where
  "re_meta_content_first = seq [lit ''<meta'', Star True (NCls (js ''>'')), lit ''content='',
     Cls quotes, Grp (Plus (NCls quotes)), Cls quotes, Star True (NCls (js ''>'')),
     lit ''name='', Cls quotes, lit ''description'', Cls quotes]"

definition re_h1 :: re where
  "re_h1 = seq [lit ''<h1'', Star True (NCls (js ''>'')), lit ''>'',
     Grp (Star False AnyC), lit ''</h1>'']"

definition re_h2 :: re where
  "re_h2 = seq [lit ''<h2'', Star True (NCls (js ''>'')), lit ''>'',
     Grp (Star False AnyC), lit ''</h2>'']"

definition re_p_hero :: re where
  "re_p_hero = seq [lit ''<p'', Star True (NCls (js ''>'')), Lit (js ''class='' @ [34]),
     Star True (NCls [34]),
     Alt (lit ''hero'') (Alt (lit ''subtitle'') (Alt (lit ''lead'') (lit ''intro''))),
     Star True (NCls [34]), Lit [34], Star True (NCls (js ''>'')), lit ''>'',
     Grp (Star False AnyC), lit ''</p>'']"

definition re_tag :: re where
  "re_tag = seq [lit ''<'', Plus (NCls (js ''>'')), lit ''>'']"

definition re_color :: re where
  "re_color = seq [Alt (lit ''color'') (Alt (lit ''background'') (lit ''background-color'')),
     Star True Space, lit '':'', Star True Space,
     Grp (Alt (Seq (lit ''#'') (rep_between 3 6 (Cls (js ''0123456789abcdefABCDEF''))))
         (Alt (seq [lit ''rgb('', Plus (NCls (js '')'')), lit '')''])
              (Plus (Cls (js ''abcdefghijklmnopqrstuvwxyz'')))))]"

definition re_font_family :: re where
  "re_font_family = seq [lit ''font-family'', Star True Space, lit '':'', Star True Space,
     Opt (Cls quotes), Grp (Plus (NCls [39, 34, 59, 44]))]"

definition re_quote :: re where
  "re_quote = Cls quotes"

definition re_google_fonts :: re where
  "re_google_fonts = seq [lit ''fonts.googleapis.com/css'', Plus (NCls quotes),
     lit ''family='', Grp (Plus (NCls [34, 39, 38]))]"

definition re_script :: re where
  "re_script = seq [lit ''<script'', WordB, Star True (NCls (js ''<'')),
     Star True (seq [NLook (lit ''</script>''), lit ''<'', Star True (NCls (js ''<''))]),
     lit ''</script>'']"

definition re_style :: re where
  "re_style = seq [lit ''<style'', WordB, Star True (NCls (js ''<'')),
     Star True (seq [NLook (lit ''</style>''), lit ''<'', Star True (NCls (js ''<''))]),
     lit ''</style>'']"

definition re_spaces :: re where
  "re_spaces = Plus Space"


definition re_nbsp :: re where "re_nbsp = lit ''&nbsp;''"
definition re_amp :: re where "re_amp = lit ''&amp;''"
definition re_lt :: re where "re_lt = lit ''&lt;''"
definition re_gt :: re where "re_gt = lit ''&gt;''"
definition re_quot :: re where "re_quot = lit ''&quot;''"

definition re_json :: re where
  "re_json = seq [lit ''{'', Star True AnyC, lit ''}'']"

section \<open>decodeURIComponent\<close>

text \<open>
  Pure code that may throw returns \<open>error + 'a\<close>; \<open>ebind\<close> sequences it.
  \<^verbatim>\<open>decodeURIComponent\<close> copies every code unit but \<^verbatim>\<open>%\<close>; a \<^verbatim>\<open>%\<close> starts an escape
  \<^verbatim>\<open>%XX\<close>, and a first byte from 128 on starts a UTF-8 sequence of two to four such
  escapes, which must be well formed (continuation bytes, no overlong form, no surrogate,
  at most U+10FFFF). Anything else is a URIError. The decoded code point is written in
  UTF-16.
\<close>

definition ebind :: "error + 'a \<Rightarrow> ('a \<Rightarrow> error + 'b) \<Rightarrow> error + 'b" where
  "ebind m f = (case m of Inl e \<Rightarrow> Inl e | Inr x \<Rightarrow> f x)"

definition group1 :: "jsstring \<times> jsstring option \<Rightarrow> error + jsstring" where
  "group1 mt = (case snd mt of None \<Rightarrow> Inl TypeError | Some g \<Rightarrow> Inr g)"

definition hexval :: "jschar \<Rightarrow> nat option" where
  "hexval c =
     (if 48 \<le> c \<and> c \<le> 57 then Some (c - 48)
      else if 65 \<le> c \<and> c \<le> 70 then Some (c - 55)
      else if 97 \<le> c \<and> c \<le> 102 then Some (c - 87)
      else None)"

fun pct_byte :: "jsstring \<Rightarrow> (nat \<times> jsstring) option" where
  "pct_byte (p # h1 # h2 # r) =
     (if p = 37
      then (case hexval h1 of None \<Rightarrow> None
            | Some a \<Rightarrow> (case hexval h2 of None \<Rightarrow> None | Some b \<Rightarrow> Some (16 * a + b, r)))
      else None)"
| "pct_byte s = None"

fun cont_bytes :: "nat \<Rightarrow> jsstring \<Rightarrow> (nat list \<times> jsstring) option" where
  "cont_bytes 0 s = Some ([], s)"
| "cont_bytes (Suc n) s =
     (case pct_byte s of None \<Rightarrow> None
      | Some (b, r) \<Rightarrow>
          if 128 \<le> b \<and> b < 192
          then (case cont_bytes n r of None \<Rightarrow> None | Some (bs, r') \<Rightarrow> Some (b # bs, r'))
          else None)"

definition utf16 :: "nat \<Rightarrow> jsstring" where
  "utf16 v = (if v < 65536 then [v]
              else [55296 + (v - 65536) div 1024, 56320 + (v - 65536) mod 1024])"

definition utf8_tail :: "nat \<Rightarrow> jsstring \<Rightarrow> (jsstring \<times> jsstring) option" where
  "utf8_tail b s =
     (if 192 \<le> b \<and> b < 224 then
        (case cont_bytes (Suc 0) s of
           Some ([b2], r) \<Rightarrow>
             (let v = (b - 192) * 64 + (b2 - 128)
              in if 128 \<le> v then Some (utf16 v, r) else None)
         | _ \<Rightarrow> None)
      else if 224 \<le> b \<and> b < 240 then
        (case cont_bytes (Suc (Suc 0)) s of
           Some ([b2, b3], r) \<Rightarrow>
             (let v = (b - 224) * 4096 + (b2 - 128) * 64 + (b3 - 128)
              in if 2048 \<le> v \<and> \<not> (55296 \<le> v \<and> v \<le> 57343) then Some (utf16 v, r) else None)
         | _ \<Rightarrow> None)
      else if 240 \<le> b \<and> b < 248 then
        (case cont_bytes (Suc (Suc (Suc 0))) s of
           Some ([b2, b3, b4], r) \<Rightarrow>
             (let v = (b - 240) * 262144 + (b2 - 128) * 4096 + (b3 - 128) * 64 + (b4 - 128)
              in if 65536 \<le> v \<and> v \<le> 1114111 then Some (utf16 v, r) else None)
         | _ \<Rightarrow> None)
      else None)"

function decodeURIComponent :: "jsstring \<Rightarrow> error + jsstring" where
  "decodeURIComponent [] = Inr []"
| "decodeURIComponent (c # s) =
     (if c \<noteq> 37 then ebind (decodeURIComponent s) (\<lambda>d. Inr (c # d))
      else (case pct_byte (c # s) of
              None \<Rightarrow> Inl URIError
            | Some (b, r) \<Rightarrow>
                if b < 128 then ebind (decodeURIComponent r) (\<lambda>d. Inr (b # d))
                else (case utf8_tail b r of
                        None \<Rightarrow> Inl URIError
                      | Some (u, r') \<Rightarrow> ebind (decodeURIComponent r') (\<lambda>d. Inr (u @ d)))))"
  by pat_completeness auto
termination
proof -
  have pct: "length r < length s" if "pct_byte s = Some (b, r)" for s b r
    using that by (cases s rule: pct_byte.cases) (auto split: if_splits option.splits)
  have cont: "length r \<le> length s" if "cont_bytes n s = Some (bs, r)" for n s bs r
    using that
  proof (induction n arbitrary: s bs)
    case 0
    then show ?case by simp
  next
    case (Suc n)
    from Suc.prems obtain b r0 bs' where b: "pct_byte s = Some (b, r0)"
      and c: "cont_bytes n r0 = Some (bs', r)"
      by (auto split: option.splits if_splits)
    from Suc.IH [OF c] pct [OF b] show ?case by simp
  qed
  have tail: "length r \<le> length s" if "utf8_tail b s = Some (u, r)" for b s u r
    using that
    by (auto simp: utf8_tail_def Let_def simp del: cont_bytes.simps
        split: if_splits option.splits list.splits dest!: cont)
  show ?thesis
  proof (relation "measure length", goal_cases)
    case 1
    show ?case by simp
  next
    case (2 c s)
    show ?case by simp
  next
    case (3 c s x2 b r)
    then have "pct_byte (c # s) = Some (b, r)" by simp
    from pct [OF this] show ?case by simp
  next
    case (4 c s x2 b r x2a u r')
    then have "pct_byte (c # s) = Some (b, r)" and "utf8_tail b r = Some (u, r')"
      by simp_all
    from pct [OF this(1)] tail [OF this(2)] show ?case by simp
  qed
qed

section \<open>The structured content extractor\<close>

text \<open>
  The three programs each have their own \<^verbatim>\<open>extractStructuredContent\<close>. The function
  of the suggest-competitors function returns \<^verbatim>\<open>{h1, text}\<close>, the one of the audit
  function adds \<^verbatim>\<open>metaTitle\<close>, \<^verbatim>\<open>metaDescription\<close> and \<^verbatim>\<open>subheadline\<close>, and the
  one of the server adds \<^verbatim>\<open>colors\<close> and \<^verbatim>\<open>fonts\<close>. The field \<^verbatim>\<open>text\<close> is written
  \<open>text'\<close>. The argument is \<open>None\<close> for \<^verbatim>\<open>null\<close>.
\<close>

record content_basic =
  h1 :: jsstring
  text' :: jsstring

record content_fn = content_basic +
  metaTitle :: jsstring
  metaDescription :: jsstring
  subheadline :: jsstring

record content_server = content_fn +
  colors :: jsstring
  fonts :: jsstring

text \<open>
  \<open>capture_of m f\<close> is \<^verbatim>\<open>m ? f(m[1]) : ''\<close>, where \<^verbatim>\<open>f\<close> starts with a method call
  on \<^verbatim>\<open>m[1]\<close>: on a group that did not take part in the match (\<^verbatim>\<open>undefined\<close>) this
  is a TypeError. \<open>or_else a b\<close> is \<^verbatim>\<open>a || b\<close> of two match results.
\<close>

definition capture_of :: "(jsstring \<times> jsstring option) option \<Rightarrow> (jsstring \<Rightarrow> jsstring) \<Rightarrow> error + jsstring" where
  "capture_of m f = (case m of None \<Rightarrow> Inr [] | Some mt \<Rightarrow> ebind (group1 mt) (\<lambda>g. Inr (f g)))"

definition or_else :: "'a option \<Rightarrow> 'a option \<Rightarrow> 'a option" where
  "or_else a b = (case a of None \<Rightarrow> b | Some x \<Rightarrow> Some x)"

definition strip_tags :: "jsstring \<Rightarrow> jsstring" where
  "strip_tags g = trim (replace_all False re_tag [] g)"

definition extract_title :: "jsstring \<Rightarrow> error + jsstring" where
  "extract_title html = capture_of (exec True re_title html) trim"

definition extract_description :: "jsstring \<Rightarrow> error + jsstring" where
  "extract_description html =
     capture_of (or_else (exec True re_meta_name_first html) (exec True re_meta_content_first html))
       trim"

definition extract_h1 :: "jsstring \<Rightarrow> error + jsstring" where
  "extract_h1 html = capture_of (exec True re_h1 html) strip_tags"

definition extract_h2 :: "jsstring \<Rightarrow> error + jsstring" where
  "extract_h2 html = capture_of (exec True re_h2 html) strip_tags"

definition extract_p_hero :: "jsstring \<Rightarrow> error + jsstring" where
  "extract_p_hero html = capture_of (exec True re_p_hero html) strip_tags"

definition without_markup :: "jsstring \<Rightarrow> jsstring" where
  "without_markup html =
     replace_all False re_tag (js '' '')
       (replace_all True re_style [] (replace_all True re_script [] html))"

definition collapse :: "jsstring \<Rightarrow> jsstring" where
  "collapse t = trim (replace_all False re_spaces (js '' '') t)"

text \<open>Lines 31 to 43, suggest-competitors function.\<close>

definition extractStructuredContent_suggest :: "jsstring option \<Rightarrow> error + content_basic" where
  "extractStructuredContent_suggest html0 =
     (case html0 of
        None \<Rightarrow> Inr \<lparr>h1 = [], text' = []\<rparr>
      | Some html \<Rightarrow>
          if html = [] then Inr \<lparr>h1 = [], text' = []\<rparr>
          else ebind (extract_h1 html) (\<lambda>h.
               Inr \<lparr>h1 = h, text' = take 800 (collapse (without_markup html))\<rparr>))"

text \<open>Lines 133 to 155, audit function.\<close>

definition extractStructuredContent_fn :: "jsstring option \<Rightarrow> error + content_fn" where
  "extractStructuredContent_fn html0 =
     (case html0 of
        None \<Rightarrow> Inr \<lparr>h1 = [], text' = [], metaTitle = [], metaDescription = [], subheadline = []\<rparr>
      | Some html \<Rightarrow>
          if html = []
          then Inr \<lparr>h1 = [], text' = [], metaTitle = [], metaDescription = [], subheadline = []\<rparr>
          else ebind (extract_title html) (\<lambda>title.
               ebind (extract_description html) (\<lambda>description.
               ebind (extract_h1 html) (\<lambda>h.
               ebind (extract_h2 html) (\<lambda>sub.
               Inr \<lparr>h1 = take 200 h,
                    text' = take 1500 (collapse
                      (replace_all False re_amp (js ''&'')
                        (replace_all False re_nbsp (js '' '') (without_markup html)))),
                    metaTitle = title, metaDescription = description,
                    subheadline = take 300 sub\<rparr>)))))"

text \<open>
  Lines 498 to 553, server. \<open>color_values\<close> and \<open>font_values\<close> are the
  \<^verbatim>\<open>.map(...).filter(Boolean)\<close> over the matches: the piece after the first colon,
  trimmed (and for a font without its quotes), dropped when it is missing or empty.
\<close>

definition second_piece :: "jsstring \<Rightarrow> jsstring option" where
  "second_piece c = (case split_char 58 c of p0 # p1 # ps \<Rightarrow> Some p1 | _ \<Rightarrow> None)"

definition color_values :: "jsstring list \<Rightarrow> jsstring list" where
  "color_values ms =
     List.map_filter
       (\<lambda>c. case second_piece c of None \<Rightarrow> None
            | Some p \<Rightarrow> if trim p = [] then None else Some (trim p)) ms"

definition font_values :: "jsstring list \<Rightarrow> jsstring list" where
  "font_values ms =
     List.map_filter
       (\<lambda>f. case second_piece f of None \<Rightarrow> None
            | Some p \<Rightarrow>
                if replace_all False re_quote [] (trim p) = [] then None
                else Some (replace_all False re_quote [] (trim p))) ms"

definition detected_colors :: "jsstring \<Rightarrow> jsstring list" where
  "detected_colors html = take 5 (uniq [] (color_values (match_all True re_color html)))"

definition declared_fonts :: "jsstring \<Rightarrow> jsstring list" where
  "declared_fonts html = take 3 (uniq [] (font_values (match_all True re_font_family html)))"

text \<open>\<^verbatim>\<open>decoded.split('|').map(f => f.split(':')[0])\<close>\<close>

definition google_families :: "jsstring \<Rightarrow> jsstring list" where
  "google_families decoded =
     map (\<lambda>f. case split_char 58 f of [] \<Rightarrow> [] | p # ps \<Rightarrow> p) (split_char 124 decoded)"

text \<open>The array \<^verbatim>\<open>fonts\<close> after the \<^verbatim>\<open>push\<close> of the Google families.
  \<^verbatim>\<open>decodeURIComponent(undefined)\<close> would decode the text \<^verbatim>\<open>undefined\<close>.\<close>

definition all_fonts :: "jsstring \<Rightarrow> error + jsstring list" where
  "all_fonts html =
     (case exec True re_google_fonts html of
        None \<Rightarrow> Inr (declared_fonts html)
      | Some mt \<Rightarrow>
          ebind (decodeURIComponent (case snd mt of None \<Rightarrow> js ''undefined'' | Some g \<Rightarrow> g))
            (\<lambda>decoded. Inr (declared_fonts html @ google_families decoded)))"

text \<open>\<^verbatim>\<open>xs.join(', ') || 'Could not detect'\<close>\<close>

definition joined_or_unknown :: "jsstring list \<Rightarrow> jsstring" where
  "joined_or_unknown xs =
     (if join_str (js '', '') xs = [] then js ''Could not detect'' else join_str (js '', '') xs)"

definition final_fonts :: "jsstring list \<Rightarrow> jsstring list" where
  "final_fonts fs = take 3 (uniq [] fs)"

definition server_text :: "jsstring \<Rightarrow> jsstring" where
  "server_text html =
     take 1500 (collapse
       (replace_all False re_quot [34]
         (replace_all False re_gt (js ''>'')
           (replace_all False re_lt (js ''<'')
             (replace_all False re_amp (js ''&'')
               (replace_all False re_nbsp (js '' '') (without_markup html)))))))"

definition extractStructuredContent_server :: "jsstring option \<Rightarrow> error + content_server" where
  "extractStructuredContent_server html0 =
     (case html0 of
        None \<Rightarrow> Inl TypeError
      | Some html \<Rightarrow>
          ebind (extract_title html) (\<lambda>title.
          ebind (extract_description html) (\<lambda>description.
          ebind (extract_h1 html) (\<lambda>h.
          ebind (extract_h2 html) (\<lambda>sub.
          ebind (if sub = [] then extract_p_hero html else Inr sub) (\<lambda>sub.
          ebind (all_fonts html) (\<lambda>fs.
          Inr \<lparr>h1 = take 200 h, text' = server_text html,
               metaTitle = take 200 title, metaDescription = take 300 description,
               subheadline = take 300 sub,
               colors = joined_or_unknown (detected_colors html),
               fonts = joined_or_unknown (final_fonts fs)\<rparr>)))))))"

section \<open>JSON\<close>

text \<open>
  A parsed JSON text. A number is kept as the text of its literal: the program never
  computes with one, it only passes it on, tests it for truth or prints it. The members
  of an object are kept in source order, duplicates included; a lookup takes the last one,
  as \<^verbatim>\<open>JSON.parse\<close> does.
\<close>

datatype json =
    JNull
  | JBool bool
  | JNum jsstring
  | JStr jsstring
  | JArr "json list"
  | JObj "(jsstring \<times> json) list"

text \<open>
  \<^verbatim>\<open>JSON.parse\<close> is the grammar of ECMA-404 by recursive descent. \<open>parse_chars\<close> reads a
  string after its opening quote, \<open>parse_number\<close> a number, \<open>parse_value\<close> a value,
  \<open>parse_elems\<close> the elements of an array after \<^verbatim>\<open>[\<close> and \<open>parse_members\<close> the members
  of an object after \<^verbatim>\<open>{\<close>; each returns what it read and the rest of the input.
  The comparisons of lengths before a recursive call always hold (a value is never
  empty); they make the recursion visibly terminating. \<open>JSON_parse\<close> is \<open>None\<close> where
  \<^verbatim>\<open>JSON.parse\<close> throws a SyntaxError.
\<close>

definition json_ws :: "jschar \<Rightarrow> bool" where
  "json_ws c = (c = 32 \<or> c = 9 \<or> c = 10 \<or> c = 13)"

definition skip_ws :: "jsstring \<Rightarrow> jsstring" where
  "skip_ws s = dropWhile json_ws s"

definition is_digit :: "jschar \<Rightarrow> bool" where
  "is_digit c = (48 \<le> c \<and> c \<le> 57)"

definition escape_char :: "jschar \<Rightarrow> jschar option" where
  "escape_char e =
     (if e = 34 \<or> e = 92 \<or> e = 47 then Some e
      else if e = 98 then Some 8
      else if e = 102 then Some 12
      else if e = 110 then Some 10
      else if e = 114 then Some 13
      else if e = 116 then Some 9
      else None)"

definition hex4 :: "jsstring \<Rightarrow> jschar option" where
  "hex4 hs =
     (case map hexval hs of
        [Some a, Some b, Some c, Some d] \<Rightarrow> Some (4096 * a + 256 * b + 16 * c + d)
      | _ \<Rightarrow> None)"

definition with_first :: "'a \<Rightarrow> ('a list \<times> 'b) option \<Rightarrow> ('a list \<times> 'b) option" where
  "with_first x p = (case p of None \<Rightarrow> None | Some (xs, r) \<Rightarrow> Some (x # xs, r))"

fun parse_chars :: "jsstring \<Rightarrow> (jsstring \<times> jsstring) option" where
  "parse_chars [] = None"
| "parse_chars (c # r) =
     (if c = 34 then Some ([], r)
      else if c = 92 then
        (case r of
           [] \<Rightarrow> None
         | e # r1 \<Rightarrow>
             if e = 117 then
               (case r1 of
                  x1 # x2 # x3 # x4 # r2 \<Rightarrow>
                    (case hex4 [x1, x2, x3, x4] of
                       None \<Rightarrow> None
                     | Some u \<Rightarrow> with_first u (parse_chars r2))
                | _ \<Rightarrow> None)
             else (case escape_char e of
                     None \<Rightarrow> None
                   | Some u \<Rightarrow> with_first u (parse_chars r1)))
      else if c < 32 then None
      else with_first c (parse_chars r))"

definition digits1 :: "jsstring \<Rightarrow> (jsstring \<times> jsstring) option" where
  "digits1 s = (if takeWhile is_digit s = [] then None
                else Some (takeWhile is_digit s, dropWhile is_digit s))"

definition parse_int_part :: "jsstring \<Rightarrow> (jsstring \<times> jsstring) option" where
  "parse_int_part s =
     (case s of [] \<Rightarrow> None
      | d # r \<Rightarrow> if d = 48 then Some ([48], r) else digits1 s)"

definition parse_frac :: "jsstring \<Rightarrow> (jsstring \<times> jsstring) option" where
  "parse_frac s =
     (case s of [] \<Rightarrow> Some ([], s)
      | d # r \<Rightarrow>
          if d = 46 then (case digits1 r of None \<Rightarrow> None | Some (ds, r1) \<Rightarrow> Some (d # ds, r1))
          else Some ([], s))"

definition parse_exp :: "jsstring \<Rightarrow> (jsstring \<times> jsstring) option" where
  "parse_exp s =
     (case s of [] \<Rightarrow> Some ([], s)
      | e # r \<Rightarrow>
          if e = 101 \<or> e = 69 then
            (case r of [] \<Rightarrow> None
             | g # r1 \<Rightarrow>
                 if g = 43 \<or> g = 45
                 then (case digits1 r1 of None \<Rightarrow> None | Some (ds, r2) \<Rightarrow> Some (e # g # ds, r2))
                 else (case digits1 r of None \<Rightarrow> None | Some (ds, r2) \<Rightarrow> Some (e # ds, r2)))
          else Some ([], s))"

definition parse_number :: "jsstring \<Rightarrow> (jsstring \<times> jsstring) option" where
  "parse_number s =
     (let sign = (case s of [] \<Rightarrow> [] | c # r \<Rightarrow> if c = 45 then [c] else []);
          s1 = drop (length sign) s
      in case parse_int_part s1 of None \<Rightarrow> None
         | Some (ip, s2) \<Rightarrow>
             (case parse_frac s2 of None \<Rightarrow> None
              | Some (fp, s3) \<Rightarrow>
                  (case parse_exp s3 of None \<Rightarrow> None
                   | Some (ep, s4) \<Rightarrow> Some (sign @ ip @ fp @ ep, s4))))"

definition parse_scalar :: "jsstring \<Rightarrow> (json \<times> jsstring) option" where
  "parse_scalar s =
     (if prefix (js ''true'') s then Some (JBool True, drop 4 s)
      else if prefix (js ''false'') s then Some (JBool False, drop 5 s)
      else if prefix (js ''null'') s then Some (JNull, drop 4 s)
      else (case parse_number s of None \<Rightarrow> None | Some (n, r) \<Rightarrow> Some (JNum n, r)))"

function parse_value :: "jsstring \<Rightarrow> (json \<times> jsstring) option"
  and parse_elems :: "jsstring \<Rightarrow> (json list \<times> jsstring) option"
  and parse_members :: "jsstring \<Rightarrow> ((jsstring \<times> json) list \<times> jsstring) option"
where
  "parse_value [] = None"
| "parse_value (c # r) =
     (if c = 123 then
        (case skip_ws r of
           [] \<Rightarrow> None
         | d # r1 \<Rightarrow>
             if d = 125 then Some (JObj [], r1)
             else (case parse_members (skip_ws r) of
                     None \<Rightarrow> None | Some (ms, r2) \<Rightarrow> Some (JObj ms, r2)))
      else if c = 91 then
        (case skip_ws r of
           [] \<Rightarrow> None
         | d # r1 \<Rightarrow>
             if d = 93 then Some (JArr [], r1)
             else (case parse_elems (skip_ws r) of
                     None \<Rightarrow> None | Some (vs, r2) \<Rightarrow> Some (JArr vs, r2)))
      else if c = 34 then
        (case parse_chars r of None \<Rightarrow> None | Some (t, r1) \<Rightarrow> Some (JStr t, r1))
      else parse_scalar (c # r))"
| "parse_elems s =
     (case parse_value s of
        None \<Rightarrow> None
      | Some (v, r) \<Rightarrow>
          (case skip_ws r of
             [] \<Rightarrow> None
           | d # r1 \<Rightarrow>
               if d = 93 then Some ([v], r1)
               else if d = 44 \<and> length r1 < length s then with_first v (parse_elems (skip_ws r1))
               else None))"
| "parse_members s =
     (case s of
        [] \<Rightarrow> None
      | q # r \<Rightarrow>
          if q = 34 then
            (case parse_chars r of
               None \<Rightarrow> None
             | Some (k, r1) \<Rightarrow>
                 (case skip_ws r1 of
                    [] \<Rightarrow> None
                  | d # r2 \<Rightarrow>
                      if d = 58 \<and> length r2 < length s then
                        (case parse_value (skip_ws r2) of
                           None \<Rightarrow> None
                         | Some (v, r3) \<Rightarrow>
                             (case skip_ws r3 of
                                [] \<Rightarrow> None
                              | e # r4 \<Rightarrow>
                                  if e = 125 then Some ([(k, v)], r4)
                                  else if e = 44 \<and> length r4 < length s
                                  then with_first (k, v) (parse_members (skip_ws r4))
                                  else None))
                      else None))
          else None)"
  by pat_completeness auto
termination
proof -
  have ws: "length (skip_ws s) \<le> length s" for s
    by (simp add: skip_ws_def length_dropWhile_le)
  have ws_cons: "length r < length s" if "skip_ws s = d # r" for s d r
    using ws [of s] that by simp
  show ?thesis
    by (relation "inv_image (less_than <*lex*> less_than)
          (\<lambda>x. case x of Inl s \<Rightarrow> (length s, 0 :: nat)
                | Inr (Inl s) \<Rightarrow> (length s, 1) | Inr (Inr s) \<Rightarrow> (length s, 1))")
       (auto intro: le_less_trans [OF ws] le_imp_less_Suc [OF ws] dest: ws_cons)
qed

definition JSON_parse :: "jsstring \<Rightarrow> json option" where
  "JSON_parse s =
     (case parse_value (skip_ws s) of
        None \<Rightarrow> None
      | Some (v, r) \<Rightarrow> if skip_ws r = [] then Some v else None)"

section \<open>JavaScript values\<close>

text \<open>
  What the handlers do with the values a reply parses to. \<open>None\<close> of type
  \<open>json option\<close> is \<^verbatim>\<open>undefined\<close> (or, for the result of a stage, \<^verbatim>\<open>null\<close>).
  \<^item> \<open>truthy\<close>: the test of \<^verbatim>\<open>!x\<close> and \<^verbatim>\<open>x || y\<close>. A number is falsy when
    \<^verbatim>\<open>JSON.parse\<close> reads its literal as zero: the literal \<open>m\<close> times \<open>10\<close> to the \<open>e\<close>
    (\<open>m\<close> its digits without the point, \<open>e\<close> its exponent less the number of
    fraction digits) is zero, or is at most \<open>2\<close> to the \<open>-1075\<close>, half the least
    positive double, which rounds to zero.
  \<^item> \<open>get_prop v k\<close>: \<^verbatim>\<open>v.k\<close> for a value that is not \<^verbatim>\<open>null\<close>; the keys the program
    reads are no properties of the prototypes, so only an object has them.
    \<open>prop_opt\<close> is \<^verbatim>\<open>v?.k\<close>.
  \<^item> \<open>own_props\<close>: the properties copied by a spread \<^verbatim>\<open>{...v}\<close>; \<open>or_object\<close> is
    \<^verbatim>\<open>v || {}\<close>.
  \<^item> \<open>to_string\<close>: the conversion of a template literal and of \<^verbatim>\<open>Array.prototype.join\<close>.
    An object prints as \<^verbatim>\<open>[object Object]\<close>, unless it has a member \<^verbatim>\<open>toString\<close>, which
    hides the method and makes the conversion a TypeError. A number prints as its literal
    (JavaScript prints the shortest form of the double; no property below depends on it).
  \<^item> \<open>opt_join x sep\<close>: \<^verbatim>\<open>x?.join(sep)\<close>, a TypeError unless \<open>x\<close> is an array,
    \<^verbatim>\<open>null\<close> or \<^verbatim>\<open>undefined\<close>.
  \<^item> \<open>all_ok\<close>: the pieces of a prompt are converted in order and the first exception
    wins. The text of a prompt is not kept: the reply of the model is given by the world.
\<close>


definition digits_value :: "jsstring \<Rightarrow> nat" where
  "digits_value ds = foldl (\<lambda>a c. 10 * a + (c - 48)) 0 ds"

definition exponent_value :: "jsstring \<Rightarrow> int" where
  "exponent_value s =
     (case s of [] \<Rightarrow> 0
      | e # r \<Rightarrow>
          (case r of [] \<Rightarrow> 0
           | g # ds \<Rightarrow> if g = 45 then - int (digits_value ds)
                       else if g = 43 then int (digits_value ds)
                       else int (digits_value r)))"

definition num_is_zero :: "jsstring \<Rightarrow> bool" where
  "num_is_zero n =
     (let body = (case n of [] \<Rightarrow> [] | c # r \<Rightarrow> if c = 45 then r else n);
          ip = takeWhile is_digit body;
          r1 = dropWhile is_digit body;
          fp = (case r1 of [] \<Rightarrow> [] | c # r \<Rightarrow> if c = 46 then takeWhile is_digit r else []);
          r2 = (case r1 of [] \<Rightarrow> [] | c # r \<Rightarrow> if c = 46 then dropWhile is_digit r else r1);
          m = digits_value (ip @ fp);
          e = exponent_value r2 - int (length fp)
      in m = 0 \<or> (e < 0 \<and> m * 2 ^ 1075 \<le> 10 ^ nat (- e)))"

fun truthy :: "json \<Rightarrow> bool" where
  "truthy JNull = False"
| "truthy (JBool b) = b"
| "truthy (JNum n) = (\<not> num_is_zero n)"
| "truthy (JStr s) = (s \<noteq> [])"
| "truthy (JArr vs) = True"
| "truthy (JObj ms) = True"

definition truthy_opt :: "json option \<Rightarrow> bool" where
  "truthy_opt x = (case x of None \<Rightarrow> False | Some v \<Rightarrow> truthy v)"

definition get_prop :: "json \<Rightarrow> string \<Rightarrow> json option" where
  "get_prop v k = (case v of JObj ms \<Rightarrow> map_of (rev ms) (js k) | _ \<Rightarrow> None)"

definition prop_opt :: "json option \<Rightarrow> string \<Rightarrow> json option" where
  "prop_opt x k = (case x of None \<Rightarrow> None | Some v \<Rightarrow> get_prop v k)"

function decimal :: "nat \<Rightarrow> jsstring" where
  "decimal n = (if n < 10 then [48 + n] else decimal (n div 10) @ [48 + n mod 10])"
  by pat_completeness auto
termination
  by (relation "measure id") auto

definition own_props :: "json option \<Rightarrow> (jsstring \<times> json) list" where
  "own_props x =
     (case x of
        Some (JObj ms) \<Rightarrow> ms
      | Some (JArr vs) \<Rightarrow> zip (map decimal [0 ..< length vs]) vs
      | Some (JStr s) \<Rightarrow> zip (map decimal [0 ..< length s]) (map (\<lambda>c. JStr [c]) s)
      | _ \<Rightarrow> [])"

definition or_object :: "json option \<Rightarrow> json" where
  "or_object x = (case x of None \<Rightarrow> JObj [] | Some v \<Rightarrow> if truthy v then v else JObj [])"

fun to_string :: "json \<Rightarrow> error + jsstring"
  and to_strings :: "json list \<Rightarrow> error + jsstring list"
where
  "to_string JNull = Inr (js ''null'')"
| "to_string (JBool b) = Inr (if b then js ''true'' else js ''false'')"
| "to_string (JNum n) = Inr n"
| "to_string (JStr s) = Inr s"
| "to_string (JArr vs) = ebind (to_strings vs) (\<lambda>ps. Inr (join_str (js '','') ps))"
| "to_string (JObj ms) =
     (if js ''toString'' \<in> set (map fst ms) then Inl TypeError else Inr (js ''[object Object]''))"
| "to_strings [] = Inr []"
| "to_strings (v # vs) =
     ebind (if v = JNull then Inr [] else to_string v) (\<lambda>p.
     ebind (to_strings vs) (\<lambda>ps. Inr (p # ps)))"

definition tpl :: "json option \<Rightarrow> error + jsstring" where
  "tpl x = (case x of None \<Rightarrow> Inr (js ''undefined'') | Some v \<Rightarrow> to_string v)"

fun element_strings :: "json option list \<Rightarrow> error + jsstring list" where
  "element_strings [] = Inr []"
| "element_strings (x # xs) =
     ebind (case x of None \<Rightarrow> Inr [] | Some v \<Rightarrow> if v = JNull then Inr [] else to_string v) (\<lambda>p.
     ebind (element_strings xs) (\<lambda>ps. Inr (p # ps)))"

definition opt_join :: "json option \<Rightarrow> jsstring \<Rightarrow> error + jsstring option" where
  "opt_join x sep =
     (case x of
        None \<Rightarrow> Inr None
      | Some JNull \<Rightarrow> Inr None
      | Some (JArr vs) \<Rightarrow> ebind (to_strings vs) (\<lambda>ps. Inr (Some (join_str sep ps)))
      | Some v \<Rightarrow> Inl TypeError)"

definition or_str :: "jsstring option \<Rightarrow> jsstring \<Rightarrow> jsstring" where
  "or_str x d = (case x of None \<Rightarrow> d | Some s \<Rightarrow> if s = [] then d else s)"

definition all_ok :: "(error + 'a) list \<Rightarrow> error + unit" where
  "all_ok xs = foldr (\<lambda>x acc. ebind x (\<lambda>_. acc)) xs (Inr ())"

section \<open>The language model and the inference stages\<close>

text \<open>
  The reply of \<^verbatim>\<open>anthropic.messages.create\<close> is a list of content blocks; a block is a
  text block or some other block. The world of a request is what the network answers for
  a URL (\<open>net\<close>), what the browser captures for a URL and for a search (\<open>shoot\<close>,
  \<open>shoot_google\<close>, \<open>None\<close> for \<^verbatim>\<open>null\<close>) and what the model answers to the \<open>n\<close>-th
  call of the request (\<open>llm\<close>, \<open>None\<close> when the call rejects). \<open>messages_create\<close>
  records the stage that called.
\<close>

datatype block = TextBlock jsstring | OtherBlock

record world =
  net :: "jsstring \<Rightarrow> jsstring option"
  shoot :: "jsstring \<Rightarrow> jsstring option"
  shoot_google :: "jsstring \<Rightarrow> jsstring option"
  llm :: "nat \<Rightarrow> block list option"

definition lift :: "error + 'a \<Rightarrow> 'a act" where
  "lift x = (\<lambda>t. (x, t))"

definition messages_create :: "(nat \<Rightarrow> block list option) \<Rightarrow> stage \<Rightarrow> block list act" where
  "messages_create model st =
     (\<lambda>t. (case model (length (llm_calls t)) of None \<Rightarrow> Inl ApiError | Some bs \<Rightarrow> Inr bs,
           t\<lparr>llm_calls := llm_calls t @ [st]\<rparr>))"

text \<open>
  \<open>json_span\<close> is \<^verbatim>\<open>block.text.match(/\{[\s\S]*\}/)\<close>, \<open>span_parse\<close> the two lines
  \<^verbatim>\<open>const jsonMatch = ...; if (jsonMatch) return JSON.parse(jsonMatch[0])\<close>. In the
  functions the loop over the blocks has no \<^verbatim>\<open>try\<close> (\<open>first_json_fn\<close>); in the server
  each block is parsed inside \<^verbatim>\<open>try\<close> and a failure goes on with the next block
  (\<open>first_json_server\<close>). The loops of the Comparator assign instead of returning
  (\<open>last_json_fn\<close>, \<open>last_json_server\<close>).
\<close>

definition json_span :: "jsstring \<Rightarrow> jsstring option" where
  "json_span t = map_option fst (exec False re_json t)"

definition JSON_parse_js :: "jsstring \<Rightarrow> error + json" where
  "JSON_parse_js s = (case JSON_parse s of None \<Rightarrow> Inl SyntaxError | Some v \<Rightarrow> Inr v)"

definition span_parse :: "jsstring \<Rightarrow> error + json option" where
  "span_parse t =
     (case json_span t of None \<Rightarrow> Inr None
      | Some m \<Rightarrow> ebind (JSON_parse_js m) (\<lambda>v. Inr (Some v)))"

fun first_json_fn :: "block list \<Rightarrow> error + json option" where
  "first_json_fn [] = Inr None"
| "first_json_fn (TextBlock t # bs) =
     ebind (span_parse t) (\<lambda>r. case r of Some v \<Rightarrow> Inr (Some v) | None \<Rightarrow> first_json_fn bs)"
| "first_json_fn (OtherBlock # bs) = first_json_fn bs"

fun first_json_server :: "block list \<Rightarrow> error + json option" where
  "first_json_server [] = Inr None"
| "first_json_server (TextBlock t # bs) =
     (case span_parse t of
        Inl e \<Rightarrow> first_json_server bs
      | Inr None \<Rightarrow> first_json_server bs
      | Inr (Some v) \<Rightarrow> Inr (Some v))"
| "first_json_server (OtherBlock # bs) = first_json_server bs"

fun last_json_fn :: "json option \<Rightarrow> block list \<Rightarrow> error + json option" where
  "last_json_fn acc [] = Inr acc"
| "last_json_fn acc (TextBlock t # bs) =
     ebind (span_parse t) (\<lambda>r. case r of Some v \<Rightarrow> last_json_fn (Some v) bs
                                | None \<Rightarrow> last_json_fn acc bs)"
| "last_json_fn acc (OtherBlock # bs) = last_json_fn acc bs"

fun last_json_server :: "json option \<Rightarrow> block list \<Rightarrow> json option" where
  "last_json_server acc [] = acc"
| "last_json_server acc (TextBlock t # bs) =
     (case span_parse t of
        Inl e \<Rightarrow> last_json_server acc bs
      | Inr None \<Rightarrow> last_json_server acc bs
      | Inr (Some v) \<Rightarrow> last_json_server (Some v) bs)"
| "last_json_server acc (OtherBlock # bs) = last_json_server acc bs"

definition extractMessaging_fn :: "(nat \<Rightarrow> block list option) \<Rightarrow> jsstring \<Rightarrow> content_fn \<Rightarrow> json option act" where
  "extractMessaging_fn model companyName content =
     bnd (messages_create model Messaging) (\<lambda>bs. lift (first_json_fn bs))"

definition analyzeFirstImpressions_fn :: "(nat \<Rightarrow> block list option) \<Rightarrow> jsstring \<Rightarrow> jsstring \<Rightarrow> jsstring \<Rightarrow> jsstring \<Rightarrow> json option act" where
  "analyzeFirstImpressions_fn model companyName title description heading =
     bnd (messages_create model FirstImpressions) (\<lambda>bs. lift (first_json_fn bs))"

definition overlap_patterns :: "json option \<Rightarrow> error + jsstring option" where
  "overlap_patterns x =
     (case x of
        None \<Rightarrow> Inr None
      | Some JNull \<Rightarrow> Inr None
      | Some (JArr os) \<Rightarrow>
          ebind (all_ok (map (\<lambda>ov. if ov = JNull then Inl TypeError else Inr ()) os)) (\<lambda>_.
          ebind (element_strings (map (\<lambda>ov. get_prop ov ''pattern'') os)) (\<lambda>ps.
          Inr (Some (join_str (js '', '') ps))))
      | Some v \<Rightarrow> Inl TypeError)"

definition takeaways_prompt_fn :: "json \<Rightarrow> json list \<Rightarrow> json \<Rightarrow> error + unit" where
  "takeaways_prompt_fn companyData competitorData comparison =
     all_ok
       ([ebind (tpl (get_prop companyData ''positioning'')) (\<lambda>_. Inr ()),
         ebind (opt_join (get_prop companyData ''voiceAdjectives'') (js '', '')) (\<lambda>_. Inr ())]
        @ concat (map (\<lambda>c. [ebind (tpl (get_prop c ''name'')) (\<lambda>_. Inr ()),
                            ebind (tpl (get_prop c ''positioning'')) (\<lambda>_. Inr ())]) competitorData)
        @ [ebind (tpl (get_prop comparison ''score'')) (\<lambda>_. Inr ()),
           ebind (overlap_patterns (get_prop comparison ''overlaps'')) (\<lambda>_. Inr ())])"

definition generateTakeaways_fn :: "(nat \<Rightarrow> block list option) \<Rightarrow> jsstring \<Rightarrow> json \<Rightarrow> json list \<Rightarrow> json \<Rightarrow> json option act" where
  "generateTakeaways_fn model companyName companyData competitorData comparison =
     bnd (lift (takeaways_prompt_fn companyData competitorData comparison)) (\<lambda>_.
     bnd (messages_create model Takeaways) (\<lambda>bs. lift (first_json_fn bs)))"

definition extractMessaging_server :: "(nat \<Rightarrow> block list option) \<Rightarrow> jsstring \<Rightarrow> content_server \<Rightarrow> json option act" where
  "extractMessaging_server model companyName structuredContent =
     bnd (messages_create model Messaging) (\<lambda>bs. lift (first_json_server bs))"

definition visuals_of :: "string \<Rightarrow> json" where
  "visuals_of t = JObj [(js ''colors'', JStr (js t)), (js ''typography'', JStr (js t)),
                        (js ''visualStyle'', JStr (js t))]"

definition extractVisuals :: "(nat \<Rightarrow> block list option) \<Rightarrow> jsstring \<Rightarrow> jsstring option \<Rightarrow> json act" where
  "extractVisuals model companyName screenshotBase64 =
     (if screenshotBase64 = None \<or> screenshotBase64 = Some [] then ret (visuals_of ''Could not capture'')
      else bnd (messages_create model Visuals) (\<lambda>bs.
           lift (ebind (first_json_server bs) (\<lambda>r.
             Inr (case r of Some v \<Rightarrow> v | None \<Rightarrow> visuals_of ''Unknown'')))))"

definition analyzeFirstImpressions_server :: "(nat \<Rightarrow> block list option) \<Rightarrow> jsstring \<Rightarrow> jsstring \<Rightarrow> jsstring \<Rightarrow> jsstring option \<Rightarrow> jsstring option \<Rightarrow> json option act" where
  "analyzeFirstImpressions_server model companyName title description websiteScreenshot googleScreenshot =
     bnd (messages_create model FirstImpressions) (\<lambda>bs. lift (first_json_server bs))"

definition takeaways_prompt_server :: "json \<Rightarrow> json list \<Rightarrow> json \<Rightarrow> error + unit" where
  "takeaways_prompt_server companyData competitorData comparison =
     all_ok
       ([ebind (tpl (get_prop companyData ''positioning'')) (\<lambda>_. Inr ()),
         ebind (opt_join (get_prop companyData ''voiceAdjectives'') (js '', '')) (\<lambda>_. Inr ()),
         ebind (tpl (get_prop companyData ''colors'')) (\<lambda>_. Inr ()),
         ebind (tpl (get_prop companyData ''typography'')) (\<lambda>_. Inr ()),
         ebind (tpl (get_prop companyData ''visualStyle'')) (\<lambda>_. Inr ()),
         ebind (tpl (get_prop companyData ''firstImpression'')) (\<lambda>_. Inr ())]
        @ concat (map (\<lambda>c. [ebind (tpl (get_prop c ''name'')) (\<lambda>_. Inr ()),
                            ebind (tpl (get_prop c ''positioning'')) (\<lambda>_. Inr ()),
                            ebind (opt_join (get_prop c ''voiceAdjectives'') (js '', '')) (\<lambda>_. Inr ()),
                            ebind (tpl (get_prop c ''visualStyle'')) (\<lambda>_. Inr ())]) competitorData)
        @ [ebind (tpl (get_prop comparison ''score'')) (\<lambda>_. Inr ()),
           ebind (overlap_patterns (get_prop comparison ''overlaps'')) (\<lambda>_. Inr ()),
           ebind (opt_join (get_prop comparison ''standouts'') (js '', '')) (\<lambda>_. Inr ())])"

definition generateTakeaways_server :: "(nat \<Rightarrow> block list option) \<Rightarrow> jsstring \<Rightarrow> json \<Rightarrow> json list \<Rightarrow> json \<Rightarrow> json option act" where
  "generateTakeaways_server model companyName companyData competitorData comparison =
     bnd (lift (takeaways_prompt_server companyData competitorData comparison)) (\<lambda>_.
     bnd (messages_create model Takeaways) (\<lambda>bs. lift (first_json_server bs)))"

section \<open>Requests, responses and reports\<close>

text \<open>
  A request is typed as the interface says: the company's URL and name are strings, the
  competitors are a list of brands with a name and a URL; a field may be missing
  (\<open>None\<close>). The event of a function carries the request its body parses to
  (\<open>payload\<close>, \<open>None\<close> when \<^verbatim>\<open>JSON.parse(event.body)\<close> throws). A response body is a
  text, the JSON text of a value (\<open>Json\<close>), the JSON text of \<^verbatim>\<open>{ error: error.message }\<close>
  for a caught exception (\<open>Thrown\<close>), or the JSON text of a report. The field \<^verbatim>\<open>values\<close>
  of a chart row is written \<open>values'\<close>. A map keyed by brand name is a map; a later
  entry for the same name replaces an earlier one (\<open>last_wins\<close>).
\<close>

record brand =
  name :: jsstring
  url :: jsstring

record suggest_request =
  companyUrl :: "jsstring option"
  companyName :: "jsstring option"

record audit_request = suggest_request +
  competitors :: "brand list option"

record 'r event =
  httpMethod :: jsstring
  payload :: "'r option"

datatype 'r resp_body = Text jsstring | Json json | Thrown error | Report 'r

record 'r response =
  statusCode :: nat
  headers :: "(jsstring \<times> jsstring) list"
  body :: "'r resp_body"

record chart_row =
  category :: jsstring
  values' :: "json option list"

record chart =
  columns :: "jsstring list"
  rows :: "chart_row list"

record report_fn =
  score :: "json option"
  verdict :: "json option"
  overlaps :: "json option"
  standouts :: "json option"
  takeaways :: json
  chart :: chart
  firstImpressions :: "jsstring \<rightharpoonup> json"

record report_server = report_fn +
  screenshots :: "jsstring \<rightharpoonup> (jsstring \<times> jsstring option)"
  googleScreenshots :: "jsstring \<rightharpoonup> jsstring option"

record fn_data = brand +
  structured_fn :: content_fn

record fetched = brand +
  html :: "jsstring option"
  screenshot :: "jsstring option"
  googleScreenshot :: "jsstring option"

record server_data = fetched +
  structured :: content_server

record 's result = brand +
  scraped :: 's
  inferred :: json
  first_impressions :: json

record 's result_server = "'s result" +
  result_google :: "jsstring option"

definition error_json :: "string \<Rightarrow> json" where
  "error_json msg = JObj [(js ''error'', JStr (js msg))]"

definition json_headers :: "(jsstring \<times> jsstring) list" where
  "json_headers = [(js ''Content-Type'', js ''application/json'')]"

definition last_wins :: "('k \<times> 'v) list \<Rightarrow> ('k \<rightharpoonup> 'v)" where
  "last_wins kvs = map_of (rev kvs)"

fun emap :: "('a \<Rightarrow> error + 'b) \<Rightarrow> 'a list \<Rightarrow> error + 'b list" where
  "emap f [] = Inr []"
| "emap f (x # xs) = ebind (f x) (\<lambda>y. ebind (emap f xs) (\<lambda>ys. Inr (y # ys)))"

fun amap :: "('a \<Rightarrow> 'b act) \<Rightarrow> 'a list \<Rightarrow> 'b list act" where
  "amap f [] = ret []"
| "amap f (x # xs) = bnd (f x) (\<lambda>y. bnd (amap f xs) (\<lambda>ys. ret (y # ys)))"

definition or_empty :: "jsstring option \<Rightarrow> jsstring" where
  "or_empty x = (case x of None \<Rightarrow> [] | Some s \<Rightarrow> s)"

definition em_dash :: jsstring where
  "em_dash = [8212]"

definition dot_sep :: jsstring where
  "dot_sep = [32, 183, 32]"

definition re_edge_dots :: re where
  "re_edge_dots = Alt (Seq Bol (Lit dot_sep)) (Seq (Lit dot_sep) Eol)"

definition formatVoiceForComparison :: "json option \<Rightarrow> error + jsstring" where
  "formatVoiceForComparison inf0 =
     ebind (opt_join (prop_opt inf0 ''voiceAdjectives'') (js '', '')) (\<lambda>j.
     Inr (or_str j (js ''unknown'')))"

definition or_value :: "json option \<Rightarrow> json \<Rightarrow> json" where
  "or_value x d = (case x of None \<Rightarrow> d | Some v \<Rightarrow> if truthy v then v else d)"

definition formatVoiceFull :: "json option \<Rightarrow> error + json" where
  "formatVoiceFull inf0 =
     ebind (opt_join (prop_opt inf0 ''voiceAdjectives'') (js '', '')) (\<lambda>j.
     let adjs = or_str j [];
         summary = or_value (prop_opt inf0 ''voiceSummary'') (JStr [])
     in if adjs \<noteq> []
        then (if truthy summary
              then ebind (to_string summary) (\<lambda>s. Inr (JStr (adjs @ js '' '' @ em_dash @ js '' '' @ s)))
              else Inr (JStr adjs))
        else Inr (or_value (Some summary) (JStr em_dash)))"

definition formatVoice :: "json option \<Rightarrow> error + json" where
  "formatVoice x =
     (if \<not> truthy_opt x then Inr (JStr em_dash)
      else ebind (opt_join (prop_opt x ''voiceAdjectives'') (js '', '')) (\<lambda>j.
           let adjs = or_str j [];
               summary = or_value (prop_opt x ''voiceSummary'') (JStr [])
           in if adjs \<noteq> []
              then (if truthy summary
                    then ebind (to_string summary) (\<lambda>s. Inr (JStr (adjs @ js '' '' @ em_dash @ js '' '' @ s)))
                    else Inr (JStr adjs))
              else Inr (or_value (Some summary) (JStr em_dash))))"

definition or_blank :: "json option \<Rightarrow> error + jsstring" where
  "or_blank x = (case x of None \<Rightarrow> Inr [] | Some v \<Rightarrow> if truthy v then to_string v else Inr [])"

definition visual_style_cell :: "json \<Rightarrow> error + json" where
  "visual_style_cell inf0 =
     ebind (or_blank (get_prop inf0 ''colors'')) (\<lambda>c.
     ebind (or_blank (get_prop inf0 ''typography'')) (\<lambda>t.
     ebind (or_blank (get_prop inf0 ''visualStyle'')) (\<lambda>v.
     Inr (JStr (replace_all False re_edge_dots [] (c @ dot_sep @ t @ dot_sep @ v))))))"

text \<open>What a competitor result keeps of the scraped page.\<close>

record scraped_fn =
  scraped_h1 :: jsstring
  scraped_subheadline :: jsstring

record scraped_server = scraped_fn +
  scraped_metaTitle :: jsstring
  scraped_metaDescription :: jsstring

section \<open>The audit of the server\<close>

text \<open>
  \<^verbatim>\<open>app.post('/api/audit')\<close>. The fetches and captures of \<^verbatim>\<open>Promise.all\<close> are independent
  of each other; the model runs them one after the other in the order of the array, each
  fetch with its retry. The program starts them together, so it issues every first GET
  before any retry: the trace \<open>requests\<close> has the requests of the program, and the
  requests of one fetch in their order, but not the order between two fetches. The same
  holds for the competitors of the audit function. The pacing delays are left out.
  \<open>audit_server\<close> is the handler with its \<^verbatim>\<open>try\<close>/\<^verbatim>\<open>catch\<close>.
\<close>

definition takeScreenshot :: "world \<Rightarrow> jsstring \<Rightarrow> jsstring option" where
  "takeScreenshot w u = shoot w (normalizeUrl u)"

definition takeGoogleScreenshot :: "world \<Rightarrow> jsstring \<Rightarrow> jsstring option" where
  "takeGoogleScreenshot w searchQuery = shoot_google w searchQuery"

definition fetch_competitor :: "world \<Rightarrow> brand \<Rightarrow> fetched act" where
  "fetch_competitor w cp =
     bnd (fetchWebsite_server (net w) (url cp)) (\<lambda>h.
     ret \<lparr>name = name cp, url = url cp, html = h,
          screenshot = takeScreenshot w (url cp),
          googleScreenshot = takeGoogleScreenshot w (name cp)\<rparr>)"

definition structure_competitor :: "fetched \<Rightarrow> error + server_data" where
  "structure_competitor cp =
     ebind (extractStructuredContent_server (Some (or_empty (html cp)))) (\<lambda>s.
     Inr \<lparr>name = name cp, url = url cp, html = html cp, screenshot = screenshot cp,
          googleScreenshot = googleScreenshot cp, structured = s\<rparr>)"

definition collect_server :: "world \<Rightarrow> jsstring \<Rightarrow> jsstring \<Rightarrow> brand list
    \<Rightarrow> (content_server \<times> jsstring option \<times> jsstring option \<times> server_data list) act" where
  "collect_server w cu cn cs =
     bnd (fetchWebsite_server (net w) cu) (\<lambda>companyHtml.
     bnd (amap (fetch_competitor w) cs) (\<lambda>competitorFetches.
     bnd (lift (extractStructuredContent_server (Some (or_empty companyHtml)))) (\<lambda>companyStructured.
     bnd (lift (emap structure_competitor competitorFetches)) (\<lambda>competitorData.
     ret (companyStructured, takeScreenshot w cu, takeGoogleScreenshot w cn, competitorData)))))"

definition focal_server :: "world \<Rightarrow> jsstring \<Rightarrow> content_server \<Rightarrow> jsstring option \<Rightarrow> jsstring option
    \<Rightarrow> (json option \<times> json \<times> json option) act" where
  "focal_server w cn companyStructured companyScreenshot companyGoogleScreenshot =
     bnd (extractMessaging_server (llm w) cn companyStructured) (\<lambda>companyMessaging.
     bnd (extractVisuals (llm w) cn companyScreenshot) (\<lambda>companyVisuals.
     bnd (analyzeFirstImpressions_server (llm w) cn (metaTitle companyStructured)
            (metaDescription companyStructured) companyScreenshot companyGoogleScreenshot)
       (\<lambda>companyFirstImpressions.
     ret (companyMessaging, companyVisuals, companyFirstImpressions))))"

definition analyze_competitor_server :: "world \<Rightarrow> server_data \<Rightarrow> scraped_server result_server act" where
  "analyze_competitor_server w cp =
     bnd (extractMessaging_server (llm w) (name cp) (structured cp)) (\<lambda>messaging.
     bnd (extractVisuals (llm w) (name cp) (screenshot cp)) (\<lambda>visuals.
     bnd (analyzeFirstImpressions_server (llm w) (name cp) (metaTitle (structured cp))
            (metaDescription (structured cp)) (screenshot cp) (googleScreenshot cp))
       (\<lambda>impressions.
     ret \<lparr>name = name cp, url = url cp,
          scraped = \<lparr>scraped_h1 = h1 (structured cp),
                      scraped_subheadline = subheadline (structured cp),
                      scraped_metaTitle = metaTitle (structured cp),
                      scraped_metaDescription = metaDescription (structured cp)\<rparr>,
          inferred = JObj (own_props (Some (or_object messaging)) @ own_props (Some (or_object (Some visuals)))),
          first_impressions = or_object impressions,
          result_google = googleScreenshot cp\<rparr>)))"

definition summary_line_server :: "json \<Rightarrow> error + unit" where
  "summary_line_server inf0 =
     ebind (formatVoiceForComparison (Some inf0)) (\<lambda>voice.
     ebind (tpl (get_prop inf0 ''positioning'')) (\<lambda>p.
     ebind (tpl (get_prop inf0 ''visualStyle'')) (\<lambda>v. Inr ())))"

definition brandSummaries_server :: "json \<Rightarrow> json list \<Rightarrow> error + unit" where
  "brandSummaries_server companyInferred others =
     all_ok (map summary_line_server (companyInferred # others))"

definition chartData_server :: "jsstring \<Rightarrow> json \<Rightarrow> (jsstring \<times> json) list \<Rightarrow> error + chart" where
  "chartData_server cn companyInferred others =
     ebind (emap (\<lambda>i. formatVoice (Some i)) (companyInferred # map snd others)) (\<lambda>voices.
     ebind (emap visual_style_cell (companyInferred # map snd others)) (\<lambda>visuals.
     Inr \<lparr>columns = js ''Category'' # cn # map fst others,
          rows = [\<lparr>category = js ''Positioning'',
                   values' = map (\<lambda>i. get_prop i ''positioning'') (companyInferred # map snd others)\<rparr>,
                  \<lparr>category = js ''Voice'', values' = map Some voices\<rparr>,
                  \<lparr>category = js ''Visual Style'', values' = map Some visuals\<rparr>]\<rparr>))"

definition with_meta :: "json option \<Rightarrow> jsstring \<Rightarrow> jsstring \<Rightarrow> json" where
  "with_meta impressions title description =
     JObj (own_props impressions @ [(js ''metaTitle'', JStr title), (js ''metaDescription'', JStr description)])"

definition report_of_server :: "world \<Rightarrow> jsstring \<Rightarrow> jsstring \<Rightarrow> brand list \<Rightarrow> content_server
    \<Rightarrow> jsstring option \<Rightarrow> jsstring option \<Rightarrow> server_data list \<Rightarrow> json option
    \<Rightarrow> scraped_server result_server list \<Rightarrow> json \<Rightarrow> chart \<Rightarrow> json option \<Rightarrow> report_server" where
  "report_of_server w cu cn cs companyStructured companyScreenshot companyGoogleScreenshot
      competitorData companyFirstImpressions competitorResults comparison chartData tk =
     \<lparr>score = get_prop comparison ''score'', verdict = get_prop comparison ''verdict'',
      overlaps = get_prop comparison ''overlaps'', standouts = get_prop comparison ''standouts'',
      takeaways = or_object tk, chart = chartData,
      firstImpressions =
        [cn \<mapsto> with_meta companyFirstImpressions (metaTitle companyStructured)
                 (metaDescription companyStructured)]
        ++ last_wins (map (\<lambda>c. (name c, with_meta (Some (first_impressions c))
                 (scraped_metaTitle (scraped c)) (scraped_metaDescription (scraped c))))
               competitorResults),
      screenshots =
        [cn \<mapsto> (normalizeUrl cu, companyScreenshot)]
        ++ last_wins (map (\<lambda>(c, (b, d)). (name c, (normalizeUrl (url b), screenshot d)))
               (zip competitorResults (zip cs competitorData))),
      googleScreenshots =
        [cn \<mapsto> companyGoogleScreenshot]
        ++ last_wins (map (\<lambda>c. (name c, result_google c)) competitorResults)\<rparr>"

definition error_response :: "nat \<Rightarrow> string \<Rightarrow> 'r response" where
  "error_response n msg = \<lparr>statusCode = n, headers = json_headers, body = Json (error_json msg)\<rparr>"

text \<open>
  The handler in three parts: what follows the reply of the Comparator
  (\<open>conclude_server\<close>), the comparison (\<open>compare_server\<close>) and the whole
  (\<open>run_audit_server\<close>).
\<close>

definition conclude_server :: "world \<Rightarrow> jsstring \<Rightarrow> jsstring \<Rightarrow> brand list \<Rightarrow> content_server
    \<Rightarrow> jsstring option \<Rightarrow> jsstring option \<Rightarrow> server_data list \<Rightarrow> json \<Rightarrow> json option
    \<Rightarrow> scraped_server result_server list \<Rightarrow> block list \<Rightarrow> report_server response act" where
  "conclude_server w cu cn cs companyStructured companyScreenshot companyGoogleScreenshot
      competitorData companyInferred companyFirstImpressions competitorResults analysisResponse =
     (case last_json_server None analysisResponse of
        None \<Rightarrow> ret (error_response 500 ''Could not compare brands'')
      | Some comparison \<Rightarrow>
          if \<not> truthy comparison then ret (error_response 500 ''Could not compare brands'')
          else
          bnd (lift (chartData_server cn companyInferred
                 (map (\<lambda>c. (name c, inferred c)) competitorResults))) (\<lambda>chartData.
          bnd (generateTakeaways_server (llm w) cn
                 (JObj (own_props (Some companyInferred) @ own_props companyFirstImpressions))
                 (map (\<lambda>c. JObj ((js ''name'', JStr (name c)) # own_props (Some (inferred c))))
                    competitorResults)
                 comparison) (\<lambda>tk.
          ret \<lparr>statusCode = 200, headers = json_headers,
               body = Report (report_of_server w cu cn cs companyStructured companyScreenshot
                        companyGoogleScreenshot competitorData companyFirstImpressions
                        competitorResults comparison chartData tk)\<rparr>)))"

definition compare_server :: "world \<Rightarrow> jsstring \<Rightarrow> jsstring \<Rightarrow> brand list \<Rightarrow> content_server
    \<Rightarrow> jsstring option \<Rightarrow> jsstring option \<Rightarrow> server_data list \<Rightarrow> json \<Rightarrow> json option
    \<Rightarrow> scraped_server result_server list \<Rightarrow> report_server response act" where
  "compare_server w cu cn cs companyStructured companyScreenshot companyGoogleScreenshot
      competitorData companyInferred companyFirstImpressions competitorResults =
     bnd (lift (brandSummaries_server companyInferred (map inferred competitorResults))) (\<lambda>u.
     bnd (messages_create (llm w) Comparator) (\<lambda>analysisResponse.
     conclude_server w cu cn cs companyStructured companyScreenshot companyGoogleScreenshot
       competitorData companyInferred companyFirstImpressions competitorResults analysisResponse))"

definition run_audit_server :: "world \<Rightarrow> jsstring \<Rightarrow> jsstring \<Rightarrow> brand list \<Rightarrow> report_server response act" where
  "run_audit_server w cu cn cs =
     bnd (collect_server w cu cn cs)
       (\<lambda>(companyStructured, companyScreenshot, companyGoogleScreenshot, competitorData).
     bnd (focal_server w cn companyStructured companyScreenshot companyGoogleScreenshot)
       (\<lambda>(companyMessaging, companyVisuals, companyFirstImpressions).
     if \<not> truthy_opt companyMessaging
     then ret (error_response 500 ''Could not analyze your website'')
     else
     bnd (amap (analyze_competitor_server w) competitorData) (\<lambda>competitorResults.
     compare_server w cu cn cs companyStructured companyScreenshot companyGoogleScreenshot
       competitorData (JObj (own_props companyMessaging @ own_props (Some companyVisuals)))
       companyFirstImpressions competitorResults)))"

definition audit_server :: "world \<Rightarrow> audit_request \<Rightarrow> trace \<Rightarrow> report_server response \<times> trace" where
  "audit_server w req t =
     (case (case (companyUrl req, companyName req, competitors req) of
              (Some cu, Some cn, Some cs) \<Rightarrow>
                if cu = [] \<or> cn = [] \<or> cs = [] then ret (error_response 400 ''Missing required fields'')
                else run_audit_server w cu cn cs
            | _ \<Rightarrow> ret (error_response 400 ''Missing required fields'')) t of
        (Inl e, t') \<Rightarrow> (\<lparr>statusCode = 500, headers = json_headers, body = Thrown e\<rparr>, t')
      | (Inr r, t') \<Rightarrow> (r, t'))"

section \<open>The audit function\<close>

definition collect_competitor_fn :: "world \<Rightarrow> brand \<Rightarrow> fn_data act" where
  "collect_competitor_fn w cp =
     bnd (fetchWebsite_fn (net w) (url cp)) (\<lambda>h.
     bnd (lift (extractStructuredContent_fn h)) (\<lambda>s.
     ret \<lparr>name = name cp, url = url cp, structured_fn = s\<rparr>))"

definition analyze_competitor_fn :: "world \<Rightarrow> fn_data \<Rightarrow> scraped_fn result act" where
  "analyze_competitor_fn w cp =
     bnd (extractMessaging_fn (llm w) (name cp) (structured_fn cp)) (\<lambda>messaging.
     bnd (analyzeFirstImpressions_fn (llm w) (name cp) (metaTitle (structured_fn cp))
            (metaDescription (structured_fn cp)) (h1 (structured_fn cp))) (\<lambda>impressions.
     ret \<lparr>name = name cp, url = url cp,
          scraped = \<lparr>scraped_h1 = h1 (structured_fn cp),
                      scraped_subheadline = subheadline (structured_fn cp)\<rparr>,
          inferred = or_object messaging,
          first_impressions = or_object impressions\<rparr>))"

definition summary_line_fn :: "json option \<Rightarrow> error + unit" where
  "summary_line_fn inf0 =
     ebind (tpl (prop_opt inf0 ''positioning'')) (\<lambda>p.
     ebind (formatVoiceForComparison inf0) (\<lambda>voice. Inr ()))"

definition brandSummaries_fn :: "json option \<Rightarrow> json list \<Rightarrow> error + unit" where
  "brandSummaries_fn companyMessaging others =
     all_ok (map summary_line_fn (companyMessaging # map Some others))"

definition chartData_fn :: "jsstring \<Rightarrow> json option \<Rightarrow> (jsstring \<times> json) list \<Rightarrow> error + chart" where
  "chartData_fn cn companyMessaging others =
     ebind (emap formatVoiceFull (companyMessaging # map (\<lambda>p. Some (snd p)) others)) (\<lambda>voices.
     Inr \<lparr>columns = js ''Category'' # cn # map fst others,
          rows = [\<lparr>category = js ''Positioning'',
                   values' = map (\<lambda>i. Some (or_value (prop_opt i ''positioning'') (JStr em_dash)))
                               (companyMessaging # map (\<lambda>p. Some (snd p)) others)\<rparr>,
                  \<lparr>category = js ''Voice'', values' = map Some voices\<rparr>]\<rparr>)"

definition without_meta :: "json \<Rightarrow> json" where
  "without_meta impressions =
     JObj (filter (\<lambda>p. fst p \<noteq> js ''metaTitle'' \<and> fst p \<noteq> js ''metaDescription'')
             (own_props (Some impressions)))"

definition conclude_fn :: "world \<Rightarrow> jsstring \<Rightarrow> content_fn \<Rightarrow> json option \<Rightarrow> json option
    \<Rightarrow> scraped_fn result list \<Rightarrow> block list \<Rightarrow> report_fn response act" where
  "conclude_fn w cn companyStructured companyMessaging companyFirstImpressions competitorResults
      comparisonResponse =
     bnd (lift (last_json_fn None comparisonResponse)) (\<lambda>comparison.
     bnd (generateTakeaways_fn (llm w) cn
            (JObj (own_props companyMessaging @ own_props companyFirstImpressions))
            (map (\<lambda>c. JObj ((js ''name'', JStr (name c)) # own_props (Some (inferred c))))
               competitorResults)
            (or_object comparison)) (\<lambda>tk.
     bnd (lift (chartData_fn cn companyMessaging
            (map (\<lambda>c. (name c, inferred c)) competitorResults))) (\<lambda>chartData.
     ret \<lparr>statusCode = 200, headers = json_headers,
          body = Report
            \<lparr>score = Some (or_value (prop_opt comparison ''score'') (JNum (js ''50''))),
             verdict = Some (or_value (prop_opt comparison ''verdict'') (JStr [])),
             overlaps = Some (or_value (prop_opt comparison ''overlaps'') (JArr [])),
             standouts = Some (or_value (prop_opt comparison ''standouts'') (JArr [])),
             takeaways = or_object tk, chart = chartData,
             firstImpressions =
               [cn \<mapsto> with_meta companyFirstImpressions (metaTitle companyStructured)
                        (metaDescription companyStructured)]
               ++ last_wins (map (\<lambda>c. (name c, without_meta (first_impressions c)))
                      competitorResults)\<rparr>\<rparr>)))"

definition run_audit_fn :: "world \<Rightarrow> jsstring \<Rightarrow> jsstring \<Rightarrow> brand list \<Rightarrow> report_fn response act" where
  "run_audit_fn w cu cn cs =
     bnd (fetchWebsite_fn (net w) cu) (\<lambda>companyHtml.
     bnd (lift (extractStructuredContent_fn companyHtml)) (\<lambda>companyStructured.
     bnd (amap (collect_competitor_fn w) cs) (\<lambda>competitorData.
     bnd (extractMessaging_fn (llm w) cn companyStructured) (\<lambda>companyMessaging.
     bnd (analyzeFirstImpressions_fn (llm w) cn (metaTitle companyStructured)
            (metaDescription companyStructured) (h1 companyStructured)) (\<lambda>companyFirstImpressions.
     bnd (amap (analyze_competitor_fn w) competitorData) (\<lambda>competitorResults.
     bnd (lift (brandSummaries_fn companyMessaging (map inferred competitorResults))) (\<lambda>u.
     bnd (messages_create (llm w) Comparator) (\<lambda>comparisonResponse.
     conclude_fn w cn companyStructured companyMessaging companyFirstImpressions
       competitorResults comparisonResponse))))))))"

definition audit_fn :: "world \<Rightarrow> audit_request event \<Rightarrow> trace \<Rightarrow> report_fn response \<times> trace" where
  "audit_fn w ev t =
     (if httpMethod ev \<noteq> js ''POST''
      then (\<lparr>statusCode = 405, headers = [], body = Text (js ''Method Not Allowed'')\<rparr>, t)
      else
        (case (case payload ev of
                 None \<Rightarrow> throw SyntaxError
               | Some req \<Rightarrow>
                   (case (companyUrl req, companyName req, competitors req) of
                      (Some cu, Some cn, Some cs) \<Rightarrow>
                        if cu = [] \<or> cn = [] \<or> cs = []
                        then ret \<lparr>statusCode = 400, headers = [],
                                  body = Json (error_json ''Missing required fields'')\<rparr>
                        else run_audit_fn w cu cn cs
                    | _ \<Rightarrow> ret \<lparr>statusCode = 400, headers = [],
                                body = Json (error_json ''Missing required fields'')\<rparr>)) t of
           (Inl e, t') \<Rightarrow> (\<lparr>statusCode = 500, headers = [], body = Thrown e\<rparr>, t')
         | (Inr r, t') \<Rightarrow> (r, t')))"

section \<open>The suggest-competitors function\<close>

fun first_span :: "block list \<Rightarrow> jsstring option" where
  "first_span [] = None"
| "first_span (TextBlock t # bs) = (case json_span t of Some m \<Rightarrow> Some m | None \<Rightarrow> first_span bs)"
| "first_span (OtherBlock # bs) = first_span bs"

definition suggest_reply :: "block list \<Rightarrow> unit response" where
  "suggest_reply bs =
     (case first_span bs of
        Some m \<Rightarrow> \<lparr>statusCode = 200, headers = json_headers, body = Text m\<rparr>
      | None \<Rightarrow> \<lparr>statusCode = 200, headers = [],
                 body = Json (JObj [(js ''competitors'', JArr [])])\<rparr>)"

definition suggest_fn :: "world \<Rightarrow> suggest_request event \<Rightarrow> trace \<Rightarrow> unit response \<times> trace" where
  "suggest_fn w ev t =
     (if httpMethod ev \<noteq> js ''POST''
      then (\<lparr>statusCode = 405, headers = [], body = Text (js ''Method Not Allowed'')\<rparr>, t)
      else
        (case (case payload ev of
                 None \<Rightarrow> throw SyntaxError
               | Some req \<Rightarrow>
                   (case (companyUrl req, companyName req) of
                      (Some cu, Some cn) \<Rightarrow>
                        if cu = [] \<or> cn = []
                        then ret \<lparr>statusCode = 400, headers = [],
                                  body = Json (error_json ''Missing company URL or name'')\<rparr>
                        else bnd (fetchWebsite_fn (net w) cu) (\<lambda>h.
                             bnd (lift (extractStructuredContent_suggest h)) (\<lambda>structured.
                             bnd (messages_create (llm w) Suggest) (\<lambda>bs.
                             ret (suggest_reply bs))))
                    | _ \<Rightarrow> ret \<lparr>statusCode = 400, headers = [],
                                body = Json (error_json ''Missing company URL or name'')\<rparr>)) t of
           (Inl e, t') \<Rightarrow> (\<lparr>statusCode = 500, headers = [], body = Thrown e\<rparr>, t')
         | (Inr r, t') \<Rightarrow> (r, t')))"

section \<open>The span of a reply, in words\<close>

text \<open>
  The span the stages look for, said without a regular expression: it starts at the first
  \<^verbatim>\<open>{\<close> of the text and ends at the last \<^verbatim>\<open>}\<close> after it; there is none when the
  text has no \<^verbatim>\<open>{\<close> or no \<^verbatim>\<open>}\<close> after the first one. \<open>upto_last d s\<close> is the prefix
  of \<open>s\<close> that ends with the last \<open>d\<close>. \<open>first_brace_span\<close> is the span of the first
  text block that has one.
\<close>

fun upto_last :: "jschar \<Rightarrow> jsstring \<Rightarrow> jsstring" where
  "upto_last d [] = []"
| "upto_last d (x # xs) = (if d \<in> set xs then x # upto_last d xs else if x = d then [x] else [])"

definition brace_span :: "jsstring \<Rightarrow> jsstring option" where
  "brace_span t =
     (case dropWhile (\<lambda>c. c \<noteq> 123) t of
        [] \<Rightarrow> None
      | b # rest \<Rightarrow> if 125 \<in> set rest then Some (b # upto_last 125 rest) else None)"

fun first_brace_span :: "block list \<Rightarrow> jsstring option" where
  "first_brace_span [] = None"
| "first_brace_span (TextBlock t # bs) =
     (case brace_span t of Some m \<Rightarrow> Some m | None \<Rightarrow> first_brace_span bs)"
| "first_brace_span (OtherBlock # bs) = first_brace_span bs"




section \<open>Replies without a JSON object, and the outcome of a comparison\<close>

text \<open>
  \<open>no_json_object bs\<close>: no text block of the reply \<open>bs\<close> holds a JSON object, that is,
  every text block either has no brace span or has a span that \<^verbatim>\<open>JSON.parse\<close> rejects.
\<close>

fun no_json_object :: "block list \<Rightarrow> bool" where
  "no_json_object [] = True"
| "no_json_object (TextBlock x # bs) =
     ((case brace_span x of None \<Rightarrow> True | Some m \<Rightarrow> JSON_parse m = None) \<and> no_json_object bs)"
| "no_json_object (OtherBlock # bs) = no_json_object bs"

text \<open>
  \<open>compared cn names reply r post\<close> describes the server once the Comparator has been
  called: \<open>reply\<close> is what the model answers, \<open>r\<close> the result of the handler and \<open>post\<close>
  the calls issued after the Comparator. Without a reply the call throws; a reply without
  a JSON object ends the audit with the error \<^verbatim>\<open>Could not compare brands\<close> and no more
  calls; otherwise the handler throws or answers 200 with a chart of the columns
  \<open>Category\<close>, \<open>cn\<close>, \<open>names\<close> and the three rows.
\<close>

definition compared :: "jsstring \<Rightarrow> jsstring list \<Rightarrow> block list option
    \<Rightarrow> error + report_server response \<Rightarrow> stage list \<Rightarrow> bool" where
  "compared cn names reply r post =
     (set post \<subseteq> {Takeaways} \<and>
      (case reply of
         None \<Rightarrow> r = Inl ApiError \<and> post = []
       | Some bs \<Rightarrow>
           (case last_json_server None bs of
              None \<Rightarrow> r = Inr (error_response 500 ''Could not compare brands'') \<and> post = []
            | Some v \<Rightarrow>
                if \<not> truthy v
                then r = Inr (error_response 500 ''Could not compare brands'') \<and> post = []
                else (\<exists>e. r = Inl e) \<or>
                     (\<exists>rep. r = Inr \<lparr>statusCode = 200, headers = json_headers, body = Report rep\<rparr>
                        \<and> columns (chart rep) = js ''Category'' # cn # names
                        \<and> map category (rows (chart rep))
                            = [js ''Positioning'', js ''Voice'', js ''Visual Style'']))))"

section \<open>Which stages an action calls\<close>

text \<open>\<open>calls_within S m\<close>: from any trace, \<open>m\<close> only adds calls of stages in \<open>S\<close>.\<close>

definition calls_within :: "stage set \<Rightarrow> 'a act \<Rightarrow> bool" where
  "calls_within S m = (\<forall>t. \<exists>new. llm_calls (snd (m t)) = llm_calls t @ new \<and> set new \<subseteq> S)"

section \<open>Which expressions set the capture\<close>

text \<open>
  The extractor reads the capture of a match with \<^verbatim>\<open>m[1]\<close>. \<open>after r b\<close> says
  whether the capture is certainly set after a match of \<open>r\<close>, when \<open>b\<close> says whether it
  was set before; \<open>sets k b\<close> is the same for a stack of frames. They are used to show
  that the extractor never reads an unset capture.
\<close>

fun after :: "re \<Rightarrow> bool \<Rightarrow> bool" where
  "after (Grp r) b = True"
| "after (Seq a c) b = after c (after a b)"
| "after (Alt a c) b = (after a b \<and> after c b)"
| "after (Star g r) b = (b \<and> \<not> has_group r)"
| "after (Opt r) b = (b \<and> \<not> has_group r)"
| "after r b = b"

fun sets :: "frame list \<Rightarrow> bool \<Rightarrow> bool" where
  "sets [] b = b"
| "sets (R r # k) b = sets k (after r b)"
| "sets (Prog i # k) b = sets k b"
| "sets (CapEnd i s # k) b = sets k True"

section \<open>Properties of the string functions\<close>

lemma dropWhile_split: "\<exists>a. xs = a @ dropWhile P xs \<and> list_all P a"
proof (induction xs)
  case Nil
  show ?case by simp
next
  case (Cons x xs)
  then obtain a where a: "xs = a @ dropWhile P xs" "list_all P a" by blast
  show ?case
  proof (cases "P x")
    case True
    with a have "x # xs = (x # a) @ dropWhile P (x # xs) \<and> list_all P (x # a)" by simp
    then show ?thesis by blast
  next
    case False
    then have "x # xs = [] @ dropWhile P (x # xs) \<and> list_all P []" by simp
    then show ?thesis by blast
  qed
qed

lemma trim_split: "\<exists>a b. s = a @ trim s @ b \<and> list_all is_space a \<and> list_all is_space b"
proof -
  obtain a where a: "s = a @ dropWhile is_space s" "list_all is_space a"
    using dropWhile_split by blast
  obtain b where b: "rev (dropWhile is_space s) = b @ dropWhile is_space (rev (dropWhile is_space s))"
    "list_all is_space b"
    using dropWhile_split by blast
  from b(1) have "dropWhile is_space s = trim s @ rev b"
    unfolding trim_def by (metis rev_append rev_rev_ident)
  with a(1) have "s = a @ trim s @ rev b" by simp
  moreover from b(2) have "list_all is_space (rev b)" by (simp add: list_all_iff)
  ultimately show ?thesis using a(2) by blast
qed

lemma dropWhile_hd: "dropWhile P xs \<noteq> [] \<Longrightarrow> \<not> P (hd (dropWhile P xs))"
  by (simp add: hd_dropWhile)

lemma trim_ends: "trim s = [] \<or> (\<not> is_space (hd (trim s)) \<and> \<not> is_space (last (trim s)))"
proof (cases "trim s = []")
  case True
  then show ?thesis by simp
next
  case False
  let ?d = "dropWhile is_space s"
  let ?e = "dropWhile is_space (rev ?d)"
  from False have e: "?e \<noteq> []" by (simp add: trim_def)
  then have l: "\<not> is_space (hd ?e)" by (rule dropWhile_hd)
  with e have last_ok: "\<not> is_space (last (trim s))" by (simp add: trim_def last_rev)
  have "rev ?d \<noteq> []"
  proof
    assume "rev ?d = []"
    then have "?e = []" by (simp only: dropWhile.simps)
    with e show False by simp
  qed
  then have d: "?d \<noteq> []" by simp
  then have hd_d: "\<not> is_space (hd ?d)" by (rule dropWhile_hd)
  have "rev ?d = takeWhile is_space (rev ?d) @ ?e" by simp
  then have "?d = rev ?e @ rev (takeWhile is_space (rev ?d))"
    by (metis rev_append rev_rev_ident)
  with e have "hd ?d = hd (rev ?e)" by (metis hd_append2 rev_is_Nil_conv)
  with hd_d have "\<not> is_space (hd (trim s))" by (simp add: trim_def)
  with last_ok show ?thesis by simp
qed

section \<open>The fetcher\<close>

lemma normalizeUrl_prefixed:
  "prefix (js ''http://'') (normalizeUrl s) \<or> prefix (js ''https://'') (normalizeUrl s)"
  by (simp add: normalizeUrl_def Let_def)

lemma www_url_http:
  assumes "prefix (js ''http://'') u"
  shows "www_url u = js ''http://www.'' @ drop 7 u"
proof -
  from assms obtain r where "u = js ''http://'' @ r" by (auto simp: prefix_def)
  then show ?thesis by (simp add: www_url_def replace_str_def js_def)
qed

lemma www_url_https:
  assumes "prefix (js ''https://'') u"
  shows "www_url u = js ''https://www.'' @ drop 8 u"
proof -
  from assms obtain r where "u = js ''https://'' @ r" by (auto simp: prefix_def)
  then show ?thesis by (simp add: www_url_def replace_str_def js_def)
qed

lemma fetchWebsite_fn_run:
  "fetchWebsite_fn nw u t =
     (Inr (case nw (normalizeUrl u) of Some h \<Rightarrow> Some h
           | None \<Rightarrow> nw (www_url (normalizeUrl u))),
      t\<lparr>requests := requests t @
          (case nw (normalizeUrl u) of Some h \<Rightarrow> [normalizeUrl u]
           | None \<Rightarrow> [normalizeUrl u, www_url (normalizeUrl u)])\<rparr>)"
  by (simp add: fetchWebsite_fn_def Let_def try_catch_def bnd_def ret_def http_get_def
      split: option.splits)

lemma fetchWebsite_server_run:
  "fetchWebsite_server nw u t =
     (Inr (case nw (normalizeUrl u) of Some h \<Rightarrow> Some h
           | None \<Rightarrow> if includes_str (normalizeUrl u) (js ''://www.'') then None
                     else nw (www_url (normalizeUrl u))),
      t\<lparr>requests := requests t @
          (case nw (normalizeUrl u) of Some h \<Rightarrow> [normalizeUrl u]
           | None \<Rightarrow> if includes_str (normalizeUrl u) (js ''://www.'') then [normalizeUrl u]
                     else [normalizeUrl u, www_url (normalizeUrl u)])\<rparr>)"
  by (simp add: fetchWebsite_server_def Let_def try_catch_def bnd_def ret_def http_get_def
      split: option.splits)

text \<open>
  Claim C7. For every input string, URL normalization trims surrounding whitespace (the
  input is whitespace, then the trimmed string, then whitespace, and the trimmed string
  neither starts nor ends with whitespace) and prepends \<^verbatim>\<open>https://\<close> exactly when the
  trimmed string starts with neither \<^verbatim>\<open>http://\<close> nor \<^verbatim>\<open>https://\<close>. Normalizing
  \<^verbatim>\<open>example.com\<close> gives \<^verbatim>\<open>https://example.com\<close>. In both fetchers the first network
  request is for the normalized URL.
\<close>

theorem normalizeUrl_trims_and_adds_scheme:
  "normalizeUrl s =
     (if prefix (js ''http://'') (trim s) \<or> prefix (js ''https://'') (trim s) then trim s
      else js ''https://'' @ trim s)
   \<and> (\<exists>a b. s = a @ trim s @ b \<and> list_all is_space a \<and> list_all is_space b)
   \<and> (trim s = [] \<or> (\<not> is_space (hd (trim s)) \<and> \<not> is_space (last (trim s))))
   \<and> normalizeUrl (js ''example.com'') = js ''https://example.com''
   \<and> (\<exists>rest. requests (snd (fetchWebsite_fn nw s t)) = requests t @ normalizeUrl s # rest)
   \<and> (\<exists>rest. requests (snd (fetchWebsite_server nw s t)) = requests t @ normalizeUrl s # rest)"
proof -
  have a: "normalizeUrl s =
     (if prefix (js ''http://'') (trim s) \<or> prefix (js ''https://'') (trim s) then trim s
      else js ''https://'' @ trim s)"
    by (simp add: normalizeUrl_def Let_def)
  have b: "normalizeUrl (js ''example.com'') = js ''https://example.com''"
    by (simp add: normalizeUrl_def trim_def is_space_def js_def)
  have c: "\<exists>rest. requests (snd (fetchWebsite_fn nw s t)) = requests t @ normalizeUrl s # rest"
    by (simp add: fetchWebsite_fn_run split: option.splits)
  have d: "\<exists>rest. requests (snd (fetchWebsite_server nw s t)) = requests t @ normalizeUrl s # rest"
    by (simp add: fetchWebsite_server_run split: option.splits)
  from a b c d trim_split [of s] trim_ends [of s] show ?thesis by blast
qed

text \<open>
  Claim C8, as stated, fails on the server: its fetcher is guarded by
  \<^verbatim>\<open>if (!u.includes('://www.'))\<close>. For \<^verbatim>\<open>https://www.example.com\<close> on a network where
  every GET fails, it resolves to \<^verbatim>\<open>null\<close> after the primary request alone.
\<close>

theorem fetchWebsite_server_www_not_retried:
  "fetchWebsite_server (\<lambda>u. None) (js ''https://www.example.com'')
      \<lparr>requests = [], llm_calls = []\<rparr>
    = (Inr None, \<lparr>requests = [js ''https://www.example.com''], llm_calls = []\<rparr>)"
  by (simp add: fetchWebsite_server_run normalizeUrl_def trim_def is_space_def js_def
      includes_str_def)

text \<open>
  Claim C8, amended. For every URL string neither fetcher throws. A primary GET that
  succeeds is the result, after that one request. When the primary GET fails, the
  fetcher of the functions requests the URL with \<^verbatim>\<open>www.\<close> inserted after the scheme,
  once, and resolves to its text, or to \<^verbatim>\<open>null\<close> when it fails too. The server does
  the same when the normalized URL does not contain \<^verbatim>\<open>://www.\<close>, and otherwise
  resolves to \<^verbatim>\<open>null\<close> without a second request.
\<close>

theorem fetchWebsite_retry_policy:
  "fetchWebsite_fn nw u t =
     (Inr (case nw (normalizeUrl u) of Some h \<Rightarrow> Some h
           | None \<Rightarrow> nw (www_url (normalizeUrl u))),
      t\<lparr>requests := requests t @
          (case nw (normalizeUrl u) of Some h \<Rightarrow> [normalizeUrl u]
           | None \<Rightarrow> [normalizeUrl u, www_url (normalizeUrl u)])\<rparr>)
   \<and> fetchWebsite_server nw u t =
     (Inr (case nw (normalizeUrl u) of Some h \<Rightarrow> Some h
           | None \<Rightarrow> if includes_str (normalizeUrl u) (js ''://www.'') then None
                     else nw (www_url (normalizeUrl u))),
      t\<lparr>requests := requests t @
          (case nw (normalizeUrl u) of Some h \<Rightarrow> [normalizeUrl u]
           | None \<Rightarrow> if includes_str (normalizeUrl u) (js ''://www.'') then [normalizeUrl u]
                     else [normalizeUrl u, www_url (normalizeUrl u)])\<rparr>)
   \<and> www_url (normalizeUrl u) =
     (if prefix (js ''http://'') (normalizeUrl u)
      then js ''http://www.'' @ drop 7 (normalizeUrl u)
      else js ''https://www.'' @ drop 8 (normalizeUrl u))"
  using fetchWebsite_fn_run [of nw u t] fetchWebsite_server_run [of nw u t]
    normalizeUrl_prefixed [of u] www_url_http [of "normalizeUrl u"]
    www_url_https [of "normalizeUrl u"]
  by auto

section \<open>Matches set the capture\<close>

lemma after_mono: "after r b \<Longrightarrow> b \<longrightarrow> b' \<Longrightarrow> after r b'"
  by (induction r arbitrary: b b') auto

lemma after_no_group: "\<not> has_group r \<Longrightarrow> after r b = b"
  by (induction r arbitrary: b) auto

lemma sets_mono: "sets k b \<Longrightarrow> b \<longrightarrow> b' \<Longrightarrow> sets k b'"
proof (induction k arbitrary: b b')
  case Nil
  then show ?case by simp
next
  case (Cons f k)
  show ?case
  proof (cases f)
    case (R r)
    with Cons.prems have "sets k (after r b)" by simp
    moreover have "after r b \<longrightarrow> after r b'" using Cons.prems(2) after_mono by blast
    ultimately have "sets k (after r b')" by (rule Cons.IH)
    with R show ?thesis by simp
  next
    case (Prog i)
    with Cons show ?thesis by simp
  next
    case (CapEnd i s)
    with Cons show ?thesis by simp
  qed
qed

lemma run_sets_capture:
  "run ci k st = Some e \<Longrightarrow> sets k (snd (snd (snd st)) \<noteq> None) \<Longrightarrow> snd (snd (snd e)) \<noteq> None"
proof (induction ci k st arbitrary: e rule: run.induct)
  case (14 ci a b k st)
  from "14.prems"(2) have sa: "sets (R a # k) (snd (snd (snd st)) \<noteq> None)"
    and sb: "sets (R b # k) (snd (snd (snd st)) \<noteq> None)"
    by (auto elim: sets_mono)
  show ?case
  proof (cases "run ci (R a # k) st")
    case None
    with "14.prems"(1) have "run ci (R b # k) st = Some e" by simp
    with "14.IH"(2) None sb show ?thesis by blast
  next
    case (Some e')
    with "14.prems"(1) have "e' = e" by simp
    with "14.IH"(1) Some sa show ?thesis by blast
  qed
next
  case (15 ci g r k i pv s c)
  let ?c = "if has_group r then None else c"
  let ?body = "run ci (R r # Prog i # R (Star g r) # k) (i, pv, s, ?c)"
  from "15.prems"(2) have sk: "sets k (c \<noteq> None \<and> \<not> has_group r)" by simp
  then have exit: "sets k (c \<noteq> None)" by (rule sets_mono) simp
  have iter: "sets (R r # Prog i # R (Star g r) # k) (?c \<noteq> None)"
  proof (cases "has_group r")
    case True
    with sk have "sets k False" by simp
    then have "sets k (after r False \<and> \<not> has_group r)" by (rule sets_mono) simp
    with True show ?thesis by simp
  next
    case False
    with sk show ?thesis by (simp add: after_no_group)
  qed
  from "15.prems"(1) consider "?body = Some e" | "run ci k (i, pv, s, c) = Some e"
    by (auto split: if_splits option.splits)
  then show ?case
  proof cases
    case 1
    show ?thesis
    proof (cases g)
      case True
      from "15.IH"(1) [OF True 1] iter show ?thesis by simp
    next
      case False
      from 1 "15.prems"(1) False have n: "run ci k (i, pv, s, c) = None \<or> run ci k (i, pv, s, c) = Some e"
        by (auto split: option.splits)
      then show ?thesis
      proof
        assume n: "run ci k (i, pv, s, c) = None"
        from "15.IH"(4) [OF False n 1] iter show ?thesis by simp
      next
        assume "run ci k (i, pv, s, c) = Some e"
        from "15.IH"(3) [OF False this] exit show ?thesis by simp
      qed
    qed
  next
    case 2
    show ?thesis
    proof (cases g)
      case True
      from 2 "15.prems"(1) True have n: "?body = None \<or> ?body = Some e"
        by (auto split: option.splits)
      then show ?thesis
      proof
        assume n: "?body = None"
        from "15.IH"(2) [OF True n 2] exit show ?thesis by simp
      next
        assume b: "?body = Some e"
        from "15.IH"(1) [OF True b] iter show ?thesis by simp
      qed
    next
      case False
      from "15.IH"(3) [OF False 2] exit show ?thesis by simp
    qed
  qed
next
  case (16 ci r k i pv s c)
  let ?c = "if has_group r then None else c"
  let ?body = "run ci (R r # Prog i # k) (i, pv, s, ?c)"
  from "16.prems"(2) have sk: "sets k (c \<noteq> None \<and> \<not> has_group r)" by simp
  then have exit: "sets k (c \<noteq> None)" by (rule sets_mono) simp
  have iter: "sets (R r # Prog i # k) (?c \<noteq> None)"
  proof (cases "has_group r")
    case True
    with sk have "sets k False" by simp
    then have "sets k (after r False)" by (rule sets_mono) simp
    with True show ?thesis by simp
  next
    case False
    with sk show ?thesis by (simp add: after_no_group)
  qed
  show ?case
  proof (cases ?body)
    case None
    with "16.prems"(1) have "run ci k (i, pv, s, c) = Some e" by simp
    from "16.IH"(2) [OF None this] exit show ?thesis by simp
  next
    case (Some e')
    with "16.prems"(1) have "e' = e" by simp
    with "16.IH"(1) Some iter show ?thesis by simp
  qed
next
  case (20 ci r k st)
  from "20.prems"(1) have n: "run ci [R r] st = None" and k: "run ci k st = Some e"
    by (auto split: option.splits)
  from "20.IH"(2) [OF n k] "20.prems"(2) show ?case by simp
qed (auto split: if_splits)

lemma match_at_capture:
  assumes "after r False" "match_at ci r i pv s = Some (m, c)"
  shows "c \<noteq> None"
proof -
  from assms(2) obtain e where e: "run ci [R r] (i, pv, s, None) = Some e" and c: "c = snd (snd (snd e))"
    by (auto simp: match_at_def split: option.splits)
  from assms(1) have "sets [R r] (snd (snd (snd (i, pv, s, None :: jsstring option))) \<noteq> None)"
    by (auto elim: after_mono)
  from run_sets_capture [OF e this] c show ?thesis by simp
qed

lemma exec_from_capture:
  "after r False \<Longrightarrow> exec_from ci r i pv s = Some (m, c) \<Longrightarrow> c \<noteq> None"
proof (induction s arbitrary: i pv)
  case Nil
  then show ?case using match_at_capture by simp
next
  case (Cons x xs)
  show ?case
  proof (cases "match_at ci r i pv (x # xs)")
    case None
    with Cons.prems have "exec_from ci r (Suc i) (Some x) xs = Some (m, c)" by simp
    with Cons.IH Cons.prems(1) show ?thesis by blast
  next
    case (Some e)
    with Cons.prems have "match_at ci r i pv (x # xs) = Some (m, c)" by simp
    with Cons.prems(1) show ?thesis by (rule match_at_capture)
  qed
qed

lemma capture_of_exec:
  assumes "after r False"
  shows "\<exists>t. capture_of (exec ci r h) f = Inr t"
proof (cases "exec ci r h")
  case None
  then show ?thesis by (simp add: capture_of_def)
next
  case (Some mt)
  obtain m c where mt: "mt = (m, c)" by (cases mt)
  with Some assms have "c \<noteq> None" using exec_from_capture by (simp add: exec_def)
  with Some mt show ?thesis by (auto simp: capture_of_def group1_def ebind_def)
qed

lemma capture_of_exec_or:
  assumes "after r False" "after r' False"
  shows "\<exists>t. capture_of (or_else (exec ci r h) (exec ci r' h)) f = Inr t"
proof (cases "exec ci r h")
  case None
  with capture_of_exec [OF assms(2)] show ?thesis by (simp add: or_else_def)
next
  case (Some mt)
  with capture_of_exec [OF assms(1), of ci h f] show ?thesis by (simp add: or_else_def)
qed

lemma extract_title_returns: "\<exists>t. extract_title h = Inr t"
  unfolding extract_title_def by (rule capture_of_exec) (simp add: re_title_def lit_def Plus_def)

lemma extract_description_returns: "\<exists>t. extract_description h = Inr t"
  unfolding extract_description_def
  by (rule capture_of_exec_or) (simp_all add: re_meta_name_first_def re_meta_content_first_def lit_def Plus_def)

lemma extract_h1_returns: "\<exists>t. extract_h1 h = Inr t"
  unfolding extract_h1_def by (rule capture_of_exec) (simp add: re_h1_def lit_def Plus_def)

lemma extract_h2_returns: "\<exists>t. extract_h2 h = Inr t"
  unfolding extract_h2_def by (rule capture_of_exec) (simp add: re_h2_def lit_def Plus_def)

lemma extract_p_hero_returns: "\<exists>t. extract_p_hero h = Inr t"
  unfolding extract_p_hero_def by (rule capture_of_exec) (simp add: re_p_hero_def lit_def Plus_def)

lemma fn_returns_capped:
  "\<exists>r. extractStructuredContent_fn html0 = Inr r \<and> length (h1 r) \<le> 200
       \<and> length (subheadline r) \<le> 300 \<and> length (text' r) \<le> 1500"
proof (cases "html0 = None \<or> html0 = Some []")
  case True
  then show ?thesis by (auto simp: extractStructuredContent_fn_def)
next
  case False
  then obtain h where h: "html0 = Some h" "h \<noteq> []" by auto
  obtain t d a b where "extract_title h = Inr t" "extract_description h = Inr d"
    "extract_h1 h = Inr a" "extract_h2 h = Inr b"
    using extract_title_returns extract_description_returns extract_h1_returns
      extract_h2_returns by blast
  with h show ?thesis by (simp add: extractStructuredContent_fn_def ebind_def)
qed

lemma server_returns_capped:
  assumes "all_fonts h = Inr fs"
  shows "\<exists>r. extractStructuredContent_server (Some h) = Inr r
       \<and> length (metaTitle r) \<le> 200 \<and> length (metaDescription r) \<le> 300
       \<and> length (h1 r) \<le> 200 \<and> length (subheadline r) \<le> 300 \<and> length (text' r) \<le> 1500
       \<and> fonts r = joined_or_unknown (final_fonts fs)
       \<and> colors r = joined_or_unknown (detected_colors h)"
proof -
  obtain t d a b p where "extract_title h = Inr t" "extract_description h = Inr d"
    "extract_h1 h = Inr a" "extract_h2 h = Inr b" "extract_p_hero h = Inr p"
    using extract_title_returns extract_description_returns extract_h1_returns
      extract_h2_returns extract_p_hero_returns by blast
  with assms show ?thesis
    by (simp add: extractStructuredContent_server_def ebind_def server_text_def)
qed

lemma server_throws_with_fonts:
  assumes "all_fonts h = Inl e"
  shows "extractStructuredContent_server (Some h) = Inl e"
proof -
  obtain t d a b p where "extract_title h = Inr t" "extract_description h = Inr d"
    "extract_h1 h = Inr a" "extract_h2 h = Inr b" "extract_p_hero h = Inr p"
    using extract_title_returns extract_description_returns extract_h1_returns
      extract_h2_returns extract_p_hero_returns by blast
  with assms show ?thesis
    by (simp add: extractStructuredContent_server_def ebind_def)
qed

lemma uniq_props: "distinct (uniq seen xs) \<and> set (uniq seen xs) = set xs - set seen"
  by (induction seen xs rule: uniq.induct) auto

lemma uniq_length: "length (uniq seen xs) \<le> length xs"
  by (induction seen xs rule: uniq.induct) (auto simp: le_SucI)

lemma split_char_first_no_sep:
  "(case split_char d f of [] \<Rightarrow> [] | p # ps \<Rightarrow> p) = takeWhile (\<lambda>c. c \<noteq> d) f"
  by (induction f) (auto split: list.splits)

lemma google_families_no_colon: "list_all (\<lambda>f. 58 \<notin> set f) (google_families d)"
  unfolding google_families_def list_all_iff
  by (auto simp: split_char_first_no_sep dest: set_takeWhileD)

lemma final_fonts_props:
  "length (final_fonts fs) \<le> 3 \<and> distinct (final_fonts fs) \<and> set (final_fonts fs) \<subseteq> set fs"
  unfolding final_fonts_def using uniq_props [of "[]" fs]
  by (auto dest: in_set_takeD)

lemma final_fonts_small: "length fs \<le> 3 \<Longrightarrow> set (final_fonts fs) = set fs"
  unfolding final_fonts_def using uniq_props [of "[]" fs] uniq_length [of "[]" fs] by simp

lemma declared_fonts_length: "length (declared_fonts h) \<le> 3"
  by (simp add: declared_fonts_def)

section \<open>The extractor on concrete and on arbitrary pages\<close>

lemmas re_defs = re_title_def re_meta_name_first_def re_meta_content_first_def re_h1_def re_h2_def
  re_p_hero_def re_tag_def re_color_def re_font_family_def re_quote_def re_google_fonts_def
  re_script_def re_style_def re_spaces_def re_nbsp_def re_amp_def re_lt_def re_gt_def re_quot_def
  re_json_def quotes_def Plus_def lit_def

lemmas engine_defs = match_at_def exec_def replace_all_def match_all_def canon_def in_class_def
  is_word_def word_opt_def is_space_def trim_def js_def

lemmas extract_defs = extractStructuredContent_server_def extractStructuredContent_fn_def
  extractStructuredContent_suggest_def extract_title_def extract_description_def extract_h1_def
  extract_h2_def extract_p_hero_def capture_of_def or_else_def strip_tags_def without_markup_def
  collapse_def second_piece_def color_values_def font_values_def detected_colors_def
  declared_fonts_def google_families_def all_fonts_def joined_or_unknown_def final_fonts_def
  server_text_def ebind_def group1_def List.map_filter_def hexval_def utf8_tail_def utf16_def


lemma suggest_returns_capped:
  "\<exists>r. extractStructuredContent_suggest html0 = Inr r \<and> length (text' r) \<le> 800"
proof (cases "html0 = None \<or> html0 = Some []")
  case True
  then show ?thesis by (auto simp: extractStructuredContent_suggest_def)
next
  case False
  then obtain h where h: "html0 = Some h" "h \<noteq> []" by auto
  obtain a where "extract_h1 h = Inr a" using extract_h1_returns by blast
  with h show ?thesis by (simp add: extractStructuredContent_suggest_def ebind_def)
qed

lemma all_fonts_returns:
  assumes "exec True re_google_fonts h = None
     \<or> (\<exists>m g d. exec True re_google_fonts h = Some (m, Some g) \<and> decodeURIComponent g = Inr d)"
  shows "\<exists>fs. all_fonts h = Inr fs"
  using assms by (auto simp: all_fonts_def ebind_def)

lemma server_capped_if_returns:
  assumes "extractStructuredContent_server (Some h) = Inr r"
  shows "length (metaTitle r) \<le> 200 \<and> length (metaDescription r) \<le> 300
       \<and> length (h1 r) \<le> 200 \<and> length (subheadline r) \<le> 300 \<and> length (text' r) \<le> 1500"
proof (cases "all_fonts h")
  case (Inl e)
  from server_throws_with_fonts [OF this] assms show ?thesis by simp
next
  case (Inr fs)
  from server_returns_capped [OF this] assms show ?thesis by auto
qed

text \<open>
  The caps that hold. The extractor of the audit function never throws, for \<^verbatim>\<open>null\<close> and
  for every string, and returns the heading within 200 code units, the subheading within
  300 and the body text within 1500; the extractor of the suggest-competitors function
  never throws and caps the body text at 800. The extractor of the server, on a string,
  returns whenever the page has no Google Fonts link with a family parameter or that
  parameter decodes, and what it returns is within all five caps.
\<close>

lemma extractors_return_within_caps:
  "(\<exists>r. extractStructuredContent_fn html0 = Inr r \<and> length (h1 r) \<le> 200
        \<and> length (subheadline r) \<le> 300 \<and> length (text' r) \<le> 1500)
   \<and> (\<exists>r. extractStructuredContent_suggest html0 = Inr r \<and> length (text' r) \<le> 800)
   \<and> (exec True re_google_fonts h = None
        \<or> (\<exists>m g d. exec True re_google_fonts h = Some (m, Some g) \<and> decodeURIComponent g = Inr d)
      \<longrightarrow> (\<exists>r. extractStructuredContent_server (Some h) = Inr r))
   \<and> (\<forall>r. extractStructuredContent_server (Some h) = Inr r
        \<longrightarrow> length (metaTitle r) \<le> 200 \<and> length (metaDescription r) \<le> 300
          \<and> length (h1 r) \<le> 200 \<and> length (subheadline r) \<le> 300
          \<and> length (text' r) \<le> 1500)"
proof -
  have "\<exists>r. extractStructuredContent_server (Some h) = Inr r"
    if "exec True re_google_fonts h = None
        \<or> (\<exists>m g d. exec True re_google_fonts h = Some (m, Some g) \<and> decodeURIComponent g = Inr d)"
  proof -
    from all_fonts_returns [OF that] obtain fs where "all_fonts h = Inr fs" by blast
    from server_returns_capped [OF this] show ?thesis by blast
  qed
  with fn_returns_capped [of html0] suggest_returns_capped [of html0]
    server_capped_if_returns [of h]
  show ?thesis by blast
qed

text \<open>
  The two places where the caps or the return fail: a title of 201 code units in the audit
  function, and a family parameter that is a truncated UTF-8 escape in the server.
\<close>

lemma fn_title_is_uncapped:
  assumes "extractStructuredContent_fn (Some h) = Inr r" and "h \<noteq> []"
  shows "extract_title h = Inr (metaTitle r)"
  using assms by (auto simp: extractStructuredContent_fn_def ebind_def split: sum.splits)

lemma long_title:
  "extract_title (js ''<title>aaaaaaaaaaaaaaaaaaaaaaaaaaaaaaaaaaaaaaaaaaaaaaaaaaaaaaaaaaaaaaaaaaaaaaaaaaaaaaaaaaaaaaaaaaaaaaaaaaaaaaaaaaaaaaaaaaaaaaaaaaaaaaaaaaaaaaaaaaaaaaaaaaaaaaaaaaaaaaaaaaaaaaaaaaaaaaaaaaaaaaaaaaaaaaaaaaaaaaaaa</title>'') = Inr (js ''aaaaaaaaaaaaaaaaaaaaaaaaaaaaaaaaaaaaaaaaaaaaaaaaaaaaaaaaaaaaaaaaaaaaaaaaaaaaaaaaaaaaaaaaaaaaaaaaaaaaaaaaaaaaaaaaaaaaaaaaaaaaaaaaaaaaaaaaaaaaaaaaaaaaaaaaaaaaaaaaaaaaaaaaaaaaaaaaaaaaaaaaaaaaaaaaaaaaaaaaa'')"
  by (simp add: re_defs engine_defs extract_defs)

lemma malformed_family:
  "all_fonts (js ''<link href='https://fonts.googleapis.com/css?family=%E0%A4%A'>'') = Inl URIError"
proof -
  let ?h = "js ''<link href='https://fonts.googleapis.com/css?family=%E0%A4%A'>''"
  have a: "exec True re_google_fonts ?h
     = Some (js ''fonts.googleapis.com/css?family=%E0%A4%A'', Some (js ''%E0%A4%A''))"
    by (simp add: re_defs engine_defs)
  have b: "decodeURIComponent (js ''%E0%A4%A'') = Inl URIError"
    by (simp add: js_def ebind_def hexval_def utf8_tail_def utf16_def)
  show ?thesis by (simp add: all_fonts_def a b ebind_def)
qed

text \<open>
  Claim C4 is not met by the code at two places. The extractor of the audit function
  returns the title and the description as they were found
  (\<^verbatim>\<open>{ metaTitle, metaDescription, h1: h1.substring(0, 200), ... }\<close>), where the same
  statement cuts the heading and the subheading and the extractor of the server cuts all
  four: a page whose title has 201 code units gives a title of 201 code units. The
  extractor of the server hands the family parameter of a Google Fonts link to
  \<^verbatim>\<open>decodeURIComponent\<close> outside any \<^verbatim>\<open>try\<close>: on \<^verbatim>\<open>%E0%A4%A\<close>, a truncated
  escape, it throws a URIError.
\<close>

theorem extractor_exceeds_cap_and_throws:
  "(\<exists>r. extractStructuredContent_fn (Some (js ''<title>aaaaaaaaaaaaaaaaaaaaaaaaaaaaaaaaaaaaaaaaaaaaaaaaaaaaaaaaaaaaaaaaaaaaaaaaaaaaaaaaaaaaaaaaaaaaaaaaaaaaaaaaaaaaaaaaaaaaaaaaaaaaaaaaaaaaaaaaaaaaaaaaaaaaaaaaaaaaaaaaaaaaaaaaaaaaaaaaaaaaaaaaaaaaaaaaaaaaaaaaa</title>'')) = Inr r
        \<and> length (metaTitle r) = 201)
   \<and> extractStructuredContent_server
        (Some (js ''<link href='https://fonts.googleapis.com/css?family=%E0%A4%A'>''))
       = Inl URIError"
proof -
  let ?h = "js ''<title>aaaaaaaaaaaaaaaaaaaaaaaaaaaaaaaaaaaaaaaaaaaaaaaaaaaaaaaaaaaaaaaaaaaaaaaaaaaaaaaaaaaaaaaaaaaaaaaaaaaaaaaaaaaaaaaaaaaaaaaaaaaaaaaaaaaaaaaaaaaaaaaaaaaaaaaaaaaaaaaaaaaaaaaaaaaaaaaaaaaaaaaaaaaaaaaaaaaaaaaaa</title>''"
  obtain r where r: "extractStructuredContent_fn (Some ?h) = Inr r"
    using fn_returns_capped by blast
  have "?h \<noteq> []" by (simp add: js_def)
  from fn_title_is_uncapped [OF r this] long_title have "metaTitle r = js ''aaaaaaaaaaaaaaaaaaaaaaaaaaaaaaaaaaaaaaaaaaaaaaaaaaaaaaaaaaaaaaaaaaaaaaaaaaaaaaaaaaaaaaaaaaaaaaaaaaaaaaaaaaaaaaaaaaaaaaaaaaaaaaaaaaaaaaaaaaaaaaaaaaaaaaaaaaaaaaaaaaaaaaaaaaaaaaaaaaaaaaaaaaaaaaaaaaaaaaaaa''"
    by simp
  then have "length (metaTitle r) = 201" by (simp add: js_def)
  with r server_throws_with_fonts [OF malformed_family] show ?thesis by blast
qed

text \<open>
  Claim C5, as stated, fails on the server: the extractor throws on \<^verbatim>\<open>null\<close> and
  returns on the empty string, and there the colors and the fonts are the text
  \<^verbatim>\<open>Could not detect\<close> (\<^verbatim>\<open>colors.join(', ') || 'Could not detect'\<close>), not the empty string.
\<close>

theorem extract_server_empty_string:
  "extractStructuredContent_server None \<noteq> extractStructuredContent_server (Some [])
   \<and> extractStructuredContent_server (Some []) =
       Inr \<lparr>h1 = [], text' = [], metaTitle = [], metaDescription = [], subheadline = [],
            colors = js ''Could not detect'', fonts = js ''Could not detect''\<rparr>"
  by (simp add: re_defs engine_defs extract_defs)

text \<open>
  Claim C5, amended. In the two functions the extractor applied to \<^verbatim>\<open>null\<close> equals the
  extractor applied to the empty string, and both are the record whose every field is the
  empty string. The extractor of the server applied to the empty string returns the empty
  string in the five text fields and \<^verbatim>\<open>Could not detect\<close> for the colors and the fonts.
\<close>

theorem extract_empty_input:
  "extractStructuredContent_fn None = extractStructuredContent_fn (Some [])
   \<and> extractStructuredContent_fn (Some []) =
       Inr \<lparr>h1 = [], text' = [], metaTitle = [], metaDescription = [], subheadline = []\<rparr>
   \<and> extractStructuredContent_suggest None = extractStructuredContent_suggest (Some [])
   \<and> extractStructuredContent_suggest (Some []) = Inr \<lparr>h1 = [], text' = []\<rparr>
   \<and> (\<exists>r. extractStructuredContent_server (Some []) = Inr r
        \<and> h1 r = [] \<and> text' r = [] \<and> metaTitle r = [] \<and> metaDescription r = []
        \<and> subheadline r = [] \<and> colors r = js ''Could not detect''
        \<and> fonts r = js ''Could not detect'')"
  by (simp add: re_defs engine_defs extract_defs)

text \<open>
  Claim C6, as stated, fails: the declared fonts come first and the list is cut to three.
  On a page with three \<^verbatim>\<open>font-family\<close> declarations and a Google Fonts link for
  \<^verbatim>\<open>Inter:400|Roboto:700\<close> the extracted fonts are the three declared ones; neither
  Inter nor Roboto is among them.
\<close>

theorem google_fonts_dropped_after_three_declared:
  "map_sum id fonts (extractStructuredContent_server (Some (js
     ''<p style='font-family:Arial'><p style='font-family:Georgia'><p style='font-family:Verdana'><link href='https://fonts.googleapis.com/css?family=Inter:400|Roboto:700'>'')))
   = Inr (js ''Arial, Georgia, Verdana'')"
proof -
  let ?h = "js ''<p style='font-family:Arial'><p style='font-family:Georgia'><p style='font-family:Verdana'><link href='https://fonts.googleapis.com/css?family=Inter:400|Roboto:700'>''"
  have "all_fonts ?h = Inr [js ''Arial'', js ''Georgia'', js ''Verdana'', js ''Inter'', js ''Roboto'']"
    by (simp add: re_defs engine_defs extract_defs)
  from server_returns_capped [OF this] obtain r where
    "extractStructuredContent_server (Some ?h) = Inr r"
    "fonts r = joined_or_unknown (final_fonts [js ''Arial'', js ''Georgia'', js ''Verdana'', js ''Inter'', js ''Roboto''])"
    by blast
  then show ?thesis by (simp add: joined_or_unknown_def final_fonts_def js_def)
qed

text \<open>
  Claim C6, amended. When the page has a Google Fonts link whose family parameter
  decodes, the server's extractor returns, and its font list is the first three distinct
  entries of the declared fonts (at most three, in first-seen order) followed by the
  families of the parameter, each cut at its first colon (so \<^verbatim>\<open>Inter:400|Roboto:700\<close>
  gives Inter and Roboto). The list has at most three distinct entries, all of them
  declared fonts or Google families, and it contains every Google family when declared
  fonts and Google families are at most three together.
\<close>

theorem google_fonts_merged_then_truncated:
  assumes "exec True re_google_fonts h = Some (m, Some g)" and "decodeURIComponent g = Inr d"
  shows "\<exists>r. extractStructuredContent_server (Some h) = Inr r
     \<and> fonts r = joined_or_unknown (final_fonts (declared_fonts h @ google_families d))
     \<and> length (declared_fonts h) \<le> 3
     \<and> length (final_fonts (declared_fonts h @ google_families d)) \<le> 3
     \<and> distinct (final_fonts (declared_fonts h @ google_families d))
     \<and> set (final_fonts (declared_fonts h @ google_families d))
          \<subseteq> set (declared_fonts h) \<union> set (google_families d)
     \<and> list_all (\<lambda>f. 58 \<notin> set f) (google_families d)
     \<and> google_families (js ''Inter:400|Roboto:700'') = [js ''Inter'', js ''Roboto'']
     \<and> (length (declared_fonts h) + length (google_families d) \<le> 3
          \<longrightarrow> set (google_families d) \<subseteq> set (final_fonts (declared_fonts h @ google_families d)))"
proof -
  let ?fs = "declared_fonts h @ google_families d"
  from assms have "all_fonts h = Inr ?fs" by (simp add: all_fonts_def ebind_def)
  from server_returns_capped [OF this] obtain r where
    r: "extractStructuredContent_server (Some h) = Inr r" "fonts r = joined_or_unknown (final_fonts ?fs)"
    by blast
  have ex: "google_families (js ''Inter:400|Roboto:700'') = [js ''Inter'', js ''Roboto'']"
    by (simp add: google_families_def js_def)
  have small: "set (google_families d) \<subseteq> set (final_fonts ?fs)"
    if "length (declared_fonts h) + length (google_families d) \<le> 3"
    using final_fonts_small [of ?fs] that by simp
  from r ex small final_fonts_props [of ?fs] declared_fonts_length [of h]
    google_families_no_colon [of d]
  show ?thesis by auto
qed

theorem google_fonts_merged_then_truncated_witness:
  "exec True re_google_fonts (js ''<link href='https://fonts.googleapis.com/css?family=Inter:400|Roboto:700'>'')
     = Some (js ''fonts.googleapis.com/css?family=Inter:400|Roboto:700'', Some (js ''Inter:400|Roboto:700''))
   \<and> decodeURIComponent (js ''Inter:400|Roboto:700'') = Inr (js ''Inter:400|Roboto:700'')
   \<and> map_sum id fonts (extractStructuredContent_server (Some (js
        ''<link href='https://fonts.googleapis.com/css?family=Inter:400|Roboto:700'>'')))
      = Inr (js ''Inter, Roboto'')"
proof -
  let ?h = "js ''<link href='https://fonts.googleapis.com/css?family=Inter:400|Roboto:700'>''"
  have a: "exec True re_google_fonts ?h
     = Some (js ''fonts.googleapis.com/css?family=Inter:400|Roboto:700'', Some (js ''Inter:400|Roboto:700''))"
    by (simp add: re_defs engine_defs)
  have b: "decodeURIComponent (js ''Inter:400|Roboto:700'') = Inr (js ''Inter:400|Roboto:700'')"
    by (simp add: js_def ebind_def)
  have c: "declared_fonts ?h = []"
    by (simp add: re_defs engine_defs extract_defs)
  from google_fonts_merged_then_truncated [OF a b] obtain r where
    "extractStructuredContent_server (Some ?h) = Inr r"
    "fonts r = joined_or_unknown (final_fonts (declared_fonts ?h @ google_families (js ''Inter:400|Roboto:700'')))"
    "google_families (js ''Inter:400|Roboto:700'') = [js ''Inter'', js ''Roboto'']"
    by blast
  with a b c show ?thesis by (simp add: joined_or_unknown_def final_fonts_def js_def)
qed

section \<open>Stages and traces\<close>

lemma calls_withinD:
  "calls_within S m \<Longrightarrow> \<exists>new. llm_calls (snd (m t)) = llm_calls t @ new \<and> set new \<subseteq> S"
  by (simp add: calls_within_def)

lemma calls_within_mono: "calls_within S m \<Longrightarrow> S \<subseteq> S' \<Longrightarrow> calls_within S' m"
  unfolding calls_within_def by (meson subset_trans)

lemma calls_within_ret: "calls_within S (ret x)"
  by (simp add: calls_within_def ret_def)

lemma calls_within_throw: "calls_within S (throw e)"
  by (simp add: calls_within_def throw_def)

lemma calls_within_lift: "calls_within S (lift x)"
  by (simp add: calls_within_def lift_def)

lemma calls_within_bnd:
  assumes "calls_within S m" and "\<And>x. calls_within S (f x)"
  shows "calls_within S (bnd m f)"
  unfolding calls_within_def
proof
  fix t
  obtain r t1 where m: "m t = (r, t1)" by (cases "m t")
  from calls_withinD [OF assms(1), of t] m obtain n1 where
    n1: "llm_calls t1 = llm_calls t @ n1" "set n1 \<subseteq> S" by auto
  show "\<exists>new. llm_calls (snd (bnd m f t)) = llm_calls t @ new \<and> set new \<subseteq> S"
  proof (cases r)
    case (Inl e)
    with m n1 show ?thesis by (auto simp: bnd_def)
  next
    case (Inr x)
    from calls_withinD [OF assms(2), of x t1] obtain n2 where
      "llm_calls (snd (f x t1)) = llm_calls t1 @ n2" "set n2 \<subseteq> S" by auto
    with m n1 Inr have "llm_calls (snd (bnd m f t)) = llm_calls t @ (n1 @ n2) \<and> set (n1 @ n2) \<subseteq> S"
      by (simp add: bnd_def)
    then show ?thesis by blast
  qed
qed

lemma calls_within_try:
  assumes "calls_within S m" and "\<And>e. calls_within S (h e)"
  shows "calls_within S (try_catch m h)"
  unfolding calls_within_def
proof
  fix t
  obtain r t1 where m: "m t = (r, t1)" by (cases "m t")
  from calls_withinD [OF assms(1), of t] m obtain n1 where
    n1: "llm_calls t1 = llm_calls t @ n1" "set n1 \<subseteq> S" by auto
  show "\<exists>new. llm_calls (snd (try_catch m h t)) = llm_calls t @ new \<and> set new \<subseteq> S"
  proof (cases r)
    case (Inr x)
    with m n1 show ?thesis by (auto simp: try_catch_def)
  next
    case (Inl e)
    from calls_withinD [OF assms(2), of e t1] obtain n2 where
      "llm_calls (snd (h e t1)) = llm_calls t1 @ n2" "set n2 \<subseteq> S" by auto
    with m n1 Inl have "llm_calls (snd (try_catch m h t)) = llm_calls t @ (n1 @ n2) \<and> set (n1 @ n2) \<subseteq> S"
      by (simp add: try_catch_def)
    then show ?thesis by blast
  qed
qed

lemma calls_within_amap:
  assumes "\<And>x. calls_within S (f x)"
  shows "calls_within S (amap f xs)"
  by (induction xs) (auto intro!: calls_within_ret calls_within_bnd assms)

lemma calls_within_http_get: "calls_within S (http_get n u)"
  by (simp add: calls_within_def http_get_def)

lemma calls_within_create: "st \<in> S \<Longrightarrow> calls_within S (messages_create m st)"
  by (simp add: calls_within_def messages_create_def)

lemma calls_within_fetch_server: "calls_within S (fetchWebsite_server n u)"
  unfolding fetchWebsite_server_def Let_def
  by (intro calls_within_try calls_within_bnd calls_within_http_get calls_within_ret)
     (auto intro!: calls_within_try calls_within_bnd calls_within_http_get calls_within_ret)

lemma calls_within_fetch_fn: "calls_within S (fetchWebsite_fn n u)"
  unfolding fetchWebsite_fn_def Let_def
  by (intro calls_within_try calls_within_bnd calls_within_http_get calls_within_ret)

lemma calls_within_collect_server: "calls_within {} (collect_server w cu cn cs)"
  unfolding collect_server_def fetch_competitor_def
  by (intro calls_within_bnd calls_within_amap calls_within_fetch_server calls_within_lift
      calls_within_ret)

lemma calls_within_messaging_server:
  "calls_within {Messaging} (extractMessaging_server m n c)"
  unfolding extractMessaging_server_def
  by (intro calls_within_bnd calls_within_create calls_within_lift) simp

lemma calls_within_visuals: "calls_within {Visuals} (extractVisuals m n s)"
  unfolding extractVisuals_def
  by (auto intro!: calls_within_bnd calls_within_create calls_within_lift calls_within_ret)

lemma calls_within_impressions_server:
  "calls_within {FirstImpressions} (analyzeFirstImpressions_server m n a b c d)"
  unfolding analyzeFirstImpressions_server_def
  by (intro calls_within_bnd calls_within_create calls_within_lift) simp

lemma calls_within_takeaways_server:
  "calls_within {Takeaways} (generateTakeaways_server m n a b c)"
  unfolding generateTakeaways_server_def
  by (intro calls_within_bnd calls_within_create calls_within_lift) simp

lemma calls_within_focal_server:
  "calls_within {Messaging, Visuals, FirstImpressions} (focal_server w cn s a b)"
  unfolding focal_server_def
  by (intro calls_within_bnd calls_within_ret
        calls_within_mono [OF calls_within_messaging_server]
        calls_within_mono [OF calls_within_visuals]
        calls_within_mono [OF calls_within_impressions_server]) simp_all

lemma calls_within_competitor_server:
  "calls_within {Messaging, Visuals, FirstImpressions} (analyze_competitor_server w cp)"
  unfolding analyze_competitor_server_def
  by (intro calls_within_bnd calls_within_ret
        calls_within_mono [OF calls_within_messaging_server]
        calls_within_mono [OF calls_within_visuals]
        calls_within_mono [OF calls_within_impressions_server]) simp_all

lemma first_json_server_returns: "\<exists>r. first_json_server bs = Inr r"
  by (induction bs rule: first_json_server.induct) (auto split: sum.splits option.splits)

lemma first_json_fn_no_span: "first_span bs = None \<Longrightarrow> first_json_fn bs = Inr None"
  by (induction bs rule: first_span.induct)
     (auto simp: span_parse_def ebind_def split: option.splits)

section \<open>The stages on a reply\<close>

lemmas json_defs = JSON_parse_def skip_ws_def json_ws_def parse_scalar_def parse_number_def
  parse_int_part_def parse_frac_def parse_exp_def digits1_def is_digit_def hex4_def hexval_def
  escape_char_def with_first_def js_def

lemma messages_create_run:
  "messages_create m st t =
     (case m (length (llm_calls t)) of None \<Rightarrow> Inl ApiError | Some bs \<Rightarrow> Inr bs,
      t\<lparr>llm_calls := llm_calls t @ [st]\<rparr>)"
  by (simp add: messages_create_def)



lemma extractVisuals_returns:
  "m (length (llm_calls t)) = Some bs \<Longrightarrow> \<exists>v. fst (extractVisuals m n s t) = Inr v"
  using first_json_server_returns [of bs]
  by (auto simp: extractVisuals_def bnd_def lift_def ret_def messages_create_def ebind_def)

lemma generateTakeaways_server_run:
  "takeaways_prompt_server a b c = Inr () \<Longrightarrow> m (length (llm_calls t)) = Some bs \<Longrightarrow>
   generateTakeaways_server m n a b c t
     = (first_json_server bs, t\<lparr>llm_calls := llm_calls t @ [Takeaways]\<rparr>)"
  by (simp add: generateTakeaways_server_def bnd_def lift_def messages_create_def)



lemma generateTakeaways_fn_run:
  "takeaways_prompt_fn a b c = Inr () \<Longrightarrow> m (length (llm_calls t)) = Some bs \<Longrightarrow>
   generateTakeaways_fn m n a b c t
     = (first_json_fn bs, t\<lparr>llm_calls := llm_calls t @ [Takeaways]\<rparr>)"
  by (simp add: generateTakeaways_fn_def bnd_def lift_def messages_create_def)



lemma span_empty_obj: "json_span (js ''{}'') = Some (js ''{}'')"
  by (simp add: json_span_def re_defs engine_defs)



section \<open>The span of the regular expression is the span in words\<close>

lemma upto_last_prefix: "take (length (upto_last d s)) s = upto_last d s"
  by (induction s) auto

lemma star_any_then_brace:
  "run False [R (Star True AnyC), R (Lit [125])] (i, pv, s, c) =
     (if 125 \<in> set s
      then Some (i + length (upto_last 125 s), Some 125, drop (length (upto_last 125 s)) s, c)
      else None)"
proof (induction s arbitrary: i pv)
  case Nil
  show ?case by simp
next
  case (Cons x xs)
  show ?case
  proof (cases "125 \<in> set xs")
    case True
    with Cons [of "Suc i" "Some x"] show ?thesis by simp
  next
    case False
    with Cons [of "Suc i" "Some x"] show ?thesis by (simp add: canon_def)
  qed
qed

lemma match_at_re_json:
  "match_at False re_json i pv s =
     (case s of
        [] \<Rightarrow> None
      | b # rest \<Rightarrow>
          if b = 123 \<and> 125 \<in> set rest then Some (b # upto_last 125 rest, None) else None)"
proof (cases s)
  case Nil
  then show ?thesis by (simp add: match_at_def re_json_def lit_def js_def)
next
  case (Cons b rest)
  have len: "length (upto_last 125 rest) \<le> length rest"
    by (induction rest) auto
  have "run False [R re_json] (i, pv, b # rest, None) =
      (if b = 123 then run False [R (Star True AnyC), R (Lit [125])] (Suc i, Some b, rest, None)
       else None)"
    by (simp add: re_json_def lit_def js_def canon_def del: run.simps(15))
  with Cons len show ?thesis
    by (simp add: match_at_def star_any_then_brace upto_last_prefix del: run.simps)
qed

lemma exec_from_re_json_none:
  "125 \<notin> set s \<Longrightarrow> exec_from False re_json i pv s = None"
  by (induction s arbitrary: i pv) (auto simp: match_at_re_json)

lemma exec_from_re_json:
  "map_option fst (exec_from False re_json i pv s) = brace_span s"
proof (induction s arbitrary: i pv)
  case Nil
  show ?case by (simp add: match_at_re_json brace_span_def)
next
  case (Cons x xs)
  show ?case
  proof (cases "x = 123")
    case False
    with Cons [of "Suc i" "Some x"] show ?thesis
      by (simp add: match_at_re_json brace_span_def)
  next
    case True
    show ?thesis
    proof (cases "125 \<in> set xs")
      case yes: True
      with True show ?thesis by (simp add: match_at_re_json brace_span_def)
    next
      case no: False
      from exec_from_re_json_none [OF no] True no show ?thesis
        by (simp add: match_at_re_json brace_span_def)
    qed
  qed
qed

lemma json_span_is_brace_span: "json_span t = brace_span t"
  by (simp add: json_span_def exec_def exec_from_re_json)

lemma first_span_is_first_brace_span: "first_span bs = first_brace_span bs"
  by (induction bs rule: first_span.induct)
     (auto simp: json_span_is_brace_span split: option.splits)

lemma suggest_fn_run:
  assumes "httpMethod ev = js ''POST''" and "payload ev = Some req"
    and "companyUrl req = Some cu" and "cu \<noteq> []"
    and "companyName req = Some cn" and "cn \<noteq> []"
    and "llm w (length (llm_calls t)) = Some bs"
  shows "fst (suggest_fn w ev t) = suggest_reply bs"
proof -
  obtain s where s: "extractStructuredContent_suggest
      (case net w (normalizeUrl cu) of None \<Rightarrow> net w (www_url (normalizeUrl cu)) | Some h \<Rightarrow> Some h) = Inr s"
    using suggest_returns_capped by blast
  from assms s show ?thesis
    by (simp add: suggest_fn_def bnd_def ret_def lift_def fetchWebsite_fn_run messages_create_def)
qed

text \<open>
  Claim C10. In the suggest-competitors handler, once the request is accepted and the
  model has replied, the response has status 200 and its body is, verbatim, the brace
  span of the first text block that has one (from the first \<^verbatim>\<open>{\<close> to the last
  \<^verbatim>\<open>}\<close>), and the JSON text of \<^verbatim>\<open>{competitors: []}\<close> when no text block has one. The
  span is not parsed: \<^verbatim>\<open>{x}\<close> is such a span and is no JSON.
\<close>

theorem suggest_fn_returns_span_verbatim:
  assumes "httpMethod ev = js ''POST''" and "payload ev = Some req"
    and "companyUrl req = Some cu" and "cu \<noteq> []"
    and "companyName req = Some cn" and "cn \<noteq> []"
    and "llm w (length (llm_calls t)) = Some bs"
  shows "fst (suggest_fn w ev t) =
       (case first_brace_span bs of
          Some m \<Rightarrow> \<lparr>statusCode = 200, headers = json_headers, body = Text m\<rparr>
        | None \<Rightarrow> \<lparr>statusCode = 200, headers = [],
                   body = Json (JObj [(js ''competitors'', JArr [])])\<rparr>)
     \<and> first_brace_span [TextBlock (js ''{x}'')] = Some (js ''{x}'')
     \<and> JSON_parse (js ''{x}'') = None"
proof -
  have "first_brace_span [TextBlock (js ''{x}'')] = Some (js ''{x}'')"
    by (simp add: brace_span_def js_def)
  moreover have "JSON_parse (js ''{x}'') = None"
    by (simp add: json_defs)
  ultimately show ?thesis
    using suggest_fn_run [OF assms]
    by (simp add: suggest_reply_def first_span_is_first_brace_span)
qed

theorem suggest_fn_returns_span_verbatim_witness:
  "fst (suggest_fn \<lparr>net = \<lambda>u. None, shoot = \<lambda>u. None, shoot_google = \<lambda>q. None,
                   llm = \<lambda>n. Some [OtherBlock, TextBlock (js ''Sure: {x} ok''), TextBlock (js ''{}'')]\<rparr>
         \<lparr>httpMethod = js ''POST'',
          payload = Some \<lparr>companyUrl = Some (js ''acme.com''), companyName = Some (js ''Acme'')\<rparr>\<rparr>
         \<lparr>requests = [], llm_calls = []\<rparr>)
   = \<lparr>statusCode = 200, headers = json_headers, body = Text (js ''{x}'')\<rparr>
   \<and> fst (suggest_fn \<lparr>net = \<lambda>u. None, shoot = \<lambda>u. None, shoot_google = \<lambda>q. None,
                   llm = \<lambda>n. Some [TextBlock (js ''I cannot help'')]\<rparr>
         \<lparr>httpMethod = js ''POST'',
          payload = Some \<lparr>companyUrl = Some (js ''acme.com''), companyName = Some (js ''Acme'')\<rparr>\<rparr>
         \<lparr>requests = [], llm_calls = []\<rparr>)
   = \<lparr>statusCode = 200, headers = [], body = Json (JObj [(js ''competitors'', JArr [])])\<rparr>"
proof -
  let ?ev = "\<lparr>httpMethod = js ''POST'',
          payload = Some \<lparr>companyUrl = Some (js ''acme.com''), companyName = Some (js ''Acme'')\<rparr>\<rparr>"
  let ?t = "\<lparr>requests = [], llm_calls = []\<rparr>"
  have ne: "js ''acme.com'' \<noteq> []" "js ''Acme'' \<noteq> []" by (simp_all add: js_def)
  have a: "first_brace_span [OtherBlock, TextBlock (js ''Sure: {x} ok''), TextBlock (js ''{}'')]
      = Some (js ''{x}'')"
    by (simp add: brace_span_def js_def)
  have b: "first_brace_span [TextBlock (js ''I cannot help'')] = None"
    by (simp add: brace_span_def js_def)
  let ?req = "\<lparr>companyUrl = Some (js ''acme.com''), companyName = Some (js ''Acme'')\<rparr>"
  let ?w1 = "\<lparr>net = \<lambda>u. None, shoot = \<lambda>u. None, shoot_google = \<lambda>q. None,
        llm = \<lambda>n. Some [OtherBlock, TextBlock (js ''Sure: {x} ok''), TextBlock (js ''{}'')]\<rparr>"
  let ?w2 = "\<lparr>net = \<lambda>u. None, shoot = \<lambda>u. None, shoot_google = \<lambda>q. None,
        llm = \<lambda>n. Some [TextBlock (js ''I cannot help'')]\<rparr>"
  have 1: "httpMethod ?ev = js ''POST''" and 2: "payload ?ev = Some ?req"
    and 3: "companyUrl ?req = Some (js ''acme.com'')" and 4: "companyName ?req = Some (js ''Acme'')"
    and 5: "llm ?w1 (length (llm_calls ?t))
        = Some [OtherBlock, TextBlock (js ''Sure: {x} ok''), TextBlock (js ''{}'')]"
    and 6: "llm ?w2 (length (llm_calls ?t)) = Some [TextBlock (js ''I cannot help'')]"
    by simp_all
  from suggest_fn_returns_span_verbatim [OF 1 2 3 ne(1) 4 ne(2) 5]
    suggest_fn_returns_span_verbatim [OF 1 2 3 ne(1) 4 ne(2) 6] a b
  show ?thesis by simp
qed

section \<open>The server after the scrape, for all replies\<close>

lemma chartData_server_shape:
  "chartData_server cn ci others = Inr ch \<Longrightarrow>
   columns ch = js ''Category'' # cn # map fst others
   \<and> map category (rows ch) = [js ''Positioning'', js ''Voice'', js ''Visual Style'']"
  by (auto simp: chartData_server_def ebind_def split: sum.splits)

lemma conclude_server_outcome:
  assumes "conclude_server w cu cn cs st sh gs cd ci fi results bs t = (r, t')"
  shows "\<exists>post. llm_calls t' = llm_calls t @ post
           \<and> compared cn (map name results) (Some bs) r post"
proof -
  have cw: "calls_within {Takeaways} (conclude_server w cu cn cs st sh gs cd ci fi results bs)"
    unfolding conclude_server_def
    by (auto split: option.splits
        intro!: calls_within_ret calls_within_bnd calls_within_lift calls_within_takeaways_server)
  from calls_withinD [OF cw, of t] assms obtain post where
    post: "llm_calls t' = llm_calls t @ post" "set post \<subseteq> {Takeaways}" by auto
  show ?thesis
  proof (cases "last_json_server None bs")
    case None
    with assms post show ?thesis
      by (auto simp: conclude_server_def compared_def ret_def)
  next
    case (Some v)
    show ?thesis
    proof (cases "truthy v")
      case False
      with Some assms post show ?thesis
        by (auto simp: conclude_server_def compared_def ret_def)
    next
      case True
      show ?thesis
      proof (cases r)
        case (Inl e)
        with Some True post show ?thesis by (auto simp: compared_def)
      next
        case (Inr resp)
        with assms Some True obtain ch tk where
          ch: "chartData_server cn ci (map (\<lambda>c. (name c, inferred c)) results) = Inr ch"
          and resp: "resp = \<lparr>statusCode = 200, headers = json_headers,
               body = Report (report_of_server w cu cn cs st sh gs cd fi results v ch tk)\<rparr>"
          by (auto simp: conclude_server_def bnd_def lift_def ret_def
              split: sum.splits prod.splits)
        from chartData_server_shape [OF ch] have
          "columns ch = js ''Category'' # cn # map name results"
          "map category (rows ch) = [js ''Positioning'', js ''Voice'', js ''Visual Style'']"
          by (simp_all add: comp_def)
        with Inr resp Some True post show ?thesis
          by (auto simp: compared_def report_of_server_def)
      qed
    qed
  qed
qed

lemma compare_server_outcome:
  assumes "compare_server w cu cn cs st sh gs cd ci fi results t = (r, t')"
  shows "((\<exists>e. r = Inl e) \<and> llm_calls t' = llm_calls t)
      \<or> (\<exists>post. llm_calls t' = llm_calls t @ Comparator # post
            \<and> compared cn (map name results) (llm w (length (llm_calls t))) r post)"
proof (cases "brandSummaries_server ci (map inferred results)")
  case (Inl e)
  with assms show ?thesis by (auto simp: compare_server_def bnd_def lift_def)
next
  case (Inr u)
  let ?t1 = "t\<lparr>llm_calls := llm_calls t @ [Comparator]\<rparr>"
  show ?thesis
  proof (cases "llm w (length (llm_calls t))")
    case None
    with Inr assms show ?thesis
      by (auto simp: compare_server_def bnd_def lift_def messages_create_def compared_def)
  next
    case (Some bs)
    with Inr assms have "conclude_server w cu cn cs st sh gs cd ci fi results bs ?t1 = (r, t')"
      by (simp add: compare_server_def bnd_def lift_def messages_create_def)
    from conclude_server_outcome [OF this] Some show ?thesis by auto
  qed
qed

lemma amap_related:
  assumes "\<And>x y t t'. f x t = (Inr y, t') \<Longrightarrow> g y = h x"
    and "amap f xs t = (Inr ys, t')"
  shows "map g ys = map h xs"
  using assms(2)
proof (induction xs arbitrary: ys t t')
  case Nil
  then show ?case by (simp add: ret_def)
next
  case (Cons x xs)
  from Cons.prems obtain y t1 ys' where y: "f x t = (Inr y, t1)"
    and rest: "amap f xs t1 = (Inr ys', t')" and ys: "ys = y # ys'"
    by (auto simp: bnd_def ret_def split: sum.splits prod.splits)
  from assms(1) [OF y] Cons.IH [OF rest] ys show ?case by simp
qed

lemma emap_related:
  assumes "\<And>x y. f x = Inr y \<Longrightarrow> g y = h x" and "emap f xs = Inr ys"
  shows "map g ys = map h xs"
  using assms(2)
proof (induction xs arbitrary: ys)
  case Nil
  then show ?case by simp
next
  case (Cons x xs)
  from Cons.prems obtain y ys' where y: "f x = Inr y" and rest: "emap f xs = Inr ys'"
    and ys: "ys = y # ys'"
    by (auto simp: ebind_def split: sum.splits)
  from assms(1) [OF y] Cons.IH [OF rest] ys show ?case by simp
qed

lemma fetch_competitor_name: "fetch_competitor w cp t = (Inr y, t') \<Longrightarrow> name y = name cp"
  by (auto simp: fetch_competitor_def bnd_def ret_def split: sum.splits prod.splits)

lemma structure_competitor_name: "structure_competitor cp = Inr y \<Longrightarrow> name y = name cp"
  by (auto simp: structure_competitor_def ebind_def split: sum.splits)

lemma analyze_competitor_server_name:
  "analyze_competitor_server w cp t = (Inr y, t') \<Longrightarrow> name y = name cp"
  by (auto simp: analyze_competitor_server_def bnd_def ret_def split: sum.splits prod.splits)

lemma collect_server_names:
  assumes "collect_server w cu cn cs t = (Inr (st, sh, gs, cd), t')"
  shows "map name cd = map name cs"
proof -
  from assms obtain fs t1 where fs: "amap (fetch_competitor w) cs t1 = (Inr fs, t')"
    and cd: "emap structure_competitor fs = Inr cd"
    by (auto simp: collect_server_def bnd_def ret_def lift_def split: sum.splits prod.splits)
  have "map name fs = map name cs"
    by (rule amap_related [OF _ fs]) (rule fetch_competitor_name)
  moreover have "map name cd = map name fs"
    by (rule emap_related [OF _ cd]) (rule structure_competitor_name)
  ultimately show ?thesis by simp
qed

lemma focal_server_messaging:
  assumes "focal_server w cn st sh gs t = (Inr (msg, vis, fi), t')"
  shows "\<exists>bs. llm w (length (llm_calls t)) = Some bs \<and> first_json_server bs = Inr msg"
  using assms
  by (auto simp: focal_server_def extractMessaging_server_def bnd_def ret_def lift_def
      messages_create_def split: sum.splits prod.splits option.splits)

lemma run_audit_server_outcome:
  assumes "run_audit_server w cu cn cs t = (r, t')"
  shows "\<exists>new. llm_calls t' = llm_calls t @ new \<and>
     ((set new \<subseteq> {Messaging, Visuals, FirstImpressions}
        \<and> (r = Inr (error_response 500 ''Could not analyze your website'') \<or> (\<exists>e. r = Inl e)))
      \<or> (\<exists>pre post bs v. new = pre @ Comparator # post
            \<and> set pre \<subseteq> {Messaging, Visuals, FirstImpressions}
            \<and> llm w (length (llm_calls t)) = Some bs
            \<and> first_json_server bs = Inr (Some v) \<and> truthy v
            \<and> compared cn (map name cs) (llm w (length (llm_calls t) + length pre)) r post))"
proof -
  obtain r1 t1 where c: "collect_server w cu cn cs t = (r1, t1)" by (cases "collect_server w cu cn cs t")
  from calls_withinD [OF calls_within_collect_server, of w cu cn cs t] c
  have t1: "llm_calls t1 = llm_calls t" by simp
  show ?thesis
  proof (cases r1)
    case (Inl e)
    with c assms t1 have "r = Inl e \<and> llm_calls t' = llm_calls t @ []"
      by (auto simp: run_audit_server_def bnd_def)
    then show ?thesis by (intro exI [of _ "[]"]) simp
  next
    case (Inr ctx)
    obtain st sh gs cd where ctx: "ctx = (st, sh, gs, cd)" by (cases ctx)
    from collect_server_names c Inr ctx have names: "map name cd = map name cs" by blast
    obtain r2 t2 where f: "focal_server w cn st sh gs t1 = (r2, t2)"
      by (cases "focal_server w cn st sh gs t1")
    from calls_withinD [OF calls_within_focal_server, of w cn st sh gs t1] f t1
    obtain n2 where n2: "llm_calls t2 = llm_calls t @ n2"
      "set n2 \<subseteq> {Messaging, Visuals, FirstImpressions}" by auto
    show ?thesis
    proof (cases r2)
      case (Inl e)
      with c Inr ctx f assms have "r = Inl e \<and> t' = t2"
        by (auto simp: run_audit_server_def bnd_def)
      with n2 show ?thesis by (intro exI [of _ n2]) simp
    next
      case inr2: (Inr res)
      obtain msg vis fi where res: "res = (msg, vis, fi)" by (cases res)
      from f inr2 res have "focal_server w cn st sh gs t1 = (Inr (msg, vis, fi), t2)" by simp
      from focal_server_messaging [OF this] t1 obtain bs where
        bs: "llm w (length (llm_calls t)) = Some bs" "first_json_server bs = Inr msg"
        by auto
      show ?thesis
      proof (cases "truthy_opt msg")
        case False
        with c Inr ctx f inr2 res assms
        have "r = Inr (error_response 500 ''Could not analyze your website'') \<and> t' = t2"
          by (auto simp: run_audit_server_def bnd_def ret_def)
        with n2 show ?thesis by (intro exI [of _ n2]) simp
      next
        case True
        then obtain v where v: "msg = Some v" "truthy v"
          by (auto simp: truthy_opt_def split: option.splits)
        obtain r3 t3 where a: "amap (analyze_competitor_server w) cd t2 = (r3, t3)"
          by (cases "amap (analyze_competitor_server w) cd t2")
        have "calls_within {Messaging, Visuals, FirstImpressions} (amap (analyze_competitor_server w) cd)"
          by (rule calls_within_amap) (rule calls_within_competitor_server)
        from calls_withinD [OF this, of t2] a n2
        obtain n3 where n3: "llm_calls t3 = llm_calls t @ (n2 @ n3)"
          "set (n2 @ n3) \<subseteq> {Messaging, Visuals, FirstImpressions}" by auto
        show ?thesis
        proof (cases r3)
          case (Inl e)
          with c Inr ctx f inr2 res True a assms have "r = Inl e \<and> t' = t3"
            by (auto simp: run_audit_server_def bnd_def)
          with n3 show ?thesis by (intro exI [of _ "n2 @ n3"]) simp
        next
          case inr3: (Inr results)
          have rn: "map name results = map name cd"
            using a inr3 by (auto intro: amap_related [OF analyze_competitor_server_name])
          from c Inr ctx f inr2 res True a inr3 assms
          have cmp: "compare_server w cu cn cs st sh gs cd
                (JObj (own_props msg @ own_props (Some vis))) fi results t3 = (r, t')"
            by (auto simp: run_audit_server_def bnd_def)
          from compare_server_outcome [OF cmp] show ?thesis
          proof
            assume "(\<exists>e. r = Inl e) \<and> llm_calls t' = llm_calls t3"
            with n3 show ?thesis by (intro exI [of _ "n2 @ n3"]) simp
          next
            assume "\<exists>post. llm_calls t' = llm_calls t3 @ Comparator # post
              \<and> compared cn (map name results) (llm w (length (llm_calls t3))) r post"
            then obtain post where post: "llm_calls t' = llm_calls t3 @ Comparator # post"
              "compared cn (map name results) (llm w (length (llm_calls t3))) r post" by blast
            from post n3 rn names bs v
            have "llm_calls t' = llm_calls t @ ((n2 @ n3) @ Comparator # post)
              \<and> set (n2 @ n3) \<subseteq> {Messaging, Visuals, FirstImpressions}
              \<and> llm w (length (llm_calls t)) = Some bs
              \<and> first_json_server bs = Inr (Some v) \<and> truthy v
              \<and> compared cn (map name cs) (llm w (length (llm_calls t) + length (n2 @ n3))) r post"
              by simp
            then show ?thesis
              by (intro exI [of _ "(n2 @ n3) @ Comparator # post"] conjI disjI2
                  exI [of _ "n2 @ n3"] exI [of _ post] exI [of _ bs] exI [of _ v]) simp_all
          qed
        qed
      qed
    qed
  qed
qed

section \<open>A reply without a JSON object gives \<^verbatim>\<open>null\<close>\<close>

lemma span_parse_cases:
  "span_parse x =
     (case brace_span x of None \<Rightarrow> Inr None
      | Some m \<Rightarrow> (case JSON_parse m of None \<Rightarrow> Inl SyntaxError | Some v \<Rightarrow> Inr (Some v)))"
  by (simp add: span_parse_def json_span_is_brace_span JSON_parse_js_def ebind_def
      split: option.splits)

lemma first_json_server_null: "first_json_server bs = Inr None \<longleftrightarrow> no_json_object bs"
  by (induction bs rule: no_json_object.induct)
     (auto simp: span_parse_cases split: option.splits)

lemma last_json_server_some: "\<exists>v'. last_json_server (Some v) bs = Some v'"
  by (induction bs arbitrary: v rule: no_json_object.induct)
     (auto simp: span_parse_cases split: option.splits)

lemma last_json_server_null: "last_json_server None bs = None \<longleftrightarrow> no_json_object bs"
proof (induction bs rule: no_json_object.induct)
  case 1
  show ?case by simp
next
  case (2 x bs)
  show ?case
  proof (cases "span_parse x")
    case (Inl e)
    with 2 show ?thesis by (auto simp: span_parse_cases split: option.splits)
  next
    case (Inr r)
    show ?thesis
    proof (cases r)
      case None
      with Inr 2 show ?thesis by (auto simp: span_parse_cases split: option.splits)
    next
      case (Some v)
      with Inr last_json_server_some [of v bs] show ?thesis
        by (auto simp: span_parse_cases split: option.splits)
    qed
  qed
next
  case (3 bs)
  then show ?case by simp
qed

lemma audit_server_valid:
  assumes "companyUrl req = Some cu" and "cu \<noteq> []" and "companyName req = Some cn"
    and "cn \<noteq> []" and "competitors req = Some cs" and "cs \<noteq> []"
  shows "audit_server w req t =
     (case run_audit_server w cu cn cs t of
        (Inl e, t') \<Rightarrow> (\<lparr>statusCode = 500, headers = json_headers, body = Thrown e\<rparr>, t')
      | (Inr r, t') \<Rightarrow> (r, t'))"
  using assms by (simp add: audit_server_def)

lemma append_first_occurrence:
  assumes "pre @ x # post = pre' @ x # post'" and "x \<notin> set pre" and "x \<notin> set pre'"
  shows "pre = pre' \<and> post = post'"
  using assms
proof (induction pre arbitrary: pre')
  case Nil
  then show ?case by (cases pre') auto
next
  case (Cons a pre)
  then show ?case by (cases pre') auto
qed

lemma server_extract_empty:
  "extractStructuredContent_server (Some []) =
       Inr \<lparr>h1 = [], text' = [], metaTitle = [], metaDescription = [], subheadline = [],
            colors = js ''Could not detect'', fonts = js ''Could not detect''\<rparr>"
  by (simp add: re_defs engine_defs extract_defs)

section \<open>The chart of the audit function\<close>

lemma bnd_returnsE:
  assumes "bnd m f t = (Inr r, t')"
  obtains x t1 where "m t = (Inr x, t1)" and "f x t1 = (Inr r, t')"
  using assms by (auto simp: bnd_def split: sum.splits prod.splits)

lemma chartData_fn_shape:
  "chartData_fn cn cm others = Inr ch \<Longrightarrow>
   columns ch = js ''Category'' # cn # map fst others
   \<and> map category (rows ch) = [js ''Positioning'', js ''Voice'']"
  by (auto simp: chartData_fn_def ebind_def split: sum.splits)

lemma conclude_fn_chart:
  assumes "conclude_fn w cn st cm fi results bs t = (Inr r, t')"
  shows "\<exists>rep. r = \<lparr>statusCode = 200, headers = json_headers, body = Report rep\<rparr>
           \<and> columns (chart rep) = js ''Category'' # cn # map name results
           \<and> map category (rows (chart rep)) = [js ''Positioning'', js ''Voice'']"
  using assms unfolding conclude_fn_def
  apply (elim bnd_returnsE)
  apply (auto simp: lift_def ret_def comp_def dest!: chartData_fn_shape)
  done

lemma collect_fn_names:
  assumes "amap (collect_competitor_fn w) cs t = (Inr cd, t')"
  shows "map name cd = map name cs"
proof (rule amap_related [OF _ assms])
  fix x y t t'
  assume "collect_competitor_fn w x t = (Inr y, t')"
  then show "name y = name x"
    unfolding collect_competitor_fn_def by (elim bnd_returnsE) (auto simp: ret_def)
qed

lemma analyze_fn_names:
  assumes "amap (analyze_competitor_fn w) cd t = (Inr results, t')"
  shows "map name results = map name cd"
proof (rule amap_related [OF _ assms])
  fix x y t t'
  assume "analyze_competitor_fn w x t = (Inr y, t')"
  then show "name y = name x"
    unfolding analyze_competitor_fn_def by (elim bnd_returnsE) (auto simp: ret_def)
qed

lemma run_audit_fn_chart:
  assumes "run_audit_fn w cu cn cs t = (Inr r, t')"
  shows "\<exists>rep. r = \<lparr>statusCode = 200, headers = json_headers, body = Report rep\<rparr>
           \<and> columns (chart rep) = js ''Category'' # cn # map name cs
           \<and> map category (rows (chart rep)) = [js ''Positioning'', js ''Voice'']"
  using assms unfolding run_audit_fn_def
  apply (elim bnd_returnsE)
  apply (drule collect_fn_names)
  apply (drule analyze_fn_names)
  apply (drule conclude_fn_chart)
  apply simp
  done

lemma audit_fn_valid:
  assumes "companyUrl req = Some cu" and "cu \<noteq> []" and "companyName req = Some cn"
    and "cn \<noteq> []" and "competitors req = Some cs" and "cs \<noteq> []"
  shows "audit_fn w \<lparr>httpMethod = js ''POST'', payload = Some req\<rparr> t =
     (case run_audit_fn w cu cn cs t of
        (Inl e, t') \<Rightarrow> (\<lparr>statusCode = 500, headers = [], body = Thrown e\<rparr>, t')
      | (Inr r, t') \<Rightarrow> (r, t'))"
  using assms by (simp add: audit_fn_def)

section \<open>Audits on concrete worlds\<close>

text \<open>
  Audits of the brand \<^verbatim>\<open>Acme\<close> against one competitor \<^verbatim>\<open>Rival\<close>, with no page
  fetched. In the silent world the model never answers with a JSON object; in the
  uncompared world it answers \<^verbatim>\<open>{}\<close> to the four calls before the Comparator and no
  JSON object from then on; in the agreeable world it always answers \<^verbatim>\<open>{}\<close> and the
  screenshots succeed.
\<close>

lemmas act_defs = bnd_def ret_def lift_def throw_def messages_create_def

lemmas value_defs = truthy_opt_def get_prop_def prop_opt_def own_props_def or_object_def
  tpl_def opt_join_def or_str_def all_ok_def or_value_def or_blank_def ebind_def
  formatVoiceForComparison_def formatVoiceFull_def formatVoice_def visual_style_cell_def
  overlap_patterns_def em_dash_def dot_sep_def re_edge_dots_def

lemmas fn_defs = audit_fn_def run_audit_fn_def conclude_fn_def collect_competitor_fn_def
  analyze_competitor_fn_def extractMessaging_fn_def analyzeFirstImpressions_fn_def
  generateTakeaways_fn_def takeaways_prompt_fn_def summary_line_fn_def brandSummaries_fn_def
  chartData_fn_def without_meta_def with_meta_def last_wins_def

lemmas reply_defs = span_parse_def json_span_is_brace_span brace_span_def JSON_parse_js_def

lemma fn_extract_null:
  "extractStructuredContent_fn None
     = Inr \<lparr>h1 = [], text' = [], metaTitle = [], metaDescription = [], subheadline = []\<rparr>"
  by (simp add: extractStructuredContent_fn_def)

lemma silent_audit_fn:
  "audit_fn \<lparr>net = \<lambda>u. None, shoot = \<lambda>u. None, shoot_google = \<lambda>q. None,
              llm = \<lambda>n. Some [TextBlock (js ''Sorry, no answer'')]\<rparr>
     \<lparr>httpMethod = js ''POST'',
      payload = Some \<lparr>companyUrl = Some (js ''acme.com''), companyName = Some (js ''Acme''),
                      competitors = Some [\<lparr>name = js ''Rival'', url = js ''rival.com''\<rparr>]\<rparr>\<rparr>
     \<lparr>requests = [], llm_calls = []\<rparr>
   = (\<lparr>statusCode = 200, headers = json_headers,
       body = Report
         \<lparr>score = Some (JNum (js ''50'')), verdict = Some (JStr []), overlaps = Some (JArr []),
          standouts = Some (JArr []), takeaways = JObj [],
          chart = \<lparr>columns = [js ''Category'', js ''Acme'', js ''Rival''],
                    rows = [\<lparr>category = js ''Positioning'',
                             values' = [Some (JStr [8212]), Some (JStr [8212])]\<rparr>,
                            \<lparr>category = js ''Voice'',
                             values' = [Some (JStr [8212]), Some (JStr [8212])]\<rparr>]\<rparr>,
          firstImpressions =
            [js ''Acme'' \<mapsto> JObj [(js ''metaTitle'', JStr []), (js ''metaDescription'', JStr [])]]
            ++ map_of [(js ''Rival'', JObj [])]\<rparr>\<rparr>,
      \<lparr>requests = [js ''https://acme.com'', js ''https://www.acme.com'',
                    js ''https://rival.com'', js ''https://www.rival.com''],
       llm_calls = [Messaging, FirstImpressions, Messaging, FirstImpressions, Comparator,
                    Takeaways]\<rparr>)"
  by (simp add: fn_defs act_defs value_defs reply_defs fetchWebsite_fn_run fn_extract_null
      normalizeUrl_def www_url_def replace_str_def trim_def is_space_def js_def)

lemmas server_defs = audit_server_def run_audit_server_def collect_server_def focal_server_def
  compare_server_def conclude_server_def analyze_competitor_server_def fetch_competitor_def
  structure_competitor_def extractMessaging_server_def extractVisuals_def
  analyzeFirstImpressions_server_def generateTakeaways_server_def takeaways_prompt_server_def
  summary_line_server_def brandSummaries_server_def chartData_server_def report_of_server_def
  error_response_def takeScreenshot_def takeGoogleScreenshot_def or_empty_def visuals_of_def
  with_meta_def last_wins_def

lemma uncompared_audit_server:
  "audit_server \<lparr>net = \<lambda>u. None, shoot = \<lambda>u. None, shoot_google = \<lambda>q. None,
       llm = \<lambda>n. Some [TextBlock (if n < 4 then js ''{}'' else js ''Sorry, no answer'')]\<rparr>
     \<lparr>companyUrl = Some (js ''acme.com''), companyName = Some (js ''Acme''),
      competitors = Some [\<lparr>name = js ''Rival'', url = js ''rival.com''\<rparr>]\<rparr>
     \<lparr>requests = [], llm_calls = []\<rparr>
   = (error_response 500 ''Could not compare brands'',
      \<lparr>requests = [js ''https://acme.com'', js ''https://www.acme.com'',
                    js ''https://rival.com'', js ''https://www.rival.com''],
       llm_calls = [Messaging, FirstImpressions, Messaging, FirstImpressions, Comparator]\<rparr>)"
  by (simp add: server_defs act_defs value_defs reply_defs fetchWebsite_server_run
      server_extract_empty includes_str_def json_defs normalizeUrl_def www_url_def
      replace_str_def trim_def is_space_def js_def)

lemma uncompared_audit_fn:
  "audit_fn \<lparr>net = \<lambda>u. None, shoot = \<lambda>u. None, shoot_google = \<lambda>q. None,
       llm = \<lambda>n. Some [TextBlock (if n < 4 then js ''{}'' else js ''Sorry, no answer'')]\<rparr>
     \<lparr>httpMethod = js ''POST'',
      payload = Some \<lparr>companyUrl = Some (js ''acme.com''), companyName = Some (js ''Acme''),
                      competitors = Some [\<lparr>name = js ''Rival'', url = js ''rival.com''\<rparr>]\<rparr>\<rparr>
     \<lparr>requests = [], llm_calls = []\<rparr>
   = (\<lparr>statusCode = 200, headers = json_headers,
       body = Report
         \<lparr>score = Some (JNum (js ''50'')), verdict = Some (JStr []), overlaps = Some (JArr []),
          standouts = Some (JArr []), takeaways = JObj [],
          chart = \<lparr>columns = [js ''Category'', js ''Acme'', js ''Rival''],
                    rows = [\<lparr>category = js ''Positioning'',
                             values' = [Some (JStr [8212]), Some (JStr [8212])]\<rparr>,
                            \<lparr>category = js ''Voice'',
                             values' = [Some (JStr [8212]), Some (JStr [8212])]\<rparr>]\<rparr>,
          firstImpressions =
            [js ''Acme'' \<mapsto> JObj [(js ''metaTitle'', JStr []), (js ''metaDescription'', JStr [])]]
            ++ map_of [(js ''Rival'', JObj [])]\<rparr>\<rparr>,
      \<lparr>requests = [js ''https://acme.com'', js ''https://www.acme.com'',
                    js ''https://rival.com'', js ''https://www.rival.com''],
       llm_calls = [Messaging, FirstImpressions, Messaging, FirstImpressions, Comparator,
                    Takeaways]\<rparr>)"
  by (simp add: fn_defs act_defs value_defs reply_defs fetchWebsite_fn_run fn_extract_null
      json_defs normalizeUrl_def www_url_def replace_str_def trim_def is_space_def js_def)

lemma agreeable_audit_server:
  "audit_server \<lparr>net = \<lambda>u. None, shoot = \<lambda>u. Some (js ''shot''), shoot_google = \<lambda>q. None,
       llm = \<lambda>n. Some [TextBlock (js ''{}'')]\<rparr>
     \<lparr>companyUrl = Some (js ''acme.com''), companyName = Some (js ''Acme''),
      competitors = Some [\<lparr>name = js ''Rival'', url = js ''rival.com''\<rparr>]\<rparr>
     \<lparr>requests = [], llm_calls = []\<rparr>
   = (\<lparr>statusCode = 200, headers = json_headers,
       body = Report
         \<lparr>score = None, verdict = None, overlaps = None, standouts = None, takeaways = JObj [],
          chart = \<lparr>columns = [js ''Category'', js ''Acme'', js ''Rival''],
                    rows = [\<lparr>category = js ''Positioning'', values' = [None, None]\<rparr>,
                            \<lparr>category = js ''Voice'',
                             values' = [Some (JStr [8212]), Some (JStr [8212])]\<rparr>,
                            \<lparr>category = js ''Visual Style'',
                             values' = [Some (JStr []), Some (JStr [])]\<rparr>]\<rparr>,
          firstImpressions =
            [js ''Acme'' \<mapsto> JObj [(js ''metaTitle'', JStr []), (js ''metaDescription'', JStr [])]]
            ++ map_of [(js ''Rival'', JObj [(js ''metaTitle'', JStr []),
                                             (js ''metaDescription'', JStr [])])],
          screenshots =
            [js ''Acme'' \<mapsto> (js ''https://acme.com'', Some (js ''shot''))]
            ++ map_of [(js ''Rival'', (js ''https://rival.com'', Some (js ''shot'')))],
          googleScreenshots = [js ''Acme'' \<mapsto> None] ++ map_of [(js ''Rival'', None)]\<rparr>\<rparr>,
      \<lparr>requests = [js ''https://acme.com'', js ''https://www.acme.com'',
                    js ''https://rival.com'', js ''https://www.rival.com''],
       llm_calls = [Messaging, Visuals, FirstImpressions, Messaging, Visuals, FirstImpressions,
                    Comparator, Takeaways]\<rparr>)"
  by (simp add: server_defs act_defs value_defs reply_defs fetchWebsite_server_run
      server_extract_empty includes_str_def json_defs normalizeUrl_def www_url_def
      replace_str_def trim_def is_space_def js_def engine_defs)

lemma agreeable_audit_fn:
  "audit_fn \<lparr>net = \<lambda>u. None, shoot = \<lambda>u. Some (js ''shot''), shoot_google = \<lambda>q. None,
       llm = \<lambda>n. Some [TextBlock (js ''{}'')]\<rparr>
     \<lparr>httpMethod = js ''POST'',
      payload = Some \<lparr>companyUrl = Some (js ''acme.com''), companyName = Some (js ''Acme''),
                      competitors = Some [\<lparr>name = js ''Rival'', url = js ''rival.com''\<rparr>]\<rparr>\<rparr>
     \<lparr>requests = [], llm_calls = []\<rparr>
   = (\<lparr>statusCode = 200, headers = json_headers,
       body = Report
         \<lparr>score = Some (JNum (js ''50'')), verdict = Some (JStr []), overlaps = Some (JArr []),
          standouts = Some (JArr []), takeaways = JObj [],
          chart = \<lparr>columns = [js ''Category'', js ''Acme'', js ''Rival''],
                    rows = [\<lparr>category = js ''Positioning'',
                             values' = [Some (JStr [8212]), Some (JStr [8212])]\<rparr>,
                            \<lparr>category = js ''Voice'',
                             values' = [Some (JStr [8212]), Some (JStr [8212])]\<rparr>]\<rparr>,
          firstImpressions =
            [js ''Acme'' \<mapsto> JObj [(js ''metaTitle'', JStr []), (js ''metaDescription'', JStr [])]]
            ++ map_of [(js ''Rival'', JObj [])]\<rparr>\<rparr>,
      \<lparr>requests = [js ''https://acme.com'', js ''https://www.acme.com'',
                    js ''https://rival.com'', js ''https://www.rival.com''],
       llm_calls = [Messaging, FirstImpressions, Messaging, FirstImpressions, Comparator,
                    Takeaways]\<rparr>)"
  by (simp add: fn_defs act_defs value_defs reply_defs fetchWebsite_fn_run fn_extract_null
      json_defs normalizeUrl_def www_url_def replace_str_def trim_def is_space_def js_def)

section \<open>The checks of the audit and the chart\<close>

text \<open>
  Claim C1, as stated, fails in the audit function, which has no check of the focal
  messaging: in the silent world the Messaging reply of the focal company holds no JSON
  object, and the function goes on to call the Comparator and the Takeaway stage and
  answers 200.
\<close>

theorem audit_fn_goes_on_without_focal_messaging:
  "no_json_object [TextBlock (js ''Sorry, no answer'')]
   \<and> statusCode (fst (audit_fn
         \<lparr>net = \<lambda>u. None, shoot = \<lambda>u. None, shoot_google = \<lambda>q. None,
          llm = \<lambda>n. Some [TextBlock (js ''Sorry, no answer'')]\<rparr>
         \<lparr>httpMethod = js ''POST'',
          payload = Some \<lparr>companyUrl = Some (js ''acme.com''), companyName = Some (js ''Acme''),
                          competitors = Some [\<lparr>name = js ''Rival'', url = js ''rival.com''\<rparr>]\<rparr>\<rparr>
         \<lparr>requests = [], llm_calls = []\<rparr>)) = 200
   \<and> llm_calls (snd (audit_fn
         \<lparr>net = \<lambda>u. None, shoot = \<lambda>u. None, shoot_google = \<lambda>q. None,
          llm = \<lambda>n. Some [TextBlock (js ''Sorry, no answer'')]\<rparr>
         \<lparr>httpMethod = js ''POST'',
          payload = Some \<lparr>companyUrl = Some (js ''acme.com''), companyName = Some (js ''Acme''),
                          competitors = Some [\<lparr>name = js ''Rival'', url = js ''rival.com''\<rparr>]\<rparr>\<rparr>
         \<lparr>requests = [], llm_calls = []\<rparr>))
     = [Messaging, FirstImpressions, Messaging, FirstImpressions, Comparator, Takeaways]"
  by (simp add: silent_audit_fn) (simp add: brace_span_def js_def)

text \<open>
  Claim C1, amended to the server. For every audit request with its three fields, if the
  reply to the first call of the model (the Messaging call for the focal company) holds no
  JSON object, the handler answers 500, with the error \<^verbatim>\<open>Could not analyze your website\<close>
  or with an exception of the visuals or first-impression call that precede the check, and
  the audit issues no Comparator call and no Takeaway call.
\<close>

theorem server_audit_stops_without_focal_messaging:
  assumes "companyUrl req = Some cu" and "cu \<noteq> []" and "companyName req = Some cn"
    and "cn \<noteq> []" and "competitors req = Some cs" and "cs \<noteq> []"
    and "llm w (length (llm_calls t)) = Some bs" and "no_json_object bs"
  shows "statusCode (fst (audit_server w req t)) = 500
     \<and> (body (fst (audit_server w req t)) = Json (error_json ''Could not analyze your website'')
          \<or> (\<exists>e. body (fst (audit_server w req t)) = Thrown e))
     \<and> (\<exists>new. llm_calls (snd (audit_server w req t)) = llm_calls t @ new
            \<and> Comparator \<notin> set new \<and> Takeaways \<notin> set new)"
proof -
  obtain r t' where run: "run_audit_server w cu cn cs t = (r, t')"
    by (cases "run_audit_server w cu cn cs t")
  from assms(8) have null: "first_json_server bs = Inr None"
    by (simp add: first_json_server_null)
  from run_audit_server_outcome [OF run] obtain new where
    new: "llm_calls t' = llm_calls t @ new"
    and alt: "(set new \<subseteq> {Messaging, Visuals, FirstImpressions}
        \<and> (r = Inr (error_response 500 ''Could not analyze your website'') \<or> (\<exists>e. r = Inl e)))
      \<or> (\<exists>pre post bs v. new = pre @ Comparator # post
            \<and> set pre \<subseteq> {Messaging, Visuals, FirstImpressions}
            \<and> llm w (length (llm_calls t)) = Some bs
            \<and> first_json_server bs = Inr (Some v) \<and> truthy v
            \<and> compared cn (map name cs) (llm w (length (llm_calls t) + length pre)) r post)"
    by blast
  from alt assms(7) null have stop: "set new \<subseteq> {Messaging, Visuals, FirstImpressions}"
    and r: "r = Inr (error_response 500 ''Could not analyze your website'') \<or> (\<exists>e. r = Inl e)"
    by auto
  from stop have "Comparator \<notin> set new \<and> Takeaways \<notin> set new" by auto
  with new r run audit_server_valid [OF assms(1-6), of w t] show ?thesis
    by (auto simp: error_response_def)
qed

theorem server_audit_stops_without_focal_messaging_witness:
  "no_json_object [TextBlock (js ''Sorry, no answer'')]
   \<and> statusCode (fst (audit_server
         \<lparr>net = \<lambda>u. None, shoot = \<lambda>u. None, shoot_google = \<lambda>q. None,
          llm = \<lambda>n. Some [TextBlock (js ''Sorry, no answer'')]\<rparr>
         \<lparr>companyUrl = Some (js ''acme.com''), companyName = Some (js ''Acme''),
          competitors = Some [\<lparr>name = js ''Rival'', url = js ''rival.com''\<rparr>]\<rparr>
         \<lparr>requests = [], llm_calls = []\<rparr>)) = 500
   \<and> (\<exists>new. llm_calls (snd (audit_server
         \<lparr>net = \<lambda>u. None, shoot = \<lambda>u. None, shoot_google = \<lambda>q. None,
          llm = \<lambda>n. Some [TextBlock (js ''Sorry, no answer'')]\<rparr>
         \<lparr>companyUrl = Some (js ''acme.com''), companyName = Some (js ''Acme''),
          competitors = Some [\<lparr>name = js ''Rival'', url = js ''rival.com''\<rparr>]\<rparr>
         \<lparr>requests = [], llm_calls = []\<rparr>)) = [] @ new
        \<and> Comparator \<notin> set new \<and> Takeaways \<notin> set new)"
proof -
  let ?w = "\<lparr>net = \<lambda>u. None, shoot = \<lambda>u. None, shoot_google = \<lambda>q. None,
          llm = \<lambda>n. Some [TextBlock (js ''Sorry, no answer'')]\<rparr>"
  let ?req = "\<lparr>companyUrl = Some (js ''acme.com''), companyName = Some (js ''Acme''),
          competitors = Some [\<lparr>name = js ''Rival'', url = js ''rival.com''\<rparr>]\<rparr>"
  let ?t = "\<lparr>requests = [], llm_calls = []\<rparr>"
  have a: "no_json_object [TextBlock (js ''Sorry, no answer'')]"
    by (simp add: brace_span_def js_def)
  have 1: "companyUrl ?req = Some (js ''acme.com'')" and 2: "js ''acme.com'' \<noteq> []"
    and 3: "companyName ?req = Some (js ''Acme'')" and 4: "js ''Acme'' \<noteq> []"
    and 5: "competitors ?req = Some [\<lparr>name = js ''Rival'', url = js ''rival.com''\<rparr>]"
    and 6: "[\<lparr>name = js ''Rival'', url = js ''rival.com''\<rparr>] \<noteq> []"
    and 7: "llm ?w (length (llm_calls ?t)) = Some [TextBlock (js ''Sorry, no answer'')]"
    by (simp_all add: js_def)
  from server_audit_stops_without_focal_messaging [OF 1 2 3 4 5 6 7 a] a
  show ?thesis by simp
qed

text \<open>
  Claim C2, as stated, fails in the audit function, which replaces a \<^verbatim>\<open>null\<close> comparison
  by defaults: in the uncompared world the Comparator reply holds no JSON object, and the
  function still calls the Takeaway stage and answers 200 with a report of score 50.
\<close>

theorem audit_fn_reports_without_comparison:
  "no_json_object [TextBlock (js ''Sorry, no answer'')]
   \<and> (\<exists>rep t'. audit_fn
         \<lparr>net = \<lambda>u. None, shoot = \<lambda>u. None, shoot_google = \<lambda>q. None,
          llm = \<lambda>n. Some [TextBlock (if n < 4 then js ''{}'' else js ''Sorry, no answer'')]\<rparr>
         \<lparr>httpMethod = js ''POST'',
          payload = Some \<lparr>companyUrl = Some (js ''acme.com''), companyName = Some (js ''Acme''),
                          competitors = Some [\<lparr>name = js ''Rival'', url = js ''rival.com''\<rparr>]\<rparr>\<rparr>
         \<lparr>requests = [], llm_calls = []\<rparr>
       = (\<lparr>statusCode = 200, headers = json_headers, body = Report rep\<rparr>, t')
       \<and> score rep = Some (JNum (js ''50''))
       \<and> llm_calls t' = [Messaging, FirstImpressions, Messaging, FirstImpressions]
            @ Comparator # [Takeaways])"
  by (simp add: uncompared_audit_fn) (simp add: brace_span_def js_def)

text \<open>
  Claim C2, amended to the server. For every audit request with its three fields, if the
  audit reaches the Comparator and the reply to that call holds no JSON object, the
  response is the error \<^verbatim>\<open>Could not compare brands\<close> with status 500 and no call of the
  model follows the Comparator.
\<close>

theorem server_audit_fails_without_comparison:
  assumes "companyUrl req = Some cu" and "cu \<noteq> []" and "companyName req = Some cn"
    and "cn \<noteq> []" and "competitors req = Some cs" and "cs \<noteq> []"
    and "audit_server w req t = (resp, t')"
    and "llm_calls t' = llm_calls t @ pre @ Comparator # post"
    and "Comparator \<notin> set pre"
    and "llm w (length (llm_calls t) + length pre) = Some bs"
    and "no_json_object bs"
  shows "resp = error_response 500 ''Could not compare brands'' \<and> post = []"
proof -
  obtain r t1 where run: "run_audit_server w cu cn cs t = (r, t1)"
    by (cases "run_audit_server w cu cn cs t")
  with audit_server_valid [OF assms(1-6), of w t] assms(7) have t1: "t1 = t'"
    and resp: "\<And>x. r = Inr x \<Longrightarrow> resp = x"
    by (auto split: sum.splits)
  from run_audit_server_outcome [OF run] obtain new where
    new: "llm_calls t1 = llm_calls t @ new"
    and alt: "(set new \<subseteq> {Messaging, Visuals, FirstImpressions}
        \<and> (r = Inr (error_response 500 ''Could not analyze your website'') \<or> (\<exists>e. r = Inl e)))
      \<or> (\<exists>pre post bs v. new = pre @ Comparator # post
            \<and> set pre \<subseteq> {Messaging, Visuals, FirstImpressions}
            \<and> llm w (length (llm_calls t)) = Some bs
            \<and> first_json_server bs = Inr (Some v) \<and> truthy v
            \<and> compared cn (map name cs) (llm w (length (llm_calls t) + length pre)) r post)"
    by blast
  from new t1 assms(8) have eq: "new = pre @ Comparator # post" by simp
  then have "Comparator \<in> set new" by simp
  with alt obtain pre' post' where new': "new = pre' @ Comparator # post'"
    and pre': "set pre' \<subseteq> {Messaging, Visuals, FirstImpressions}"
    and cmp: "compared cn (map name cs) (llm w (length (llm_calls t) + length pre')) r post'"
    by auto
  from pre' have "Comparator \<notin> set pre'" by auto
  with append_first_occurrence [of pre Comparator post pre' post'] eq new' assms(9)
  have same: "pre = pre'" "post = post'" by simp_all
  from assms(11) have "last_json_server None bs = None" by (simp add: last_json_server_null)
  with cmp same assms(10)
  have "r = Inr (error_response 500 ''Could not compare brands'') \<and> post = []"
    by (simp add: compared_def)
  with resp show ?thesis by simp
qed

theorem server_audit_fails_without_comparison_witness:
  "no_json_object [TextBlock (js ''Sorry, no answer'')]
   \<and> Comparator \<notin> set [Messaging, FirstImpressions, Messaging, FirstImpressions]
   \<and> fst (audit_server
         \<lparr>net = \<lambda>u. None, shoot = \<lambda>u. None, shoot_google = \<lambda>q. None,
          llm = \<lambda>n. Some [TextBlock (if n < 4 then js ''{}'' else js ''Sorry, no answer'')]\<rparr>
         \<lparr>companyUrl = Some (js ''acme.com''), companyName = Some (js ''Acme''),
          competitors = Some [\<lparr>name = js ''Rival'', url = js ''rival.com''\<rparr>]\<rparr>
         \<lparr>requests = [], llm_calls = []\<rparr>)
       = error_response 500 ''Could not compare brands''"
proof -
  let ?w = "\<lparr>net = \<lambda>u. None, shoot = \<lambda>u. None, shoot_google = \<lambda>q. None,
          llm = \<lambda>n. Some [TextBlock (if n < 4 then js ''{}'' else js ''Sorry, no answer'')]\<rparr>"
  let ?req = "\<lparr>companyUrl = Some (js ''acme.com''), companyName = Some (js ''Acme''),
          competitors = Some [\<lparr>name = js ''Rival'', url = js ''rival.com''\<rparr>]\<rparr>"
  let ?t = "\<lparr>requests = [], llm_calls = []\<rparr>"
  let ?t' = "\<lparr>requests = [js ''https://acme.com'', js ''https://www.acme.com'',
                    js ''https://rival.com'', js ''https://www.rival.com''],
       llm_calls = [Messaging, FirstImpressions, Messaging, FirstImpressions, Comparator]\<rparr>"
  let ?pre = "[Messaging, FirstImpressions, Messaging, FirstImpressions]"
  have a: "no_json_object [TextBlock (js ''Sorry, no answer'')]"
    by (simp add: brace_span_def js_def)
  have 1: "companyUrl ?req = Some (js ''acme.com'')" and 2: "js ''acme.com'' \<noteq> []"
    and 3: "companyName ?req = Some (js ''Acme'')" and 4: "js ''Acme'' \<noteq> []"
    and 5: "competitors ?req = Some [\<lparr>name = js ''Rival'', url = js ''rival.com''\<rparr>]"
    and 6: "[\<lparr>name = js ''Rival'', url = js ''rival.com''\<rparr>] \<noteq> []"
    and 8: "llm_calls ?t' = llm_calls ?t @ ?pre @ Comparator # []"
    and 9: "Comparator \<notin> set ?pre"
    and 10: "llm ?w (length (llm_calls ?t) + length ?pre) = Some [TextBlock (js ''Sorry, no answer'')]"
    by (simp_all add: js_def)
  have 7: "audit_server ?w ?req ?t = (error_response 500 ''Could not compare brands'', ?t')"
    by (rule uncompared_audit_server)
  from server_audit_fails_without_comparison [OF 1 2 3 4 5 6 7 8 9 10 a] a 9 7
  show ?thesis by simp
qed

text \<open>
  Claim C9, as stated, fails in the audit function, whose chart has no \<^verbatim>\<open>Visual Style\<close>
  row: in the agreeable world the audit answers 200 and the chart has the two rows
  \<^verbatim>\<open>Positioning\<close> and \<^verbatim>\<open>Voice\<close>.
\<close>

theorem audit_fn_chart_has_two_rows:
  "\<exists>rep t'. audit_fn
         \<lparr>net = \<lambda>u. None, shoot = \<lambda>u. Some (js ''shot''), shoot_google = \<lambda>q. None,
          llm = \<lambda>n. Some [TextBlock (js ''{}'')]\<rparr>
         \<lparr>httpMethod = js ''POST'',
          payload = Some \<lparr>companyUrl = Some (js ''acme.com''), companyName = Some (js ''Acme''),
                          competitors = Some [\<lparr>name = js ''Rival'', url = js ''rival.com''\<rparr>]\<rparr>\<rparr>
         \<lparr>requests = [], llm_calls = []\<rparr>
       = (\<lparr>statusCode = 200, headers = json_headers, body = Report rep\<rparr>, t')
     \<and> map category (rows (chart rep)) = [js ''Positioning'', js ''Voice'']"
  by (simp add: agreeable_audit_fn)

text \<open>
  Claim C9, amended. For every audit request with its three fields that is answered with
  status 200, the body is a report whose chart has the columns \<^verbatim>\<open>Category\<close>, the focal
  brand name and the competitor names in the order of the request; in the server the rows
  are \<^verbatim>\<open>Positioning\<close>, \<^verbatim>\<open>Voice\<close>, \<^verbatim>\<open>Visual Style\<close>, in the audit function they are
  \<^verbatim>\<open>Positioning\<close>, \<^verbatim>\<open>Voice\<close>.
\<close>

theorem successful_audit_chart:
  assumes "companyUrl req = Some cu" and "cu \<noteq> []" and "companyName req = Some cn"
    and "cn \<noteq> []" and "competitors req = Some cs" and "cs \<noteq> []"
  shows "(statusCode (fst (audit_server w req t)) = 200 \<longrightarrow>
           (\<exists>rep. body (fst (audit_server w req t)) = Report rep
              \<and> columns (chart rep) = js ''Category'' # cn # map name cs
              \<and> map category (rows (chart rep))
                  = [js ''Positioning'', js ''Voice'', js ''Visual Style'']))
       \<and> (statusCode (fst (audit_fn w \<lparr>httpMethod = js ''POST'', payload = Some req\<rparr> t)) = 200 \<longrightarrow>
           (\<exists>rep. body (fst (audit_fn w \<lparr>httpMethod = js ''POST'', payload = Some req\<rparr> t)) = Report rep
              \<and> columns (chart rep) = js ''Category'' # cn # map name cs
              \<and> map category (rows (chart rep)) = [js ''Positioning'', js ''Voice'']))"
proof (intro conjI impI)
  assume ok: "statusCode (fst (audit_server w req t)) = 200"
  obtain r t1 where run: "run_audit_server w cu cn cs t = (r, t1)"
    by (cases "run_audit_server w cu cn cs t")
  from run audit_server_valid [OF assms, of w t] ok obtain x where x: "r = Inr x"
    "fst (audit_server w req t) = x" "statusCode x = 200"
    by (cases r) auto
  from run_audit_server_outcome [OF run] obtain new where
    alt: "(set new \<subseteq> {Messaging, Visuals, FirstImpressions}
        \<and> (r = Inr (error_response 500 ''Could not analyze your website'') \<or> (\<exists>e. r = Inl e)))
      \<or> (\<exists>pre post bs v. new = pre @ Comparator # post
            \<and> set pre \<subseteq> {Messaging, Visuals, FirstImpressions}
            \<and> llm w (length (llm_calls t)) = Some bs
            \<and> first_json_server bs = Inr (Some v) \<and> truthy v
            \<and> compared cn (map name cs) (llm w (length (llm_calls t) + length pre)) r post)"
    by blast
  from x(1,3) have "\<not> (r = Inr (error_response 500 ''Could not analyze your website'')
      \<or> (\<exists>e. r = Inl e))"
    by (auto simp: error_response_def)
  with alt obtain pre :: "stage list" and post where
    cmp: "compared cn (map name cs) (llm w (length (llm_calls t) + length pre)) r post"
    by blast
  from cmp x(1,3) obtain rep where
    "x = \<lparr>statusCode = 200, headers = json_headers, body = Report rep\<rparr>"
    "columns (chart rep) = js ''Category'' # cn # map name cs"
    "map category (rows (chart rep)) = [js ''Positioning'', js ''Voice'', js ''Visual Style'']"
    by (auto simp: compared_def error_response_def split: option.splits if_splits)
  with x(2) show "\<exists>rep. body (fst (audit_server w req t)) = Report rep
      \<and> columns (chart rep) = js ''Category'' # cn # map name cs
      \<and> map category (rows (chart rep)) = [js ''Positioning'', js ''Voice'', js ''Visual Style'']"
    by simp
next
  let ?ev = "\<lparr>httpMethod = js ''POST'', payload = Some req\<rparr>"
  assume ok: "statusCode (fst (audit_fn w ?ev t)) = 200"
  obtain r t1 where run: "run_audit_fn w cu cn cs t = (r, t1)"
    by (cases "run_audit_fn w cu cn cs t")
  from run audit_fn_valid [OF assms, of w t] ok obtain x where x: "r = Inr x"
    "fst (audit_fn w ?ev t) = x"
    by (cases r) auto
  from run x(1) have "run_audit_fn w cu cn cs t = (Inr x, t1)" by simp
  from run_audit_fn_chart [OF this] x(2)
  show "\<exists>rep. body (fst (audit_fn w ?ev t)) = Report rep
      \<and> columns (chart rep) = js ''Category'' # cn # map name cs
      \<and> map category (rows (chart rep)) = [js ''Positioning'', js ''Voice'']"
    by auto
qed

theorem successful_audit_chart_witness:
  "statusCode (fst (audit_server
         \<lparr>net = \<lambda>u. None, shoot = \<lambda>u. Some (js ''shot''), shoot_google = \<lambda>q. None,
          llm = \<lambda>n. Some [TextBlock (js ''{}'')]\<rparr>
         \<lparr>companyUrl = Some (js ''acme.com''), companyName = Some (js ''Acme''),
          competitors = Some [\<lparr>name = js ''Rival'', url = js ''rival.com''\<rparr>]\<rparr>
         \<lparr>requests = [], llm_calls = []\<rparr>)) = 200
   \<and> statusCode (fst (audit_fn
         \<lparr>net = \<lambda>u. None, shoot = \<lambda>u. Some (js ''shot''), shoot_google = \<lambda>q. None,
          llm = \<lambda>n. Some [TextBlock (js ''{}'')]\<rparr>
         \<lparr>httpMethod = js ''POST'',
          payload = Some \<lparr>companyUrl = Some (js ''acme.com''), companyName = Some (js ''Acme''),
                          competitors = Some [\<lparr>name = js ''Rival'', url = js ''rival.com''\<rparr>]\<rparr>\<rparr>
         \<lparr>requests = [], llm_calls = []\<rparr>)) = 200
   \<and> (\<exists>rep. body (fst (audit_server
         \<lparr>net = \<lambda>u. None, shoot = \<lambda>u. Some (js ''shot''), shoot_google = \<lambda>q. None,
          llm = \<lambda>n. Some [TextBlock (js ''{}'')]\<rparr>
         \<lparr>companyUrl = Some (js ''acme.com''), companyName = Some (js ''Acme''),
          competitors = Some [\<lparr>name = js ''Rival'', url = js ''rival.com''\<rparr>]\<rparr>
         \<lparr>requests = [], llm_calls = []\<rparr>)) = Report rep
        \<and> columns (chart rep) = [js ''Category'', js ''Acme'', js ''Rival'']
        \<and> map category (rows (chart rep))
            = [js ''Positioning'', js ''Voice'', js ''Visual Style''])"
proof -
  let ?w = "\<lparr>net = \<lambda>u. None, shoot = \<lambda>u. Some (js ''shot''), shoot_google = \<lambda>q. None,
          llm = \<lambda>n. Some [TextBlock (js ''{}'')]\<rparr>"
  let ?req = "\<lparr>companyUrl = Some (js ''acme.com''), companyName = Some (js ''Acme''),
          competitors = Some [\<lparr>name = js ''Rival'', url = js ''rival.com''\<rparr>]\<rparr>"
  let ?t = "\<lparr>requests = [], llm_calls = []\<rparr>"
  have 1: "companyUrl ?req = Some (js ''acme.com'')" and 2: "js ''acme.com'' \<noteq> []"
    and 3: "companyName ?req = Some (js ''Acme'')" and 4: "js ''Acme'' \<noteq> []"
    and 5: "competitors ?req = Some [\<lparr>name = js ''Rival'', url = js ''rival.com''\<rparr>]"
    and 6: "[\<lparr>name = js ''Rival'', url = js ''rival.com''\<rparr>] \<noteq> []"
    by (simp_all add: js_def)
  have s: "statusCode (fst (audit_server ?w ?req ?t)) = 200"
    by (simp add: agreeable_audit_server)
  have f: "statusCode (fst (audit_fn ?w \<lparr>httpMethod = js ''POST'', payload = Some ?req\<rparr> ?t)) = 200"
    by (simp add: agreeable_audit_fn)
  from successful_audit_chart [OF 1 2 3 4 5 6, of ?w ?t] s f
  show ?thesis by simp
qed

section \<open>The stages on every reply\<close>












end
